theory Spec2Isabelle
  imports Main "HOL-Library.AList" "HOL-Library.Sublist"
begin

section \<open>Errors\<close>

text \<open>
  Go errors as values. \<open>NotFound\<close> is an API-server error whose status reason is
  NotFound, \<open>Failure\<close> any other leaf error (\<open>errors.New\<close>, \<open>fmt.Errorf\<close> without
  \<open>%w\<close>, an error of a collaborator), \<open>Wrapped p e\<close> is \<open>fmt.Errorf(p + "%w", e)\<close> and
  \<open>Joined\<close> is what \<open>errors.Join\<close> builds. A nil error is \<open>None\<close>.
\<close>

datatype error =
    NotFound string
  | Failure string
  | Wrapped string error
  | Joined "error list"

fun join_lines :: "string list \<Rightarrow> string" where
  "join_lines [] = []"
| "join_lines [s] = s"
| "join_lines (s # t # ss) = s @ [CHR 0x0A] @ join_lines (t # ss)"

fun Error :: "error \<Rightarrow> string" where
  "Error (NotFound m) = m"
| "Error (Failure m) = m"
| "Error (Wrapped p e) = p @ Error e"
| "Error (Joined es) = join_lines (map Error es)"

fun IsNotFound :: "error \<Rightarrow> bool" where
  "IsNotFound (NotFound m) = True"
| "IsNotFound (Failure m) = False"
| "IsNotFound (Wrapped p e) = IsNotFound e"
| "IsNotFound (Joined es) = list_ex IsNotFound es"

definition errors_New :: "string \<Rightarrow> error" where
  "errors_New m = Failure m"

text \<open>\<open>errors.Join\<close> drops the nil arguments and is nil when nothing is left.\<close>

definition errors_Join :: "error option list \<Rightarrow> error option" where
  "errors_Join errs =
     (case List.map_filter id errs of [] \<Rightarrow> None | e # es \<Rightarrow> Some (Joined (e # es)))"

text \<open>The leaf errors a (possibly joined, possibly wrapped) error carries.\<close>

fun leaves :: "error \<Rightarrow> error list" where
  "leaves (NotFound m) = [NotFound m]"
| "leaves (Failure m) = [Failure m]"
| "leaves (Wrapped p e) = [Wrapped p e]"
| "leaves (Joined es) = concat (map leaves es)"

section \<open>Results of a pass\<close>

text \<open>
  \<open>ctrl.Result\<close>; durations are nanoseconds as in \<open>time.Duration\<close>. A function that can
  panic returns \<open>Panics\<close> instead of a value.
\<close>

record Result =
  Requeue :: bool
  RequeueAfter :: int

definition Result_zero :: Result where
  "Result_zero = \<lparr>Requeue = False, RequeueAfter = 0\<rparr>"

definition Second :: int where
  "Second = 1000000000"

definition DefaultRequeueInterval :: int where
  "DefaultRequeueInterval = 10 * Second"

datatype 'a exec = Panics | Returns 'a

section \<open>Finalizers (controllerutil)\<close>

definition AddFinalizer :: "string list \<Rightarrow> string \<Rightarrow> string list \<times> bool" where
  "AddFinalizer f finalizer =
     (if finalizer \<in> set f then (f, False) else (f @ [finalizer], True))"

definition RemoveFinalizer :: "string list \<Rightarrow> string \<Rightarrow> string list \<times> bool" where
  "RemoveFinalizer f finalizer =
     (let f' = filter (\<lambda>e. e \<noteq> finalizer) f in (f', length f \<noteq> length f'))"

text \<open>
  \<open>RemoveFinalizer\<close> filters the slice of finalizers in place: it walks the slice, copies
  every entry it keeps to the next free position of the same backing array, and sets the
  finalizers of the object to the front of that array. \<open>RemoveFinalizer_inplace\<close> is this
  loop: it returns the backing array as the loop leaves it and the number of entries kept.
  A copy of the object made before the call holds the same array at its old length, so it
  reads the whole array, not the finalizers the object had.
\<close>

definition RemoveFinalizer_inplace :: "string list \<Rightarrow> string \<Rightarrow> string list \<times> nat" where
  "RemoveFinalizer_inplace f finalizer =
     fold (\<lambda>i (f, index). if f ! i = finalizer then (f, index)
                           else (f[index := f ! i], index + 1))
       [0..<length f] (f, 0)"

section \<open>Object metadata\<close>

text \<open>
  \<open>metav1.ObjectMeta\<close>, as far as the controllers read it. \<open>Deleting\<close> says that the
  deletion timestamp is set. Labels are a Go map, kept as an association list. An API
  object is its metadata plus a spec and a status.
\<close>

record ObjectMeta =
  Name :: string
  Namespace :: string
  UID :: string
  Generation :: int
  Labels :: "(string \<times> string) list"
  Finalizers :: "string list"
  Deleting :: bool

record ('spec, 'status) Object = ObjectMeta +
  Spec :: 'spec
  Status :: 'status

text \<open>\<open>types.NamespacedName.String()\<close>.\<close>

definition NamespacedName_String :: "string \<Rightarrow> string \<Rightarrow> string" where
  "NamespacedName_String namespace name = namespace @ ''/'' @ name"

record GroupVersionKind =
  Group :: string
  Version :: string
  Kind :: string

record CrossNamespaceSourceReference =
  RefKind :: string
  RefName :: string
  RefNamespace :: string

section \<open>api/v1alpha1: Management\<close>

definition DefaultCoreHMCTemplate :: string where
  "DefaultCoreHMCTemplate = ''hmc''"

definition DefaultCoreCAPITemplate :: string where
  "DefaultCoreCAPITemplate = ''cluster-api''"

definition ManagementName :: string where
  "ManagementName = ''hmc''"

definition ManagementFinalizer :: string where
  "ManagementFinalizer = ''hmc.mirantis.com/management''"

text \<open>\<open>Config\<close> is the raw JSON of \<open>apiextensionsv1.JSON\<close>; a nil pointer is \<open>None\<close>.\<close>

record Component =
  Template :: string
  Config :: "string option"

record Core =
  HMC :: Component
  CAPI :: Component

definition DefaultCoreConfiguration :: Core where
  "DefaultCoreConfiguration =
     \<lparr>HMC = \<lparr>Component.Template = DefaultCoreHMCTemplate, Component.Config = None\<rparr>,
      CAPI = \<lparr>Component.Template = DefaultCoreCAPITemplate, Component.Config = None\<rparr>\<rparr>"

record ManagementSpec =
  Core :: "Core option"
  Providers :: "Component list"

definition HelmReleaseName :: "'a Component_scheme \<Rightarrow> string" where
  "HelmReleaseName c = Component.Template c"

text \<open>\<open>SetDefaults\<close> mutates its receiver: the model returns the new spec and the flag.\<close>

definition SetDefaults :: "ManagementSpec \<Rightarrow> ManagementSpec \<times> bool" where
  "SetDefaults m =
     (if Core m \<noteq> None then (m, False)
      else (m\<lparr>Core := Some DefaultCoreConfiguration\<rparr>, True))"

text \<open>\<open>hmc.Providers\<close>, the three provider lists of a template or of the Management status.\<close>

record ProvidersList =
  InfrastructureProviders :: "string list"
  BootstrapProviders :: "string list"
  ControlPlaneProviders :: "string list"

definition Providers_zero :: ProvidersList where
  "Providers_zero =
     \<lparr>InfrastructureProviders = [], BootstrapProviders = [], ControlPlaneProviders = []\<rparr>"

record ComponentStatus =
  Success :: bool
  Error_msg :: string

record ManagementStatus =
  ObservedGeneration :: int
  AvailableProviders :: ProvidersList
  Components :: "string \<rightharpoonup> ComponentStatus"

type_synonym Management = "(ManagementSpec, ManagementStatus) Object"


section \<open>api/v1alpha1: templates\<close>

text \<open>
  \<open>TemplateSpecCommon\<close> and \<open>TemplateStatusCommon\<close> are the shape shared by
  ClusterTemplate, ServiceTemplate and ProviderTemplate; the single-kind \<open>hmc.Template\<close>
  of the earlier sources carries a \<open>Type\<close> in its spec and status on top of them.
\<close>

record HelmSpec =
  ChartName :: string
  ChartVersion :: string
  ChartRef :: "CrossNamespaceSourceReference option"

record TemplateSpecCommon =
  Helm :: HelmSpec
  Providers :: ProvidersList

record TemplateSpec = TemplateSpecCommon +
  Type :: string

record TemplateStatusCommon =
  Valid :: bool
  ValidationError :: string
  Description :: string
  Config :: "string option"
  ChartRef :: "CrossNamespaceSourceReference option"
  Providers :: ProvidersList
  ObservedGeneration :: int

record TemplateStatus = TemplateStatusCommon +
  Type :: string

type_synonym Template = "(TemplateSpec, TemplateStatus) Object"
type_synonym ClusterTemplate = "(TemplateSpecCommon, TemplateStatusCommon) Object"
type_synonym ServiceTemplate = "(TemplateSpecCommon, TemplateStatusCommon) Object"

definition TemplateStatus_zero :: TemplateStatus where
  "TemplateStatus_zero =
     \<lparr>Valid = False, ValidationError = [], Description = [], Config = None,
      ChartRef = None, Providers = Providers_zero, ObservedGeneration = 0, Type = []\<rparr>"

section \<open>Conditions and Flux objects\<close>

text \<open>
  \<open>metav1.Condition\<close> without its timestamps. \<open>Status\<close> is a string in Go (\<open>"True"\<close>,
  \<open>"False"\<close>, \<open>"Unknown"\<close>, or whatever an infrastructure object reports).
\<close>

record Condition =
  Type :: string
  Status :: string
  Reason :: string
  Message :: string

definition ConditionTrue :: string where
  "ConditionTrue = ''True''"

definition ConditionFalse :: string where
  "ConditionFalse = ''False''"

definition ConditionUnknown :: string where
  "ConditionUnknown = ''Unknown''"

record HelmReleaseSpec =
  Suspend :: bool

record HelmReleaseStatus =
  Conditions :: "Condition list"

type_synonym HelmRelease = "(HelmReleaseSpec, HelmReleaseStatus) Object"

record OwnerReference =
  APIVersion :: string
  OwnerKind :: string
  OwnerName :: string
  OwnerUID :: string

record ReconcileHelmReleaseOpts =
  Values :: "string option"
  OwnerReference :: "OwnerReference option"
  ChartRef :: "CrossNamespaceSourceReference option"
  DependsOn :: "string list"
  TargetNamespace :: string
  CreateNamespace :: bool


section \<open>Decoded JSON\<close>

text \<open>
  A decoded JSON value (\<open>interface{}\<close> after \<open>json.Unmarshal\<close>); an object is a Go map,
  kept as an association list. The literal of a number is never inspected.
\<close>

datatype json =
    JNull
  | JBool bool
  | JNumber string
  | JString string
  | JArray "json list"
  | JObject "(string \<times> json) list"

section \<open>Flux sources, Helm charts, Sveltos options, partial metadata\<close>

record Artifact =
  URL :: string
  Revision :: string

record HelmChartSpec =
  Chart :: string
  Version :: string
  SourceRef_Kind :: string
  SourceRef_Name :: string

record HelmChartStatus =
  Artifact :: "Artifact option"

type_synonym HelmChart = "(HelmChartSpec, HelmChartStatus) Object"

record HelmRepositorySpec =
  URL :: string

type_synonym HelmRepository = "(HelmRepositorySpec, unit) Object"

text \<open>\<open>chart.Chart\<close> of Helm: its metadata (a pointer) and its default values.\<close>

record ChartMetadata =
  Annotations :: "(string \<times> string) list"
  Description :: string

record Chart =
  Metadata :: "ChartMetadata option"
  Values :: "(string \<times> json) list"

record HelmChartOpts =
  RepositoryURL :: string
  RepositoryName :: string
  ChartName :: string
  ChartVersion :: string
  ReleaseName :: string
  ReleaseNamespace :: string
  Values :: string
  CreateNamespace :: bool
  PlainHTTP :: bool
  Insecure :: bool

record ReconcileClusterProfileOpts =
  OwnerReference :: "OwnerReference option"
  HelmChartOpts :: "HelmChartOpts list"

record PartialObjectMetadata = ObjectMeta +
  TypeMeta :: GroupVersionKind

record ListOptions =
  LabelSelector :: "(string \<times> string) list"
  ListNamespace :: string
  Limit :: int

section \<open>api/v1alpha1: ManagedCluster\<close>

record ServiceSpec =
  Template :: string
  ReleaseName :: string
  ReleaseNamespace :: string
  Values :: string
  Install :: bool
  CreateNamespace :: bool
  PlainHTTP :: bool
  Insecure :: bool

record ManagedClusterSpec =
  Template :: string
  Config :: "string option"
  DryRun :: bool
  Services :: "ServiceSpec list"

record ManagedClusterStatus =
  ObservedGeneration :: int
  Conditions :: "Condition list"

type_synonym ManagedCluster = "(ManagedClusterSpec, ManagedClusterStatus) Object"

section \<open>api/v1alpha1: declarations that are not among the sources\<close>

text \<open>
  The controllers use constants and two methods of package \<open>api/v1alpha1\<close> whose
  declarations are not part of the sources at hand. They are taken as a parameter \<open>K\<close>:
  every result below holds for any values of them, under the distinctness it states.
  \<open>InitConditions\<close> gives the conditions the method leaves on an object that had none;
  \<open>HelmValues\<close> decodes the \<open>config\<close> of a ManagedCluster.
\<close>

record hmc =
  ProviderSveltosName :: string
  ProviderSveltosTargetNamespace :: string
  ProviderSveltosCreateNamespace :: bool
  HMCManagedLabelKey :: string
  HMCManagedLabelValue :: string
  ManagedClusterFinalizer :: string
  BlockingFinalizer :: string
  TemplateReadyCondition :: string
  HelmChartReadyCondition :: string
  HelmReleaseReadyCondition :: string
  ReadyCondition :: string
  FailedReason :: string
  SucceededReason :: string
  ProgressingReason :: string
  FluxHelmChartNameKey :: string
  FluxHelmChartNamespaceKey :: string
  ClusterNameLabelKey :: string
  GroupVersion_String :: string
  ManagedClusterKind :: string
  TemplateKind :: string
  ChartAnnotationType :: string
  ChartAnnotationInfraProviders :: string
  ChartAnnotationBootstrapProviders :: string
  ChartAnnotationControlPlaneProviders :: string
  TemplateTypeDeployment :: string
  TemplateTypeProvider :: string
  TemplateTypeCore :: string
  InitConditions :: "ManagedCluster \<Rightarrow> Condition list"
  HelmValues :: "ManagedClusterSpec \<Rightarrow> error + (string \<times> json) list"

section \<open>The reconcilers and their collaborators\<close>

text \<open>
  What every reconciler holds: its system namespace, and the answers of the API server to
  the requests all of them make. Each answer is a function of the request's arguments; a
  lookup takes the namespace and the name. \<open>'obj\<close> is the kind of object the reconciler
  owns, \<open>Get_object\<close> its lookup.
\<close>

record 'obj Reconciler =
  SystemNamespace :: string
  Client_Update :: "'obj \<Rightarrow> error option"
  Status_Update :: "'obj \<Rightarrow> error option"
  Get_HelmRelease :: "string \<Rightarrow> string \<Rightarrow> error + HelmRelease"
  Get_HelmChart :: "string \<Rightarrow> string \<Rightarrow> error + HelmChart"
  Get_object :: "string \<Rightarrow> string \<Rightarrow> error + 'obj"

text \<open>
  The calls a pass makes to the API server and to the packages around it, in the order it
  makes them (logging is left out). A patch carries the object and the copy it is
  compared against (\<open>client.MergeFrom\<close>).
\<close>

datatype 'obj call =
    Call_Client_Update 'obj
  | Call_Status_Update 'obj
  | Call_Get_Template string string
  | Call_Get_ClusterTemplate string string
  | Call_Get_ServiceTemplate string string
  | Call_Get_HelmRelease string string
  | Call_Get_HelmChart string string
  | Call_Get_HelmRepository string string
  | Call_Client_Update_HelmRelease HelmRelease
  | Call_ReconcileHelmRelease2 string string ReconcileHelmReleaseOpts
  | Call_ReconcileHelmRelease string string ReconcileHelmReleaseOpts
  | Call_DeleteHelmRelease string string
  | Call_ReconcileClusterProfile string string "(string \<times> string) list" ReconcileClusterProfileOpts
  | Call_DeleteClusterProfile string string
  | Call_VerifyAPI string
  | Call_EnsureDeleteAllOf GroupVersionKind "(string \<times> string) list"
  | Call_DownloadChartFromArtifact "Artifact option"
  | Call_Init string
  | Call_RunWithContext string string Chart "(string \<times> json) list"
  | Call_DynamicClient_List string "(string \<times> string) list"
  | Call_List GroupVersionKind ListOptions
  | Call_Patch PartialObjectMetadata PartialObjectMetadata
  | Call_ReconcileHelmRepository string string
  | Call_CreateOrUpdate_HelmChart HelmChart "OwnerReference list"
  | Call_Get_object string string
  | Call_ArtifactReady HelmChart
  | Call_downloadHelmChartFunc "Artifact option"

section \<open>internal/controller/management\_controller.go\<close>

subsection \<open>The reconciler and its collaborators\<close>

text \<open>
  The Management reconciler adds the lookups of templates and the packages it calls
  (\<open>helm\<close>, \<open>certmanager\<close>, \<open>utils\<close>, \<open>encoding/json\<close>), none of which is among the
  sources.
\<close>

record ManagementReconciler = "Management Reconciler" +
  Get_Template :: "string \<Rightarrow> string \<Rightarrow> error + Template"
  Client_Update_HelmRelease :: "HelmRelease \<Rightarrow> error option"
  helm_ReconcileHelmRelease2 :: "string \<Rightarrow> string \<Rightarrow> ReconcileHelmReleaseOpts \<Rightarrow> error option"
  certmanager_VerifyAPI :: "string \<Rightarrow> error option"
  utils_EnsureDeleteAllOf :: "GroupVersionKind \<Rightarrow> (string \<times> string) list \<Rightarrow> error option"
  json_Unmarshal :: "string \<Rightarrow> error + (string \<times> json) list"
  json_Marshal :: "(string \<times> json) list \<Rightarrow> error + string"

type_synonym mgmt_call = "Management call"

subsection \<open>wrappedComponents\<close>

record component = Component +
  dependsOn :: "string list"
  targetNamespace :: string
  createNamespace :: bool

definition wrap :: "Component \<Rightarrow> string list \<Rightarrow> component" where
  "wrap c deps =
     \<lparr>Component.Template = Component.Template c, Component.Config = Component.Config c,
      dependsOn = deps, targetNamespace = [], createNamespace = False\<rparr>"

definition wrappedProvider :: "hmc \<Rightarrow> Core \<Rightarrow> Component \<Rightarrow> component" where
  "wrappedProvider K core p =
     (let c = wrap p [Component.Template (CAPI core)] in
      if Component.Template p = ProviderSveltosName K
      then c\<lparr>targetNamespace := ProviderSveltosTargetNamespace K,
             createNamespace := ProviderSveltosCreateNamespace K\<rparr>
      else c)"

definition wrappedComponents :: "hmc \<Rightarrow> Management \<Rightarrow> component list" where
  "wrappedComponents K mgmt =
     (case Core (Spec mgmt) of
        None \<Rightarrow> []
      | Some core \<Rightarrow>
          [wrap (HMC core) [], wrap (CAPI core) [Component.Template (HMC core)]]
          @ map (wrappedProvider K core) (ManagementSpec.Providers (Spec mgmt)))"

subsection \<open>enableAdditionalComponents\<close>

text \<open>
  \<open>config[k]\<close> is nil for a missing key and for a JSON null; the type assertion
  \<open>.(map[string]interface{})\<close> panics on anything that is not an object.
\<close>

definition values_of :: "(string \<times> json) list \<Rightarrow> string \<Rightarrow> (string \<times> json) list exec" where
  "values_of config k =
     (case map_of config k of
        None \<Rightarrow> Returns []
      | Some JNull \<Rightarrow> Returns []
      | Some (JObject m) \<Rightarrow> Returns m
      | Some _ \<Rightarrow> Panics)"

definition enableAdditionalComponents ::
  "ManagementReconciler \<Rightarrow> Management \<Rightarrow> (Management \<times> error option) exec \<times> mgmt_call list" where
  "enableAdditionalComponents r mgmt =
     (case Core (Spec mgmt) of
        None \<Rightarrow> (Panics, [])
      | Some core \<Rightarrow>
         (case (case Component.Config (HMC core) of
                  None \<Rightarrow> Inr []
                | Some raw \<Rightarrow> json_Unmarshal r raw) of
            Inl err \<Rightarrow>
              (Returns (mgmt, Some (Failure
                 (''failed to unmarshal HMC config into map[string]interface{}: '' @ Error err))), [])
          | Inr config \<Rightarrow>
             (case values_of config ''admissionWebhook'' of
                Panics \<Rightarrow> (Panics, [])
              | Returns admissionWebhookValues \<Rightarrow>
                 (case values_of config ''cluster-api-operator'' of
                    Panics \<Rightarrow> (Panics, [])
                  | Returns capiOperatorValues \<Rightarrow>
                     (case certmanager_VerifyAPI r (SystemNamespace r) of
                        Some err \<Rightarrow>
                          (Returns (mgmt, Some (Failure
                             (''failed to check in the cert-manager API is installed: '' @ Error err))),
                           [Call_VerifyAPI (SystemNamespace r)])
                      | None \<Rightarrow>
                         (let admissionWebhookValues =
                                AList.update ''enabled'' (JBool True) admissionWebhookValues;
                              config = AList.update ''admissionWebhook''
                                (JObject admissionWebhookValues) config;
                              capiOperatorValues =
                                (if map_of capiOperatorValues ''enabled'' \<noteq> Some (JBool False)
                                 then AList.update ''enabled'' (JBool True) capiOperatorValues
                                 else capiOperatorValues);
                              config = AList.update ''cluster-api-operator''
                                (JObject capiOperatorValues) config
                          in case json_Marshal r config of
                               Inl err \<Rightarrow>
                                 (Returns (mgmt, Some (Failure
                                    (''failed to marshal HMC config: '' @ Error err))),
                                  [Call_VerifyAPI (SystemNamespace r)])
                             | Inr updatedConfig \<Rightarrow>
                                 (Returns
                                    (mgmt\<lparr>Spec := (Spec mgmt)\<lparr>Core := Some
                                       (core\<lparr>HMC := (HMC core)\<lparr>Component.Config :=
                                          Some updatedConfig\<rparr>\<rparr>)\<rparr>\<rparr>, None),
                                  [Call_VerifyAPI (SystemNamespace r)])))))))"

subsection \<open>updateComponentsStatus\<close>

definition updateComponentsStatus ::
  "(string \<rightharpoonup> ComponentStatus) \<Rightarrow> ProvidersList \<Rightarrow> string \<Rightarrow> TemplateStatus \<Rightarrow> string
   \<Rightarrow> (string \<rightharpoonup> ComponentStatus) \<times> ProvidersList" where
  "updateComponentsStatus components providers componentName templateStatus err =
     (components(componentName \<mapsto> \<lparr>Success = (err = []), Error_msg = err\<rparr>),
      if err = [] then
        providers\<lparr>
          InfrastructureProviders := InfrastructureProviders providers
            @ InfrastructureProviders (TemplateStatusCommon.Providers templateStatus),
          BootstrapProviders := BootstrapProviders providers
            @ BootstrapProviders (TemplateStatusCommon.Providers templateStatus),
          ControlPlaneProviders := ControlPlaneProviders providers
            @ ControlPlaneProviders (TemplateStatusCommon.Providers templateStatus)\<rparr>
      else providers)"


subsection \<open>Update\<close>

text \<open>
  The state of the loop over the components: the joined error so far, the detected
  providers, the detected components and the calls made.
\<close>

type_synonym components_state =
  "error option \<times> ProvidersList \<times> (string \<rightharpoonup> ComponentStatus) \<times> mgmt_call list"

text \<open>The options \<open>Update\<close> passes to \<open>helm.ReconcileHelmRelease2\<close> for a component.\<close>

definition release_opts :: "component \<Rightarrow> Template \<Rightarrow> ReconcileHelmReleaseOpts" where
  "release_opts c t =
     \<lparr>ReconcileHelmReleaseOpts.Values = Component.Config c,
      ReconcileHelmReleaseOpts.OwnerReference = None,
      ReconcileHelmReleaseOpts.ChartRef = TemplateStatusCommon.ChartRef (Object.Status t),
      DependsOn = dependsOn c, TargetNamespace = targetNamespace c,
      ReconcileHelmReleaseOpts.CreateNamespace = createNamespace c\<rparr>"

text \<open>One iteration of \<open>for _, component := range components\<close>.\<close>

definition Update_component ::
  "ManagementReconciler \<Rightarrow> component \<Rightarrow> components_state \<Rightarrow> components_state" where
  "Update_component r c st =
     (case st of (errs, detectedProviders, detectedComponents, calls) \<Rightarrow>
      (case Get_Template r (SystemNamespace r) (Component.Template c) of
         Inl err \<Rightarrow>
           (let errMsg = ''Failed to get Template '' @ SystemNamespace r @ ''/'' @ Component.Template c
                  @ '': '' @ Error err;
                (dc, dp) = updateComponentsStatus detectedComponents detectedProviders
                  (Component.Template c) TemplateStatus_zero errMsg
            in (errors_Join [errs, Some (errors_New errMsg)], dp, dc,
                calls @ [Call_Get_Template (SystemNamespace r) (Component.Template c)]))
       | Inr template \<Rightarrow>
           if \<not> Valid (Object.Status template) then
             (let errMsg = ''Template '' @ SystemNamespace r @ ''/'' @ Component.Template c
                    @ '' is not marked as valid'';
                  (dc, dp) = updateComponentsStatus detectedComponents detectedProviders
                    (Component.Template c) (Object.Status template) errMsg
              in (errors_Join [errs, Some (errors_New errMsg)], dp, dc,
                  calls @ [Call_Get_Template (SystemNamespace r) (Component.Template c)]))
           else
             (let opts = release_opts c template;
                  calls' = calls @ [Call_Get_Template (SystemNamespace r) (Component.Template c),
                      Call_ReconcileHelmRelease2 (HelmReleaseName c) (SystemNamespace r) opts]
              in case helm_ReconcileHelmRelease2 r (HelmReleaseName c) (SystemNamespace r) opts of
                   Some err \<Rightarrow>
                     (let errMsg = ''error reconciling HelmRelease '' @ SystemNamespace r @ ''/''
                            @ Component.Template c @ '': '' @ Error err;
                          (dc, dp) = updateComponentsStatus detectedComponents detectedProviders
                            (Component.Template c) (Object.Status template) errMsg
                      in (errors_Join [errs, Some (errors_New errMsg)], dp, dc, calls'))
                 | None \<Rightarrow>
                     (let (dc, dp) = updateComponentsStatus detectedComponents detectedProviders
                            (Component.Template c) (Object.Status template) []
                      in (errs, dp, dc, calls')))))"

fun Update_components ::
  "ManagementReconciler \<Rightarrow> component list \<Rightarrow> components_state \<Rightarrow> components_state" where
  "Update_components r [] st = st"
| "Update_components r (c # cs) st = Update_components r cs (Update_component r c st)"

definition Management_Update ::
  "hmc \<Rightarrow> ManagementReconciler \<Rightarrow> Management
   \<Rightarrow> (Management \<times> Result \<times> error option) exec \<times> mgmt_call list" where
  "Management_Update K r management0 =
     (let (fs, finalizersUpdated) = AddFinalizer (Finalizers management0) ManagementFinalizer;
          management1 = management0\<lparr>Finalizers := fs\<rparr>
      in
      if finalizersUpdated then
        (case Client_Update r management1 of
           Some err \<Rightarrow>
             (Returns (management1, Result_zero, Some (Wrapped
                (''failed to update Management '' @ Name management1 @ '': '') err)),
              [Call_Client_Update management1])
         | None \<Rightarrow> (Returns (management1, Result_zero, None), [Call_Client_Update management1]))
      else
        (let (spec, changed) = SetDefaults (Spec management1);
             management2 = management1\<lparr>Spec := spec\<rparr>
         in
         if changed then
           (Returns (management2, Result_zero, Client_Update r management2),
            [Call_Client_Update management2])
         else
           (case enableAdditionalComponents r management2 of
              (Panics, calls) \<Rightarrow> (Panics, calls)
            | (Returns (management3, Some err), calls) \<Rightarrow>
                (Returns (management3, Result_zero, Some err), calls)
            | (Returns (management3, None), calls) \<Rightarrow>
                (case Update_components r (wrappedComponents K management3)
                        (None, Providers_zero, Map.empty, calls) of
                   (errs, detectedProviders, detectedComponents, calls') \<Rightarrow>
                     (let management4 = management3\<lparr>Object.Status :=
                            \<lparr>ManagementStatus.ObservedGeneration = Generation management3,
                             AvailableProviders = detectedProviders,
                             Components = detectedComponents\<rparr>\<rparr>;
                          errs' = (case Status_Update r management4 of
                                     Some err \<Rightarrow> errors_Join [errs, Some (Wrapped
                                       (''failed to update status for Management ''
                                          @ Name management4 @ '': '') err)]
                                   | None \<Rightarrow> errs)
                      in (Returns (management4, Result_zero, errs'),
                          calls' @ [Call_Status_Update management4]))))))"

subsection \<open>Delete\<close>

definition gvk_HelmRelease :: GroupVersionKind where
  "gvk_HelmRelease =
     \<lparr>Group = ''helm.toolkit.fluxcd.io'', Version = ''v2'', Kind = ''HelmRelease''\<rparr>"

definition gvk_HelmChart :: GroupVersionKind where
  "gvk_HelmChart =
     \<lparr>Group = ''source.toolkit.fluxcd.io'', Version = ''v1'', Kind = ''HelmChart''\<rparr>"

definition gvk_HelmRepository :: GroupVersionKind where
  "gvk_HelmRepository =
     \<lparr>Group = ''source.toolkit.fluxcd.io'', Version = ''v1'', Kind = ''HelmRepository''\<rparr>"

definition removeHelmReleases ::
  "ManagementReconciler \<Rightarrow> string \<Rightarrow> (string \<times> string) list \<Rightarrow> error option \<times> mgmt_call list" where
  "removeHelmReleases r hmcReleaseName opts =
     (let get = [Call_Get_HelmRelease (SystemNamespace r) hmcReleaseName];
          deleteAll = (utils_EnsureDeleteAllOf r gvk_HelmRelease opts,
                       [Call_EnsureDeleteAllOf gvk_HelmRelease opts])
      in case Get_HelmRelease r (SystemNamespace r) hmcReleaseName of
           Inl err \<Rightarrow>
             if \<not> IsNotFound err then (Some err, get)
             else (fst deleteAll, get @ snd deleteAll)
         | Inr hmcRelease \<Rightarrow>
             if \<not> Suspend (Spec hmcRelease) then
               (let hmcRelease' = hmcRelease\<lparr>Spec := (Spec hmcRelease)\<lparr>Suspend := True\<rparr>\<rparr>;
                    upd = [Call_Client_Update_HelmRelease hmcRelease']
                in case Client_Update_HelmRelease r hmcRelease' of
                     Some err \<Rightarrow> (Some err, get @ upd)
                   | None \<Rightarrow> (fst deleteAll, get @ upd @ snd deleteAll))
             else (fst deleteAll, get @ snd deleteAll))"

definition removeHelmCharts ::
  "ManagementReconciler \<Rightarrow> (string \<times> string) list \<Rightarrow> error option \<times> mgmt_call list" where
  "removeHelmCharts r opts =
     (utils_EnsureDeleteAllOf r gvk_HelmChart opts, [Call_EnsureDeleteAllOf gvk_HelmChart opts])"

definition removeHelmRepositories ::
  "ManagementReconciler \<Rightarrow> (string \<times> string) list \<Rightarrow> error option \<times> mgmt_call list" where
  "removeHelmRepositories r opts =
     (utils_EnsureDeleteAllOf r gvk_HelmRepository opts,
      [Call_EnsureDeleteAllOf gvk_HelmRepository opts])"

text \<open>
  \<open>management.Spec.Core.HMC\<close> dereferences the \<open>Core\<close> pointer: the pass panics when it
  is nil.
\<close>

definition Management_Delete ::
  "hmc \<Rightarrow> ManagementReconciler \<Rightarrow> Management
   \<Rightarrow> (Management \<times> Result \<times> error option) exec \<times> mgmt_call list" where
  "Management_Delete K r management =
     (let listOpts = [(HMCManagedLabelKey K, HMCManagedLabelValue K)] in
      case Core (Spec management) of
        None \<Rightarrow> (Panics, [])
      | Some core \<Rightarrow>
         (case removeHelmReleases r (HelmReleaseName (HMC core)) listOpts of
            (Some err, c1) \<Rightarrow> (Returns (management, Result_zero, Some err), c1)
          | (None, c1) \<Rightarrow>
             (case removeHelmCharts r listOpts of
                (Some err, c2) \<Rightarrow> (Returns (management, Result_zero, Some err), c1 @ c2)
              | (None, c2) \<Rightarrow>
                 (case removeHelmRepositories r listOpts of
                    (Some err, c3) \<Rightarrow>
                      (Returns (management, Result_zero, Some err), c1 @ c2 @ c3)
                  | (None, c3) \<Rightarrow>
                     (let (fs, removed) = RemoveFinalizer (Finalizers management) ManagementFinalizer;
                          management' = management\<lparr>Finalizers := fs\<rparr>
                      in if removed then
                           (Returns (management', Result_zero, Client_Update r management'),
                            c1 @ c2 @ c3 @ [Call_Client_Update management'])
                         else (Returns (management', Result_zero, None), c1 @ c2 @ c3))))))"
section \<open>internal/controller/managedcluster\_controller.go\<close>

subsection \<open>The reconciler and its collaborators\<close>

text \<open>
  The ManagedCluster reconciler adds the lookups of templates and repositories, the list
  and patch requests of the teardown, the dynamic client and the packages it calls
  (\<open>helm\<close>, Helm's \<open>action\<close>, \<open>sveltos\<close>, \<open>unstructured\<close>), none of which is among the
  sources. The dynamic client returns a list pointer and an error.
\<close>

record ManagedClusterReconciler = "ManagedCluster Reconciler" +
  Get_ClusterTemplate :: "string \<Rightarrow> string \<Rightarrow> error + ClusterTemplate"
  Get_ServiceTemplate :: "string \<Rightarrow> string \<Rightarrow> error + ServiceTemplate"
  Get_HelmRepository :: "string \<Rightarrow> string \<Rightarrow> error + HelmRepository"
  helm_DownloadChartFromArtifact :: "Artifact option \<Rightarrow> error + Chart"
  action_Init :: "string \<Rightarrow> error option"
  install_RunWithContext :: "string \<Rightarrow> string \<Rightarrow> Chart \<Rightarrow> (string \<times> json) list \<Rightarrow> error option"
  helm_ReconcileHelmRelease :: "string \<Rightarrow> string \<Rightarrow> ReconcileHelmReleaseOpts \<Rightarrow> error + HelmRelease"
  helm_DeleteHelmRelease :: "string \<Rightarrow> string \<Rightarrow> error option"
  sveltos_ReconcileClusterProfile ::
    "string \<Rightarrow> string \<Rightarrow> (string \<times> string) list \<Rightarrow> ReconcileClusterProfileOpts \<Rightarrow> error option"
  sveltos_DeleteClusterProfile :: "string \<Rightarrow> string \<Rightarrow> error option"
  DynamicClient_List ::
    "string \<Rightarrow> (string \<times> string) list \<Rightarrow> (string \<times> json) list list option \<times> error option"
  NestedSlice_status_conditions :: "(string \<times> json) list \<Rightarrow> json list \<times> bool \<times> error option"
  FromUnstructured :: "(string \<times> json) list \<Rightarrow> error + Condition"
  Client_List :: "GroupVersionKind \<Rightarrow> ListOptions \<Rightarrow> error + PartialObjectMetadata list"
  Client_Patch :: "PartialObjectMetadata \<Rightarrow> PartialObjectMetadata \<Rightarrow> error option"

type_synonym mc_call = "ManagedCluster call"

record providerSchema =
  machine :: GroupVersionKind
  cluster :: GroupVersionKind

definition gvkAWSCluster :: GroupVersionKind where
  "gvkAWSCluster =
     \<lparr>Group = ''infrastructure.cluster.x-k8s.io'', Version = ''v1beta2'', Kind = ''awscluster''\<rparr>"

definition gvkAzureCluster :: GroupVersionKind where
  "gvkAzureCluster =
     \<lparr>Group = ''infrastructure.cluster.x-k8s.io'', Version = ''v1beta1'', Kind = ''azurecluster''\<rparr>"

definition gvkMachine :: GroupVersionKind where
  "gvkMachine = \<lparr>Group = ''cluster.x-k8s.io'', Version = ''v1beta1'', Kind = ''machine''\<rparr>"

subsection \<open>Conditions (apimeta, fluxconditions)\<close>

fun FindStatusCondition :: "Condition list \<Rightarrow> string \<Rightarrow> Condition option" where
  "FindStatusCondition [] conditionType = None"
| "FindStatusCondition (c # cs) conditionType =
     (if Condition.Type c = conditionType then Some c else FindStatusCondition cs conditionType)"

text \<open>
  \<open>apimeta.SetStatusCondition\<close>: the first condition of that type takes the new status,
  reason and message; a new type is appended.
\<close>

fun SetStatusCondition :: "Condition list \<Rightarrow> Condition \<Rightarrow> Condition list" where
  "SetStatusCondition [] newCondition = [newCondition]"
| "SetStatusCondition (c # cs) newCondition =
     (if Condition.Type c = Condition.Type newCondition
      then c\<lparr>Condition.Status := Condition.Status newCondition, Reason := Reason newCondition,
             Message := Message newCondition\<rparr> # cs
      else c # SetStatusCondition cs newCondition)"

text \<open>\<open>apimeta.SetStatusCondition(managedCluster.GetConditions(), c)\<close>.\<close>

definition setCondition :: "ManagedCluster \<Rightarrow> Condition \<Rightarrow> ManagedCluster" where
  "setCondition managedCluster c =
     managedCluster\<lparr>Object.Status := (Object.Status managedCluster)
       \<lparr>ManagedClusterStatus.Conditions :=
          SetStatusCondition (ManagedClusterStatus.Conditions (Object.Status managedCluster)) c\<rparr>\<rparr>"

definition fluxmeta_ReadyCondition :: string where
  "fluxmeta_ReadyCondition = ''Ready''"

definition fluxconditions_Get :: "HelmRelease \<Rightarrow> string \<Rightarrow> Condition option" where
  "fluxconditions_Get hr t = FindStatusCondition (HelmReleaseStatus.Conditions (Object.Status hr)) t"

definition fluxconditions_IsReady :: "HelmRelease \<Rightarrow> bool" where
  "fluxconditions_IsReady hr =
     (case fluxconditions_Get hr fluxmeta_ReadyCondition of
        None \<Rightarrow> False
      | Some c \<Rightarrow> Condition.Status c = ConditionTrue)"

subsection \<open>setStatusFromClusterStatus\<close>

text \<open>
  The loop over the conditions of the Cluster object: the ManagedCluster with the
  conditions copied so far, the flag \<open>allConditionsComplete\<close>, and the error that ends it.
  The cast error formats a nil error with \<open>%w\<close>.
\<close>

fun copyConditions ::
  "ManagedClusterReconciler \<Rightarrow> json list \<Rightarrow> ManagedCluster \<Rightarrow> bool
   \<Rightarrow> ManagedCluster \<times> bool \<times> error option" where
  "copyConditions r [] managedCluster allConditionsComplete =
     (managedCluster, allConditionsComplete, None)"
| "copyConditions r (condition # conditions) managedCluster allConditionsComplete =
     (case condition of
        JObject conditionMap \<Rightarrow>
          (case FromUnstructured r conditionMap of
             Inl err \<Rightarrow>
               (managedCluster, allConditionsComplete, Some (Wrapped
                  (''failed to convert unstructured conditions to metav1.Condition for managedCluster ''
                     @ Namespace managedCluster @ '' in namespace: '' @ Name managedCluster @ '': '') err))
           | Inr metaCondition \<Rightarrow>
               (let complete = (if Condition.Status metaCondition \<noteq> ''True'' then False
                                else allConditionsComplete);
                    metaCondition' =
                      (if Reason metaCondition = [] \<and> Condition.Status metaCondition = ''True''
                       then metaCondition\<lparr>Reason := ''Succeeded''\<rparr> else metaCondition)
                in copyConditions r conditions (setCondition managedCluster metaCondition') complete))
      | _ \<Rightarrow>
          (managedCluster, allConditionsComplete, Some (Failure
             (''failed to cast condition to map[string]interface{} for managedCluster: ''
                @ Namespace managedCluster @ '' in namespace: '' @ Name managedCluster
                @ '': %!w(<nil>)''))))"

definition setStatusFromClusterStatus ::
  "hmc \<Rightarrow> ManagedClusterReconciler \<Rightarrow> ManagedCluster
   \<Rightarrow> (ManagedCluster \<times> (bool \<times> error option) exec) \<times> mc_call list" where
  "setStatusFromClusterStatus K r managedCluster =
     (let selector = [(FluxHelmChartNameKey K, Name managedCluster)];
          calls = [Call_DynamicClient_List (Namespace managedCluster) selector];
          info = ''failed to get cluster information for managedCluster ''
                   @ Namespace managedCluster @ '' in namespace: '' @ Name managedCluster @ '': ''
      in case DynamicClient_List r (Namespace managedCluster) selector of
           (list, err) \<Rightarrow>
             if (case err of Some e \<Rightarrow> IsNotFound e | None \<Rightarrow> False)
             then ((managedCluster, Returns (True, None)), calls)
             else
               (case list of
                  None \<Rightarrow> ((managedCluster, Panics), calls)
                | Some [] \<Rightarrow> ((managedCluster, Returns (True, None)), calls)
                | Some (item # items) \<Rightarrow>
                   (case err of
                      Some e \<Rightarrow> ((managedCluster, Returns (True, Some (Wrapped info e))), calls)
                    | None \<Rightarrow>
                       (case NestedSlice_status_conditions r item of
                          (conditions, found, Some e) \<Rightarrow>
                            ((managedCluster, Returns (True, Some (Wrapped info e))), calls)
                        | (conditions, found, None) \<Rightarrow>
                            if \<not> found then
                              ((managedCluster, Returns (True, Some (Failure
                                  (info @ ''status.conditions not found'')))), calls)
                            else
                              (case copyConditions r conditions managedCluster True of
                                 (managedCluster', complete, Some e) \<Rightarrow>
                                   ((managedCluster', Returns (True, Some e)), calls)
                               | (managedCluster', complete, None) \<Rightarrow>
                                   ((managedCluster', Returns (\<not> complete, None)), calls))))))"

subsection \<open>getSource, validateReleaseWithValues\<close>

definition getSource ::
  "ManagedClusterReconciler \<Rightarrow> CrossNamespaceSourceReference option
   \<Rightarrow> (error + HelmChart) \<times> mc_call list" where
  "getSource r ref =
     (case ref of
        None \<Rightarrow> (Inl (Failure ''helm chart source is not provided''), [])
      | Some ref' \<Rightarrow>
          (Get_HelmChart r (RefNamespace ref') (RefName ref'),
           [Call_Get_HelmChart (RefNamespace ref') (RefName ref')]))"

definition validateReleaseWithValues ::
  "hmc \<Rightarrow> ManagedClusterReconciler \<Rightarrow> ManagedCluster \<Rightarrow> Chart \<Rightarrow> error option \<times> mc_call list" where
  "validateReleaseWithValues K r managedCluster hcChart =
     (case HelmValues K (Spec managedCluster) of
        Inl err \<Rightarrow> (Some err, [])
      | Inr vals \<Rightarrow>
          (install_RunWithContext r (Name managedCluster) (Namespace managedCluster) hcChart vals,
           [Call_RunWithContext (Name managedCluster) (Namespace managedCluster) hcChart vals]))"

subsection \<open>updateStatus\<close>

text \<open>The loop that collects the messages of the Unknown and of the False conditions.\<close>

fun updateStatus_messages :: "hmc \<Rightarrow> Condition list \<Rightarrow> string \<times> string \<Rightarrow> string \<times> string" where
  "updateStatus_messages K [] (warnings, errs) = (warnings, errs)"
| "updateStatus_messages K (condition # conditions) (warnings, errs) =
     (if Condition.Type condition = ReadyCondition K
      then updateStatus_messages K conditions (warnings, errs)
      else updateStatus_messages K conditions
        (if Condition.Status condition = ConditionUnknown
         then warnings @ Message condition @ ''. '' else warnings,
         if Condition.Status condition = ConditionFalse
         then errs @ Message condition @ ''. '' else errs))"

definition ManagedCluster_updateStatus ::
  "hmc \<Rightarrow> ManagedClusterReconciler \<Rightarrow> ManagedCluster
   \<Rightarrow> ManagedCluster \<times> error option \<times> mc_call list" where
  "ManagedCluster_updateStatus K r managedCluster0 =
     (let managedCluster1 = managedCluster0\<lparr>Object.Status := (Object.Status managedCluster0)
            \<lparr>ManagedClusterStatus.ObservedGeneration := Generation managedCluster0\<rparr>\<rparr>;
          (warnings, errs) = updateStatus_messages K
            (ManagedClusterStatus.Conditions (Object.Status managedCluster1)) ([], []);
          condition0 = \<lparr>Condition.Type = ReadyCondition K, Condition.Status = ConditionTrue,
                        Reason = SucceededReason K, Message = ''ManagedCluster is ready''\<rparr>;
          condition1 = (if warnings \<noteq> []
                        then condition0\<lparr>Condition.Status := ConditionUnknown,
                               Reason := ProgressingReason K, Message := warnings\<rparr>
                        else condition0);
          condition2 = (if errs \<noteq> []
                        then condition1\<lparr>Condition.Status := ConditionFalse,
                               Reason := FailedReason K, Message := errs\<rparr>
                        else condition1);
          managedCluster2 = setCondition managedCluster1 condition2
      in case Status_Update r managedCluster2 of
           Some err \<Rightarrow>
             (managedCluster2,
              Some (Wrapped (''failed to update status for managedCluster ''
                 @ Namespace managedCluster2 @ ''/'' @ Name managedCluster2 @ '': '') err),
              [Call_Status_Update managedCluster2])
         | None \<Rightarrow> (managedCluster2, None, [Call_Status_Update managedCluster2]))"

subsection \<open>updateServices, getServiceTemplateRepoURL\<close>

definition getServiceTemplateRepoURL ::
  "ManagedClusterReconciler \<Rightarrow> ServiceTemplate \<Rightarrow> (error + string) \<times> mc_call list" where
  "getServiceTemplateRepoURL r tmpl =
     (let tmplRef = NamespacedName_String (Namespace tmpl) (Name tmpl) in
      case TemplateStatusCommon.ChartRef (Object.Status tmpl) of
        None \<Rightarrow>
          (Inl (Failure (''status for ServiceTemplate ('' @ tmplRef @ '') has not been updated yet'')),
           [])
      | Some chartRef \<Rightarrow>
         (let getChart = Call_Get_HelmChart (RefNamespace chartRef)
                (HelmSpec.ChartName (Helm (Spec tmpl)))
          in case Get_HelmChart r (RefNamespace chartRef) (HelmSpec.ChartName (Helm (Spec tmpl))) of
               Inl err \<Rightarrow> (Inl (Failure (''failed to get HelmChart ('' @ tmplRef @ '')'')), [getChart])
             | Inr chart \<Rightarrow>
                (let getRepo = Call_Get_HelmRepository (Namespace chart) (SourceRef_Name (Spec chart))
                 in case Get_HelmRepository r (Namespace chart) (SourceRef_Name (Spec chart)) of
                      Inl err \<Rightarrow>
                        (Inl (Failure (''failed to get HelmRepository ('' @ tmplRef @ '')'')),
                         [getChart, getRepo])
                    | Inr repo \<Rightarrow> (Inr (HelmRepositorySpec.URL (Spec repo)), [getChart, getRepo]))))"

text \<open>The entry \<open>updateServices\<close> builds for a service.\<close>

definition service_opts :: "ServiceSpec \<Rightarrow> ServiceTemplate \<Rightarrow> string \<Rightarrow> HelmChartOpts" where
  "service_opts svc tmpl url =
     \<lparr>RepositoryURL = url,
      RepositoryName = HelmSpec.ChartName (Helm (Spec tmpl)),
      HelmChartOpts.ChartName = HelmSpec.ChartName (Helm (Spec tmpl)),
      HelmChartOpts.ChartVersion = HelmSpec.ChartVersion (Helm (Spec tmpl)),
      HelmChartOpts.ReleaseName = ServiceSpec.ReleaseName svc,
      HelmChartOpts.ReleaseNamespace =
        (if ServiceSpec.ReleaseNamespace svc \<noteq> [] then ServiceSpec.ReleaseNamespace svc
         else ServiceSpec.ReleaseName svc),
      HelmChartOpts.Values = ServiceSpec.Values svc,
      HelmChartOpts.CreateNamespace = ServiceSpec.CreateNamespace svc,
      HelmChartOpts.PlainHTTP = ServiceSpec.PlainHTTP svc,
      HelmChartOpts.Insecure = ServiceSpec.Insecure svc\<rparr>"

text \<open>
  The loop of \<open>updateServices\<close> over the services: the entries collected, or the error
  that ends the pass.
\<close>

fun updateServices_opts ::
  "ManagedClusterReconciler \<Rightarrow> ManagedCluster \<Rightarrow> ServiceSpec list \<Rightarrow> HelmChartOpts list
   \<Rightarrow> (error + HelmChartOpts list) \<times> mc_call list" where
  "updateServices_opts r mc [] opts = (Inr opts, [])"
| "updateServices_opts r mc (svc # svcs) opts =
     (if \<not> Install svc then updateServices_opts r mc svcs opts
      else
        (let getTmpl = Call_Get_ServiceTemplate (Namespace mc) (ServiceSpec.Template svc) in
         case Get_ServiceTemplate r (Namespace mc) (ServiceSpec.Template svc) of
           Inl err \<Rightarrow>
             (Inl (Failure (''failed to get Template (''
                @ NamespacedName_String (Namespace mc) (ServiceSpec.Template svc) @ '')'')),
              [getTmpl])
         | Inr tmpl \<Rightarrow>
            (case getServiceTemplateRepoURL r tmpl of
               (Inl err, calls) \<Rightarrow>
                 (Inl (Wrapped ''could not get repository url: '' err), getTmpl # calls)
             | (Inr url, calls) \<Rightarrow>
                 (case updateServices_opts r mc svcs (opts @ [service_opts svc tmpl url]) of
                    (res, calls') \<Rightarrow> (res, getTmpl # calls @ calls')))))"

definition owner_of :: "hmc \<Rightarrow> ManagedCluster \<Rightarrow> OwnerReference" where
  "owner_of K mc =
     \<lparr>APIVersion = GroupVersion_String K, OwnerKind = ManagedClusterKind K,
      OwnerName = Name mc, OwnerUID = UID mc\<rparr>"

definition updateServices ::
  "hmc \<Rightarrow> ManagedClusterReconciler \<Rightarrow> ManagedCluster \<Rightarrow> (Result \<times> error option) \<times> mc_call list" where
  "updateServices K r mc =
     (case updateServices_opts r mc (Services (Spec mc)) [] of
        (Inl err, calls) \<Rightarrow> ((Result_zero, Some err), calls)
      | (Inr opts, calls) \<Rightarrow>
         (let labels = [(FluxHelmChartNamespaceKey K, Namespace mc),
                        (FluxHelmChartNameKey K, Name mc)];
              profileOpts = \<lparr>ReconcileClusterProfileOpts.OwnerReference = Some (owner_of K mc),
                             HelmChartOpts = opts\<rparr>;
              calls' = calls @ [Call_ReconcileClusterProfile (Namespace mc) (Name mc) labels profileOpts]
          in case sveltos_ReconcileClusterProfile r (Namespace mc) (Name mc) labels profileOpts of
               Some err \<Rightarrow>
                 ((Result_zero, Some (Wrapped ''failed to create ClusterProfile: '' err)), calls')
             | None \<Rightarrow>
                 ((\<lparr>Requeue = False, RequeueAfter = DefaultRequeueInterval\<rparr>, None), calls')))"

subsection \<open>The service loop of the earlier Update\<close>

text \<open>
  The earlier variant of \<open>Update\<close> builds the entries inline, with a fixed repository
  URL, and goes on to the next service when a ServiceTemplate cannot be fetched. Its
  diagnostic prints are left out.
\<close>

definition service_opts_v1 :: "ServiceTemplate \<Rightarrow> HelmChartOpts" where
  "service_opts_v1 tmpl =
     \<lparr>RepositoryURL = ''oci://hmc-local-registry:5000/charts'',
      RepositoryName = HelmSpec.ChartName (Helm (Spec tmpl)),
      HelmChartOpts.ChartName = HelmSpec.ChartName (Helm (Spec tmpl)),
      HelmChartOpts.ChartVersion = HelmSpec.ChartVersion (Helm (Spec tmpl)),
      HelmChartOpts.ReleaseName = HelmSpec.ChartName (Helm (Spec tmpl)),
      HelmChartOpts.ReleaseNamespace = HelmSpec.ChartName (Helm (Spec tmpl)),
      HelmChartOpts.Values = [],
      HelmChartOpts.CreateNamespace = True,
      HelmChartOpts.PlainHTTP = False,
      HelmChartOpts.Insecure = False\<rparr>"

fun Update_v1_opts ::
  "ManagedClusterReconciler \<Rightarrow> ServiceSpec list \<Rightarrow> HelmChartOpts list
   \<Rightarrow> HelmChartOpts list \<times> mc_call list" where
  "Update_v1_opts r [] opts = (opts, [])"
| "Update_v1_opts r (svc # svcs) opts =
     (if \<not> Install svc then Update_v1_opts r svcs opts
      else
        (let getTmpl = Call_Get_ServiceTemplate (SystemNamespace r) (ServiceSpec.Template svc) in
         case Get_ServiceTemplate r (SystemNamespace r) (ServiceSpec.Template svc) of
           Inl err \<Rightarrow>
             (case Update_v1_opts r svcs opts of (res, calls) \<Rightarrow> (res, getTmpl # calls))
         | Inr tmpl \<Rightarrow>
             (case Update_v1_opts r svcs (opts @ [service_opts_v1 tmpl]) of
                (res, calls) \<Rightarrow> (res, getTmpl # calls))))"

definition Update_v1_services ::
  "hmc \<Rightarrow> ManagedClusterReconciler \<Rightarrow> ManagedCluster \<Rightarrow> (Result \<times> error option) \<times> mc_call list" where
  "Update_v1_services K r managedCluster =
     (case Update_v1_opts r (Services (Spec managedCluster)) [] of
        (opts, calls) \<Rightarrow>
         (let profileOpts = \<lparr>ReconcileClusterProfileOpts.OwnerReference =
                               Some (owner_of K managedCluster),
                             HelmChartOpts = opts\<rparr>;
              calls' = calls @ [Call_ReconcileClusterProfile (Name managedCluster)
                         (Namespace managedCluster) [] profileOpts]
          in case sveltos_ReconcileClusterProfile r (Name managedCluster)
                    (Namespace managedCluster) [] profileOpts of
               Some err \<Rightarrow>
                 ((Result_zero, Some (Wrapped ''failed to create cluster profile: '' err)), calls')
             | None \<Rightarrow> ((Result_zero, None), calls')))"

subsection \<open>Update\<close>

definition condition :: "string \<Rightarrow> string \<Rightarrow> string \<Rightarrow> string \<Rightarrow> Condition" where
  "condition t s reason message =
     \<lparr>Condition.Type = t, Condition.Status = s, Reason = reason, Message = message\<rparr>"

definition requeueAfter :: "int \<Rightarrow> Result" where
  "requeueAfter d = \<lparr>Requeue = False, RequeueAfter = d\<rparr>"

text \<open>The options \<open>Update\<close> passes to \<open>helm.ReconcileHelmRelease\<close>.\<close>

definition primary_release_opts ::
  "hmc \<Rightarrow> ManagedCluster \<Rightarrow> ClusterTemplate \<Rightarrow> ReconcileHelmReleaseOpts" where
  "primary_release_opts K managedCluster template =
     \<lparr>ReconcileHelmReleaseOpts.Values = ManagedClusterSpec.Config (Spec managedCluster),
      ReconcileHelmReleaseOpts.OwnerReference = Some (owner_of K managedCluster),
      ReconcileHelmReleaseOpts.ChartRef = TemplateStatusCommon.ChartRef (Object.Status template),
      DependsOn = [], TargetNamespace = [],
      ReconcileHelmReleaseOpts.CreateNamespace = False\<rparr>"

text \<open>
  The body of \<open>Update\<close> below the deferred status update, from the lookup of the template
  on. It returns the ManagedCluster as the steps left it, and the result and error of the
  pass (or a panic). The two variants of \<open>Update\<close> in the sources take the same steps up to
  the readiness of the release and differ in the last one, \<open>services\<close>: the later variant
  calls \<open>updateServices\<close>, the earlier one runs its inline loop.
\<close>

definition Update_steps ::
  "(ManagedCluster \<Rightarrow> (Result \<times> error option) \<times> mc_call list)
   \<Rightarrow> hmc \<Rightarrow> ManagedClusterReconciler \<Rightarrow> ManagedCluster
   \<Rightarrow> (ManagedCluster \<times> (Result \<times> error option) exec) \<times> mc_call list" where
  "Update_steps services K r mc =
     (let getTemplate = [Call_Get_ClusterTemplate (SystemNamespace r)
            (ManagedClusterSpec.Template (Spec mc))]
      in
      case Get_ClusterTemplate r (SystemNamespace r) (ManagedClusterSpec.Template (Spec mc)) of
        Inl err \<Rightarrow>
          (let errMsg = (if IsNotFound err then ''provided template is not found''
                         else ''failed to get provided template: '' @ Error err)
           in ((setCondition mc (condition (TemplateReadyCondition K) ConditionFalse
                   (FailedReason K) errMsg),
                Returns (Result_zero, Some err)), getTemplate))
      | Inr template \<Rightarrow>
          if \<not> Valid (Object.Status template) then
            ((setCondition mc (condition (TemplateReadyCondition K) ConditionFalse
                 (FailedReason K) ''provided template is not marked as valid''),
              Returns (Result_zero, Some (errors_New ''provided template is not marked as valid''))),
             getTemplate)
          else
           (let mc1 = setCondition mc (condition (TemplateReadyCondition K) ConditionTrue
                        (SucceededReason K) ''Template is valid'')
            in
            case getSource r (TemplateStatusCommon.ChartRef (Object.Status template)) of
              (Inl err, c1) \<Rightarrow>
                ((setCondition mc1 (condition (HelmChartReadyCondition K) ConditionFalse
                     (FailedReason K) (''failed to get helm chart source: '' @ Error err)),
                  Returns (Result_zero, Some err)), getTemplate @ c1)
            | (Inr source, c1) \<Rightarrow>
               (let c2 = getTemplate @ c1
                      @ [Call_DownloadChartFromArtifact (Artifact (Object.Status source))]
                in
                case helm_DownloadChartFromArtifact r (Artifact (Object.Status source)) of
                  Inl err \<Rightarrow>
                    ((setCondition mc1 (condition (HelmChartReadyCondition K) ConditionFalse
                         (FailedReason K) (''failed to download helm chart: '' @ Error err)),
                      Returns (Result_zero, Some err)), c2)
                | Inr hcChart \<Rightarrow>
                   (case action_Init r (Namespace mc1) of
                      Some err \<Rightarrow>
                        ((mc1, Returns (Result_zero, Some err)), c2 @ [Call_Init (Namespace mc1)])
                    | None \<Rightarrow>
                       (case validateReleaseWithValues K r mc1 hcChart of
                          (Some err, c3) \<Rightarrow>
                            ((setCondition mc1 (condition (HelmChartReadyCondition K)
                                 ConditionFalse (FailedReason K)
                                 (''failed to validate template with provided configuration: ''
                                    @ Error err)),
                              Returns (Result_zero, Some err)),
                             c2 @ [Call_Init (Namespace mc1)] @ c3)
                        | (None, c3) \<Rightarrow>
                           (let mc2 = setCondition mc1 (condition (HelmChartReadyCondition K)
                                        ConditionTrue (SucceededReason K) ''Helm chart is valid'');
                                c4 = c2 @ [Call_Init (Namespace mc1)] @ c3
                            in
                            if DryRun (Spec mc2) then ((mc2, Returns (Result_zero, None)), c4)
                            else
                             (let opts = primary_release_opts K mc2 template;
                                  c5 = c4 @ [Call_ReconcileHelmRelease (Name mc2) (Namespace mc2) opts]
                              in
                              case helm_ReconcileHelmRelease r (Name mc2) (Namespace mc2) opts of
                                Inl err \<Rightarrow>
                                  ((setCondition mc2 (condition (HelmReleaseReadyCondition K)
                                       ConditionFalse (FailedReason K) (Error err)),
                                    Returns (Result_zero, Some err)), c5)
                              | Inr hr \<Rightarrow>
                                 (let mc3 =
                                    (case fluxconditions_Get hr fluxmeta_ReadyCondition of
                                       None \<Rightarrow> mc2
                                     | Some hrReadyCondition \<Rightarrow>
                                         setCondition mc2 (condition (HelmReleaseReadyCondition K)
                                           (Condition.Status hrReadyCondition)
                                           (Reason hrReadyCondition) (Message hrReadyCondition)))
                                  in
                                  case setStatusFromClusterStatus K r mc3 of
                                    ((mc4, Panics), c6) \<Rightarrow> ((mc4, Panics), c5 @ c6)
                                  | ((mc4, Returns (requeue, Some err)), c6) \<Rightarrow>
                                      if requeue
                                      then ((mc4, Returns (requeueAfter DefaultRequeueInterval,
                                               Some err)), c5 @ c6)
                                      else ((mc4, Returns (Result_zero, Some err)), c5 @ c6)
                                  | ((mc4, Returns (requeue, None)), c6) \<Rightarrow>
                                      if requeue
                                      then ((mc4, Returns (requeueAfter DefaultRequeueInterval,
                                               None)), c5 @ c6)
                                      else if \<not> fluxconditions_IsReady hr
                                      then ((mc4, Returns (requeueAfter DefaultRequeueInterval,
                                               None)), c5 @ c6)
                                      else (case services mc4 of
                                              (res, c7) \<Rightarrow>
                                                ((mc4, Returns res), c5 @ c6 @ c7))))))))))"

text \<open>
  \<open>Update\<close> with its first steps and its deferred call: the finalizer, the initial
  conditions, the steps, and the status update, which runs on every way out of the steps,
  a panic included, and whose error is joined to the one of the steps.
\<close>

definition Update_with ::
  "(ManagedCluster \<Rightarrow> (Result \<times> error option) \<times> mc_call list)
   \<Rightarrow> hmc \<Rightarrow> ManagedClusterReconciler \<Rightarrow> ManagedCluster
   \<Rightarrow> (ManagedCluster \<times> (Result \<times> error option) exec) \<times> mc_call list" where
  "Update_with services K r managedCluster0 =
     (let (fs, finalizersUpdated) =
            AddFinalizer (Finalizers managedCluster0) (ManagedClusterFinalizer K);
          managedCluster1 = managedCluster0\<lparr>Finalizers := fs\<rparr>
      in
      if finalizersUpdated then
        (case Client_Update r managedCluster1 of
           Some err \<Rightarrow>
             ((managedCluster1, Returns (Result_zero, Some (Wrapped
                 (''failed to update managedCluster '' @ Namespace managedCluster1 @ ''/''
                    @ Name managedCluster1 @ '': '') err))),
              [Call_Client_Update managedCluster1])
         | None \<Rightarrow>
             ((managedCluster1, Returns (Result_zero, None)), [Call_Client_Update managedCluster1]))
      else
        (let managedCluster2 =
               (if ManagedClusterStatus.Conditions (Object.Status managedCluster1) = []
                then managedCluster1\<lparr>Object.Status := (Object.Status managedCluster1)
                       \<lparr>ManagedClusterStatus.Conditions := InitConditions K managedCluster1\<rparr>\<rparr>
                else managedCluster1)
         in
         case Update_steps services K r managedCluster2 of
           ((managedCluster3, out), calls) \<Rightarrow>
             (case ManagedCluster_updateStatus K r managedCluster3 of
                (managedCluster4, statusErr, calls') \<Rightarrow>
                  ((managedCluster4,
                    (case out of
                       Panics \<Rightarrow> Panics
                     | Returns (result, err) \<Rightarrow> Returns (result, errors_Join [err, statusErr]))),
                   calls @ calls'))))"

text \<open>The later variant of \<open>Update\<close>, which ends in \<open>updateServices\<close>.\<close>

definition ManagedCluster_Update ::
  "hmc \<Rightarrow> ManagedClusterReconciler \<Rightarrow> ManagedCluster
   \<Rightarrow> (ManagedCluster \<times> (Result \<times> error option) exec) \<times> mc_call list" where
  "ManagedCluster_Update K r managedCluster =
     Update_with (updateServices K r) K r managedCluster"

text \<open>The earlier variant of \<open>Update\<close>, which ends in its inline service loop.\<close>

definition ManagedCluster_Update_v1 ::
  "hmc \<Rightarrow> ManagedClusterReconciler \<Rightarrow> ManagedCluster
   \<Rightarrow> (ManagedCluster \<times> (Result \<times> error option) exec) \<times> mc_call list" where
  "ManagedCluster_Update_v1 K r managedCluster =
     Update_with (Update_v1_services K r) K r managedCluster"

subsection \<open>Delete and the provider release gate\<close>

definition getProviders ::
  "ManagedClusterReconciler \<Rightarrow> string \<Rightarrow> (error + string list) \<times> mc_call list" where
  "getProviders r templateName =
     (case Get_ClusterTemplate r (SystemNamespace r) templateName of
        Inl err \<Rightarrow> (Inl err, [Call_Get_ClusterTemplate (SystemNamespace r) templateName])
      | Inr template \<Rightarrow>
          (Inr (InfrastructureProviders (TemplateStatusCommon.Providers (Object.Status template))),
           [Call_Get_ClusterTemplate (SystemNamespace r) templateName]))"

definition getCluster ::
  "hmc \<Rightarrow> ManagedClusterReconciler \<Rightarrow> string \<Rightarrow> string \<Rightarrow> GroupVersionKind
   \<Rightarrow> (error + PartialObjectMetadata) \<times> mc_call list" where
  "getCluster K r namespace name gvk =
     (let opts = \<lparr>LabelSelector = [(FluxHelmChartNameKey K, name)], ListNamespace = namespace,
                   Limit = 0\<rparr>
      in case Client_List r gvk opts of
           Inl err \<Rightarrow> (Inl err, [Call_List gvk opts])
         | Inr [] \<Rightarrow>
             (Inl (Failure (Kind gvk @ '' with name '' @ name @ '' was not found'')),
              [Call_List gvk opts])
         | Inr (item # items) \<Rightarrow> (Inr item, [Call_List gvk opts]))"

text \<open>
  \<open>originalCluster := *cluster\<close> copies the object, not the array of its finalizers,
  which \<open>RemoveFinalizer\<close> then filters in place. The base of the merge patch is read
  when the patch is sent: it is the object found with the whole array as the removal left
  it for its finalizers.
\<close>

definition removeClusterFinalizer ::
  "hmc \<Rightarrow> ManagedClusterReconciler \<Rightarrow> PartialObjectMetadata \<Rightarrow> error option \<times> mc_call list" where
  "removeClusterFinalizer K r cluster0 =
     (let (array, index) = RemoveFinalizer_inplace (Finalizers cluster0) (BlockingFinalizer K);
          finalizersUpdated = (length (Finalizers cluster0) \<noteq> index);
          cluster1 = cluster0\<lparr>Finalizers := take index array\<rparr>;
          originalCluster = cluster0\<lparr>Finalizers := array\<rparr>
      in
      if finalizersUpdated then
        (case Client_Patch r cluster1 originalCluster of
           Some err \<Rightarrow>
             (Some (Wrapped (''failed to patch cluster '' @ Namespace cluster1 @ ''/''
                 @ Name cluster1 @ '': '') err),
              [Call_Patch cluster1 originalCluster])
         | None \<Rightarrow> (None, [Call_Patch cluster1 originalCluster]))
      else (None, []))"

definition machinesAvailable ::
  "hmc \<Rightarrow> ManagedClusterReconciler \<Rightarrow> string \<Rightarrow> string \<Rightarrow> GroupVersionKind
   \<Rightarrow> (bool \<times> error option) \<times> mc_call list" where
  "machinesAvailable K r namespace clusterName gvk =
     (let opts = \<lparr>LabelSelector = [(ClusterNameLabelKey K, clusterName)],
                   ListNamespace = namespace, Limit = 1\<rparr>
      in case Client_List r gvk opts of
           Inl err \<Rightarrow> ((False, Some err), [Call_List gvk opts])
         | Inr itemsList \<Rightarrow> ((length itemsList \<noteq> 0, None), [Call_List gvk opts]))"

definition providerGVKs :: "string \<rightharpoonup> providerSchema" where
  "providerGVKs =
     [''aws'' \<mapsto> \<lparr>machine = gvkMachine, cluster = gvkAWSCluster\<rparr>,
      ''azure'' \<mapsto> \<lparr>machine = gvkMachine, cluster = gvkAzureCluster\<rparr>]"

text \<open>The loop of \<open>releaseCluster\<close> over the infrastructure providers of the template.\<close>

fun releaseCluster_providers ::
  "hmc \<Rightarrow> ManagedClusterReconciler \<Rightarrow> string \<Rightarrow> string \<Rightarrow> string list
   \<Rightarrow> error option \<times> mc_call list" where
  "releaseCluster_providers K r namespace name [] = (None, [])"
| "releaseCluster_providers K r namespace name (provider # providers) =
     (case providerGVKs provider of
        None \<Rightarrow> releaseCluster_providers K r namespace name providers
      | Some gvk \<Rightarrow>
         (case getCluster K r namespace name (cluster gvk) of
            (Inl err, c1) \<Rightarrow> (Some err, c1)
          | (Inr cluster', c1) \<Rightarrow>
             (case machinesAvailable K r namespace (Name cluster') (machine gvk) of
                ((found, Some err), c2) \<Rightarrow> (Some err, c1 @ c2)
              | ((found, None), c2) \<Rightarrow>
                  if \<not> found then
                    (case removeClusterFinalizer K r cluster' of
                       (err, c3) \<Rightarrow> (err, c1 @ c2 @ c3))
                  else
                    (case releaseCluster_providers K r namespace name providers of
                       (err, c3) \<Rightarrow> (err, c1 @ c2 @ c3)))))"

definition releaseCluster ::
  "hmc \<Rightarrow> ManagedClusterReconciler \<Rightarrow> string \<Rightarrow> string \<Rightarrow> string
   \<Rightarrow> error option \<times> mc_call list" where
  "releaseCluster K r namespace name templateName =
     (case getProviders r templateName of
        (Inl err, c0) \<Rightarrow> (Some err, c0)
      | (Inr providers, c0) \<Rightarrow>
          (case releaseCluster_providers K r namespace name providers of
             (err, c1) \<Rightarrow> (err, c0 @ c1)))"

definition ManagedCluster_Delete ::
  "hmc \<Rightarrow> ManagedClusterReconciler \<Rightarrow> ManagedCluster
   \<Rightarrow> (ManagedCluster \<times> Result \<times> error option) \<times> mc_call list" where
  "ManagedCluster_Delete K r managedCluster =
     (let name = Name managedCluster; namespace = Namespace managedCluster;
          c0 = [Call_Get_HelmRelease namespace name]
      in
      case Get_HelmRelease r namespace name of
        Inl err \<Rightarrow>
          if IsNotFound err then
            (let (fs, finalizersUpdated) =
                   RemoveFinalizer (Finalizers managedCluster) (ManagedClusterFinalizer K);
                 managedCluster' = managedCluster\<lparr>Finalizers := fs\<rparr>
             in
             if finalizersUpdated then
               (case Client_Update r managedCluster' of
                  Some err' \<Rightarrow>
                    ((managedCluster', Result_zero, Some (Wrapped
                        (''failed to update managedCluster '' @ namespace @ ''/'' @ name @ '': '')
                        err')),
                     c0 @ [Call_Client_Update managedCluster'])
                | None \<Rightarrow>
                    ((managedCluster', Result_zero, None), c0 @ [Call_Client_Update managedCluster']))
             else ((managedCluster', Result_zero, None), c0))
          else ((managedCluster, Result_zero, Some err), c0)
      | Inr hr \<Rightarrow>
         (let c1 = c0 @ [Call_DeleteClusterProfile namespace name] in
          case sveltos_DeleteClusterProfile r namespace name of
            Some err \<Rightarrow> ((managedCluster, Result_zero, Some err), c1)
          | None \<Rightarrow>
             (let c2 = c1 @ [Call_DeleteHelmRelease name namespace] in
              case helm_DeleteHelmRelease r name namespace of
                Some err \<Rightarrow> ((managedCluster, Result_zero, Some err), c2)
              | None \<Rightarrow>
                 (case releaseCluster K r namespace name
                         (ManagedClusterSpec.Template (Spec managedCluster)) of
                    (Some err, c3) \<Rightarrow> ((managedCluster, Result_zero, Some err), c2 @ c3)
                  | (None, c3) \<Rightarrow>
                      ((managedCluster, requeueAfter DefaultRequeueInterval, None), c2 @ c3)))))"

section \<open>The template controller\<close>

subsection \<open>The reconciler and its collaborators\<close>

text \<open>
  The template reconciler adds the packages it calls: \<open>helm.ArtifactReady\<close>, the chart
  download, the chart's own \<open>Validate\<close>, \<open>json.Marshal\<close> of the default values, the
  create-or-update of the managed HelmChart (which answers with the object as the API
  server holds it) and, in the later sources, \<open>helm.ReconcileHelmRepository\<close>.
\<close>

record 'obj TemplateReconciler = "'obj Reconciler" +
  helm_ArtifactReady :: "HelmChart \<Rightarrow> bool \<times> error option"
  downloadHelmChartFunc :: "Artifact option \<Rightarrow> error + Chart"
  chart_Validate :: "Chart \<Rightarrow> error option"
  json_Marshal_Values :: "(string \<times> json) list \<Rightarrow> error + string"
  CreateOrUpdate_HelmChart :: "HelmChart \<Rightarrow> OwnerReference list \<Rightarrow> error + HelmChart"
  helm_ReconcileHelmRepository :: "string \<Rightarrow> string \<Rightarrow> error option"

definition defaultRepoName :: string where
  "defaultRepoName = ''hmc-templates''"

definition sourcev1_HelmChartKind :: string where
  "sourcev1_HelmChartKind = ''HelmChart''"

definition sourcev1_HelmRepositoryKind :: string where
  "sourcev1_HelmRepositoryKind = ''HelmRepository''"

text \<open>\<open>strings.Split(s, ",")\<close> and the lookup of a chart annotation (empty when absent).\<close>

fun strings_Split :: "string \<Rightarrow> char \<Rightarrow> string list" where
  "strings_Split [] sep = [[]]"
| "strings_Split (c # cs) sep =
     (if c = sep then [] # strings_Split cs sep
      else (case strings_Split cs sep of
              [] \<Rightarrow> [[c]]
            | x # xs \<Rightarrow> (c # x) # xs))"

definition annotation :: "ChartMetadata \<Rightarrow> string \<Rightarrow> string" where
  "annotation md key = (case map_of (Annotations md) key of None \<Rightarrow> [] | Some v \<Rightarrow> v)"

subsection \<open>What both variants share\<close>

definition getHelmChartFromChartRef ::
  "('obj, 'z) TemplateReconciler_scheme \<Rightarrow> CrossNamespaceSourceReference
   \<Rightarrow> (error + HelmChart) \<times> 'obj call list" where
  "getHelmChartFromChartRef r chartRef =
     (if RefKind chartRef \<noteq> sourcev1_HelmChartKind then
        (Inl (Failure (''invalid chartRef.Kind: '' @ RefKind chartRef
            @ ''. Only HelmChart kind is supported'')), [])
      else (Get_HelmChart r (RefNamespace chartRef) (RefName chartRef),
            [Call_Get_HelmChart (RefNamespace chartRef) (RefName chartRef)]))"

definition Template_updateStatus ::
  "(('s, 't TemplateStatusCommon_scheme) Object, 'z) TemplateReconciler_scheme
   \<Rightarrow> ('s, 't TemplateStatusCommon_scheme) Object \<Rightarrow> string
   \<Rightarrow> ('s, 't TemplateStatusCommon_scheme) Object \<times> error option
      \<times> ('s, 't TemplateStatusCommon_scheme) Object call list" where
  "Template_updateStatus r template validationError =
     (let template' = template\<lparr>Object.Status := (Object.Status template)
            \<lparr>TemplateStatusCommon.ObservedGeneration := Generation template,
             ValidationError := validationError,
             Valid := (validationError = [])\<rparr>\<rparr>
      in case Status_Update r template' of
           Some err \<Rightarrow>
             (template', Some (Wrapped (''failed to update status for template ''
                @ Namespace template' @ ''/'' @ Name template' @ '': '') err),
              [Call_Status_Update template'])
         | None \<Rightarrow> (template', None, [Call_Status_Update template']))"

text \<open>The provider lists: the spec wins, otherwise the chart annotation, split at commas.\<close>

definition providers_of :: "string list \<Rightarrow> string \<Rightarrow> string list \<Rightarrow> string list" where
  "providers_of fromSpec fromAnnotation current =
     (if length fromSpec > 0 then fromSpec
      else if fromAnnotation \<noteq> [] then strings_Split fromAnnotation (CHR '','')
      else current)"

definition parsed_providers ::
  "hmc \<Rightarrow> ProvidersList \<Rightarrow> ChartMetadata \<Rightarrow> ProvidersList \<Rightarrow> ProvidersList" where
  "parsed_providers K specProviders md statusProviders =
     \<lparr>InfrastructureProviders = providers_of (InfrastructureProviders specProviders)
        (annotation md (ChartAnnotationInfraProviders K)) (InfrastructureProviders statusProviders),
      BootstrapProviders = providers_of (BootstrapProviders specProviders)
        (annotation md (ChartAnnotationBootstrapProviders K)) (BootstrapProviders statusProviders),
      ControlPlaneProviders = providers_of (ControlPlaneProviders specProviders)
        (annotation md (ChartAnnotationControlPlaneProviders K))
        (ControlPlaneProviders statusProviders)\<rparr>"

text \<open>
  The HelmChart a template asks for: named after the template, labelled as managed,
  pointing at the default repository. The reconcile interval is left out.
\<close>

definition managed_HelmChart :: "hmc \<Rightarrow> string \<Rightarrow> string \<Rightarrow> HelmSpec \<Rightarrow> HelmChart" where
  "managed_HelmChart K name namespace helm =
     \<lparr>Name = name, Namespace = namespace, UID = [], Generation = 0,
      Labels = [(HMCManagedLabelKey K, HMCManagedLabelValue K)], Finalizers = [],
      Deleting = False,
      Spec = \<lparr>Chart = HelmSpec.ChartName helm, Version = HelmSpec.ChartVersion helm,
              SourceRef_Kind = sourcev1_HelmRepositoryKind, SourceRef_Name = defaultRepoName\<rparr>,
      Object.Status = \<lparr>Artifact = None\<rparr>\<rparr>"

text \<open>
  The steps after the chart object is at hand, up to the parsing of the metadata, are the
  same in both variants; \<open>parse\<close> is the variant's \<open>parseChartMetadata\<close>. The check
  \<open>hcChart == nil\<close> cannot fire on either way to it and is left out.
\<close>

definition validate_chart ::
  "(('s, 't TemplateStatusCommon_scheme) Object \<Rightarrow> Chart
      \<Rightarrow> ('s, 't TemplateStatusCommon_scheme) Object \<times> error option)
   \<Rightarrow> (('s, 't TemplateStatusCommon_scheme) Object, 'z) TemplateReconciler_scheme
   \<Rightarrow> ('s, 't TemplateStatusCommon_scheme) Object \<Rightarrow> HelmChart
   \<Rightarrow> (Result \<times> error option) \<times> ('s, 't TemplateStatusCommon_scheme) Object call list" where
  "validate_chart parse r template0 hcChart =
     (let template1 = template0\<lparr>Object.Status := (Object.Status template0)
            \<lparr>TemplateStatusCommon.ChartRef := Some
               \<lparr>RefKind = sourcev1_HelmChartKind, RefName = Name hcChart,
                RefNamespace = Namespace hcChart\<rparr>\<rparr>\<rparr>;
          c1 = [Call_ArtifactReady hcChart]
      in
      case helm_ArtifactReady r hcChart of
        (reportStatus, Some err) \<Rightarrow>
          if reportStatus then
            (case Template_updateStatus r template1 (Error err) of
               (t, e, c) \<Rightarrow> ((Result_zero, Some err), c1 @ c))
          else ((Result_zero, Some err), c1)
      | (reportStatus, None) \<Rightarrow>
         (let artifact = Artifact (Object.Status hcChart);
              c2 = c1 @ [Call_downloadHelmChartFunc artifact]
          in
          case downloadHelmChartFunc r artifact of
            Inl err \<Rightarrow>
              (let err' = Failure (''failed to download chart: '' @ Error err) in
               case Template_updateStatus r template1 (Error err') of
                 (t, e, c) \<Rightarrow> ((Result_zero, Some err'), c2 @ c))
          | Inr helmChart \<Rightarrow>
             (case parse template1 helmChart of
                (template2, Some err) \<Rightarrow>
                  (case Template_updateStatus r template2 (Error err) of
                     (t, e, c) \<Rightarrow> ((Result_zero, Some err), c2 @ c))
              | (template2, None) \<Rightarrow>
                 (case chart_Validate r helmChart of
                    Some err \<Rightarrow>
                      (case Template_updateStatus r template2 (Error err) of
                         (t, e, c) \<Rightarrow> ((Result_zero, Some err), c2 @ c))
                  | None \<Rightarrow>
                     (let template3 = template2\<lparr>Object.Status := (Object.Status template2)
                            \<lparr>TemplateStatusCommon.Description :=
                               (case Metadata helmChart of
                                  None \<Rightarrow> []
                                | Some md \<Rightarrow> ChartMetadata.Description md)\<rparr>\<rparr>
                      in
                      case json_Marshal_Values r (Chart.Values helmChart) of
                        Inl err \<Rightarrow>
                          (let err' = Failure (''failed to parse Helm chart values: '' @ Error err) in
                           case Template_updateStatus r template3 (Error err') of
                             (t, e, c) \<Rightarrow> ((Result_zero, Some err'), c2 @ c))
                      | Inr rawValues \<Rightarrow>
                         (let template4 = template3\<lparr>Object.Status := (Object.Status template3)
                                \<lparr>TemplateStatusCommon.Config := Some rawValues\<rparr>\<rparr>
                          in case Template_updateStatus r template4 [] of
                               (t, e, c) \<Rightarrow> ((Result_zero, e), c2 @ c)))))))"

subsection \<open>The single-kind variant (the sources whose file name is unknown)\<close>

definition errNoProviderType :: "hmc \<Rightarrow> error" where
  "errNoProviderType K =
     Failure (''template type is not supported: '' @ ChartAnnotationType K
       @ '' chart annotation must be one of ['' @ TemplateTypeDeployment K @ ''/''
       @ TemplateTypeProvider K @ ''/'' @ TemplateTypeCore K @ '']'')"

definition TemplateReconciler_parseChartMetadata ::
  "hmc \<Rightarrow> Template \<Rightarrow> Chart \<Rightarrow> Template \<times> error option" where
  "TemplateReconciler_parseChartMetadata K template chart =
     (case Metadata chart of
        None \<Rightarrow> (template, Some (Failure ''chart metadata is empty''))
      | Some md \<Rightarrow>
         (let fromSpec = TemplateSpec.Type (Spec template);
              fromChart = annotation md (ChartAnnotationType K)
          in
          if fromSpec = [] \<and> \<not> (fromChart = TemplateTypeDeployment K
               \<or> fromChart = TemplateTypeProvider K \<or> fromChart = TemplateTypeCore K)
          then (template, Some (errNoProviderType K))
          else
            (let templateType = (if fromSpec = [] then fromChart else fromSpec) in
             (template\<lparr>Object.Status := (Object.Status template)
                \<lparr>TemplateStatus.Type := templateType,
                 TemplateStatusCommon.Providers :=
                   parsed_providers K (TemplateSpecCommon.Providers (Spec template)) md
                     (TemplateStatusCommon.Providers (Object.Status template))\<rparr>\<rparr>,
              None))))"

definition TemplateReconciler_reconcileHelmChart ::
  "hmc \<Rightarrow> Template TemplateReconciler \<Rightarrow> Template \<Rightarrow> (error + HelmChart) \<times> Template call list" where
  "TemplateReconciler_reconcileHelmChart K r template =
     (let helmChart = managed_HelmChart K (Name template) (Namespace template) (Helm (Spec template));
          owners = [\<lparr>APIVersion = GroupVersion_String K, OwnerKind = TemplateKind K,
                     OwnerName = Name template, OwnerUID = UID template\<rparr>]
      in (CreateOrUpdate_HelmChart r helmChart owners,
          [Call_CreateOrUpdate_HelmChart helmChart owners]))"

text \<open>The first step of \<open>Reconcile\<close>: the chart object of the template.\<close>

definition TemplateReconciler_helmChart ::
  "hmc \<Rightarrow> Template TemplateReconciler \<Rightarrow> Template \<Rightarrow> (error + HelmChart) \<times> Template call list" where
  "TemplateReconciler_helmChart K r template =
     (case HelmSpec.ChartRef (Helm (Spec template)) of
        Some chartRef \<Rightarrow> getHelmChartFromChartRef r chartRef
      | None \<Rightarrow>
          if HelmSpec.ChartName (Helm (Spec template)) = []
          then (Inl (Failure ''neither chartName nor chartRef is set''), [])
          else TemplateReconciler_reconcileHelmChart K r template)"

definition TemplateReconciler_Reconcile ::
  "hmc \<Rightarrow> Template TemplateReconciler \<Rightarrow> string \<Rightarrow> string
   \<Rightarrow> (Result \<times> error option) \<times> Template call list" where
  "TemplateReconciler_Reconcile K r namespace name =
     (let c0 = [Call_Get_object namespace name] in
      case Get_object r namespace name of
        Inl err \<Rightarrow>
          if IsNotFound err then ((Result_zero, None), c0) else ((Result_zero, Some err), c0)
      | Inr template \<Rightarrow>
         (case TemplateReconciler_helmChart K r template of
            (Inl err, c1) \<Rightarrow> ((Result_zero, Some err), c0 @ c1)
          | (Inr hcChart, c1) \<Rightarrow>
              (case validate_chart (TemplateReconciler_parseChartMetadata K) r template hcChart of
                 (res, c2) \<Rightarrow> (res, c0 @ c1 @ c2))))"

subsection \<open>The three-kind variant (template\_controller.go)\<close>

text \<open>
  ClusterTemplate, ServiceTemplate and ProviderTemplate have one shape; \<open>kind\<close> is the
  kind of the object at hand. There is no template type in this variant.
\<close>

type_synonym TemplateObject = "(TemplateSpecCommon, TemplateStatusCommon) Object"

definition parseChartMetadata ::
  "hmc \<Rightarrow> TemplateObject \<Rightarrow> Chart \<Rightarrow> TemplateObject \<times> error option" where
  "parseChartMetadata K template inChart =
     (case Metadata inChart of
        None \<Rightarrow> (template, Some (Failure ''chart metadata is empty''))
      | Some md \<Rightarrow>
          (template\<lparr>Object.Status := (Object.Status template)
             \<lparr>TemplateStatusCommon.Providers :=
                parsed_providers K (TemplateSpecCommon.Providers (Spec template)) md
                  (TemplateStatusCommon.Providers (Object.Status template))\<rparr>\<rparr>,
           None))"

definition templateManagedByHMC :: "hmc \<Rightarrow> TemplateObject \<Rightarrow> bool" where
  "templateManagedByHMC K template =
     ((case map_of (Labels template) (HMCManagedLabelKey K) of None \<Rightarrow> [] | Some v \<Rightarrow> v)
        = HMCManagedLabelValue K)"

definition reconcileHelmChart ::
  "hmc \<Rightarrow> TemplateObject TemplateReconciler \<Rightarrow> string \<Rightarrow> TemplateObject
   \<Rightarrow> (error + HelmChart) \<times> TemplateObject call list" where
  "reconcileHelmChart K r kind template =
     (let namespace = (if Namespace template = [] then SystemNamespace r else Namespace template);
          helmChart = managed_HelmChart K (Name template) namespace (Helm (Spec template));
          owners = [\<lparr>APIVersion = GroupVersion_String K, OwnerKind = kind,
                     OwnerName = Name template, OwnerUID = UID template\<rparr>]
      in (CreateOrUpdate_HelmChart r helmChart owners,
          [Call_CreateOrUpdate_HelmChart helmChart owners]))"

text \<open>The first step of \<open>ReconcileTemplate\<close>: the chart object of the template.\<close>

definition ReconcileTemplate_helmChart ::
  "hmc \<Rightarrow> TemplateObject TemplateReconciler \<Rightarrow> string \<Rightarrow> TemplateObject
   \<Rightarrow> (error + HelmChart) \<times> TemplateObject call list" where
  "ReconcileTemplate_helmChart K r kind template =
     (case HelmSpec.ChartRef (Helm (Spec template)) of
        Some chartRef \<Rightarrow> getHelmChartFromChartRef r chartRef
      | None \<Rightarrow>
          if HelmSpec.ChartName (Helm (Spec template)) = []
          then (Inl (Failure ''neither chartName nor chartRef is set''), [])
          else
            (let namespace = (if Namespace template = [] then SystemNamespace r
                              else Namespace template);
                 repo = (if Namespace template = SystemNamespace r
                            \<or> \<not> templateManagedByHMC K template
                         then (helm_ReconcileHelmRepository r defaultRepoName namespace,
                               [Call_ReconcileHelmRepository defaultRepoName namespace])
                         else (None, []))
             in case repo of
                  (Some err, c) \<Rightarrow> (Inl err, c)
                | (None, c) \<Rightarrow>
                    (case reconcileHelmChart K r kind template of
                       (res, c') \<Rightarrow> (res, c @ c'))))"

definition ReconcileTemplate ::
  "hmc \<Rightarrow> TemplateObject TemplateReconciler \<Rightarrow> string \<Rightarrow> TemplateObject
   \<Rightarrow> (Result \<times> error option) \<times> TemplateObject call list" where
  "ReconcileTemplate K r kind template =
     (case ReconcileTemplate_helmChart K r kind template of
        (Inl err, c1) \<Rightarrow> ((Result_zero, Some err), c1)
      | (Inr hcChart, c1) \<Rightarrow>
          (case validate_chart (parseChartMetadata K) r template hcChart of
             (res, c2) \<Rightarrow> (res, c1 @ c2)))"

section \<open>Notions used in the statements\<close>

text \<open>The template lookups among the calls of a pass.\<close>

fun is_Get_Template :: "mgmt_call \<Rightarrow> bool" where
  "is_Get_Template (Call_Get_Template ns n) = True"
| "is_Get_Template _ = False"

text \<open>
  The message \<open>Update\<close> records for a component whose template cannot be used: the
  lookup failed, or the template is not marked as valid.
\<close>

definition template_failure :: "ManagementReconciler \<Rightarrow> string \<Rightarrow> string option" where
  "template_failure r n =
     (case Get_Template r (SystemNamespace r) n of
        Inl err \<Rightarrow> Some (''Failed to get Template '' @ SystemNamespace r @ ''/'' @ n @ '': '' @ Error err)
      | Inr t \<Rightarrow> if \<not> Valid (Object.Status t)
                 then Some (''Template '' @ SystemNamespace r @ ''/'' @ n @ '' is not marked as valid'')
                 else None)"

text \<open>The reconciliations of the ClusterProfile among the calls of a pass.\<close>

fun is_profile_call :: "'obj call \<Rightarrow> bool" where
  "is_profile_call (Call_ReconcileClusterProfile a b c d) = True"
| "is_profile_call _ = False"

text \<open>A service whose template or repository URL cannot be resolved by \<open>updateServices\<close>.\<close>

definition unresolved :: "ManagedClusterReconciler \<Rightarrow> ManagedCluster \<Rightarrow> ServiceSpec \<Rightarrow> bool" where
  "unresolved r mc svc =
     (case Get_ServiceTemplate r (Namespace mc) (ServiceSpec.Template svc) of
        Inl err \<Rightarrow> True
      | Inr tmpl \<Rightarrow> (case fst (getServiceTemplateRepoURL r tmpl) of
                      Inl err \<Rightarrow> True
                    | Inr url \<Rightarrow> False))"

text \<open>
  The ManagedCluster as \<open>Update\<close> has it when its steps start: with the conditions of
  \<open>InitConditions\<close> when it had none.
\<close>

definition initial :: "hmc \<Rightarrow> ManagedCluster \<Rightarrow> ManagedCluster" where
  "initial K mc =
     (if ManagedClusterStatus.Conditions (Object.Status mc) = []
      then mc\<lparr>Object.Status := (Object.Status mc)
             \<lparr>ManagedClusterStatus.Conditions := InitConditions K mc\<rparr>\<rparr>
      else mc)"

section \<open>Example objects\<close>

text \<open>
  Concrete values of the package constants, a reconciler and objects, for evaluating the
  model.
\<close>

text \<open>An \<open>InitConditions\<close> that sets no release condition on a dry run.\<close>

definition InitConditions_example :: "ManagedCluster \<Rightarrow> Condition list" where
  "InitConditions_example mc =
     [\<lparr>Condition.Type = ''TemplateReady'', Condition.Status = ''Unknown'',
       Reason = ''Progressing'', Message = ''Template is not yet ready''\<rparr>,
      \<lparr>Condition.Type = ''HelmChartReady'', Condition.Status = ''Unknown'',
       Reason = ''Progressing'', Message = ''HelmChart is not yet ready''\<rparr>]
     @ (if DryRun (Spec mc) then []
        else [\<lparr>Condition.Type = ''HelmReleaseReady'', Condition.Status = ''Unknown'',
               Reason = ''Progressing'', Message = ''HelmRelease is not yet ready''\<rparr>])
     @ [\<lparr>Condition.Type = ''Ready'', Condition.Status = ''Unknown'',
         Reason = ''Progressing'', Message = ''ManagedCluster is not yet ready''\<rparr>]"

definition hmc_example :: hmc where
  "hmc_example =
     \<lparr>ProviderSveltosName = ''projectsveltos'',
      ProviderSveltosTargetNamespace = ''projectsveltos'',
      ProviderSveltosCreateNamespace = True,
      HMCManagedLabelKey = ''hmc.mirantis.com/managed'',
      HMCManagedLabelValue = ''true'',
      ManagedClusterFinalizer = ''hmc.mirantis.com/managed-cluster'',
      BlockingFinalizer = ''hmc.mirantis.com/cleanup'',
      TemplateReadyCondition = ''TemplateReady'',
      HelmChartReadyCondition = ''HelmChartReady'',
      HelmReleaseReadyCondition = ''HelmReleaseReady'',
      ReadyCondition = ''Ready'',
      FailedReason = ''Failed'',
      SucceededReason = ''Succeeded'',
      ProgressingReason = ''Progressing'',
      FluxHelmChartNameKey = ''helm.toolkit.fluxcd.io/name'',
      FluxHelmChartNamespaceKey = ''helm.toolkit.fluxcd.io/namespace'',
      ClusterNameLabelKey = ''cluster.x-k8s.io/cluster-name'',
      GroupVersion_String = ''hmc.mirantis.com/v1alpha1'',
      ManagedClusterKind = ''ManagedCluster'',
      TemplateKind = ''Template'',
      ChartAnnotationType = ''hmc.mirantis.com/type'',
      ChartAnnotationInfraProviders = ''hmc.mirantis.com/infrastructure-providers'',
      ChartAnnotationBootstrapProviders = ''hmc.mirantis.com/bootstrap-providers'',
      ChartAnnotationControlPlaneProviders = ''hmc.mirantis.com/control-plane-providers'',
      TemplateTypeDeployment = ''deployment'',
      TemplateTypeProvider = ''provider'',
      TemplateTypeCore = ''core'',
      InitConditions = InitConditions_example,
      HelmValues = (\<lambda>spec. Inr [])\<rparr>"

definition template_example :: "string \<Rightarrow> bool \<Rightarrow> Template" where
  "template_example n v =
     \<lparr>Name = n, Namespace = ''hmc-system'', UID = ''uid-'' @ n, Generation = 1, Labels = [],
      Finalizers = [], Deleting = False,
      Spec = \<lparr>Helm = \<lparr>HelmSpec.ChartName = n, HelmSpec.ChartVersion = ''0.1.0'',
                     HelmSpec.ChartRef = None\<rparr>,
              TemplateSpecCommon.Providers = Providers_zero, TemplateSpec.Type = []\<rparr>,
      Object.Status = \<lparr>Valid = v, ValidationError = (if v then [] else ''bad chart''),
                Description = [], TemplateStatusCommon.Config = None,
                TemplateStatusCommon.ChartRef =
                  Some \<lparr>RefKind = ''HelmChart'', RefName = n, RefNamespace = ''hmc-system''\<rparr>,
                TemplateStatusCommon.Providers = Providers_zero,
                TemplateStatusCommon.ObservedGeneration = 1, TemplateStatus.Type = ''provider''\<rparr>\<rparr>"

definition helmrelease_example :: "string \<Rightarrow> string \<Rightarrow> HelmRelease" where
  "helmrelease_example ns n =
     \<lparr>Name = n, Namespace = ns, UID = ''uid-hr-'' @ n, Generation = 1, Labels = [],
      Finalizers = [], Deleting = False,
      Spec = \<lparr>Suspend = False\<rparr>,
      Object.Status = \<lparr>HelmReleaseStatus.Conditions = []\<rparr>\<rparr>"

text \<open>p1 is invalid, p2 does not exist, every other template is valid; no call fails.\<close>

definition reconciler_example :: ManagementReconciler where
  "reconciler_example =
     \<lparr>SystemNamespace = ''hmc-system'',
      Client_Update = (\<lambda>m. None),
      Status_Update = (\<lambda>m. None),
      Get_HelmRelease = (\<lambda>ns n. if n = ''hmc'' then Inr (helmrelease_example ns n)
                                  else Inl (NotFound ''not found'')),
      Get_HelmChart = (\<lambda>ns n. Inl (NotFound ''not found'')),
      Get_object = (\<lambda>ns n. Inl (NotFound ''not found'')),
      Get_Template = (\<lambda>ns n. if n = ''p2'' then Inl (NotFound ''not found'')
                               else Inr (template_example n (n \<noteq> ''p1''))),
      Client_Update_HelmRelease = (\<lambda>h. None),
      helm_ReconcileHelmRelease2 = (\<lambda>n ns opts. None),
      certmanager_VerifyAPI = (\<lambda>ns. None),
      utils_EnsureDeleteAllOf = (\<lambda>gvk sel. None),
      json_Unmarshal = (\<lambda>raw. Inr []),
      json_Marshal = (\<lambda>config. Inr ''{admissionWebhook:{enabled:true}}'')\<rparr>"

definition management_example :: "string list \<Rightarrow> Core option \<Rightarrow> Component list \<Rightarrow> Management" where
  "management_example fs core ps =
     \<lparr>Name = ''hmc'', Namespace = [], UID = ''uid-hmc'', Generation = 1, Labels = [],
      Finalizers = fs, Deleting = False,
      Spec = \<lparr>Core = core, ManagementSpec.Providers = ps\<rparr>,
      Object.Status = \<lparr>ManagementStatus.ObservedGeneration = 0, AvailableProviders = Providers_zero,
                Components = Map.empty\<rparr>\<rparr>"

definition providers_example :: "Component list" where
  "providers_example =
     [\<lparr>Component.Template = ''p1'', Component.Config = None\<rparr>, \<lparr>Component.Template = ''p2'', Component.Config = None\<rparr>,
      \<lparr>Component.Template = ''p3'', Component.Config = None\<rparr>]"

text \<open>
  A ManagedCluster reconciler in whose cluster every lookup succeeds, except for the
  templates named \<open>missing\<close>; the cluster template named \<open>invalid\<close> is not valid and a
  cluster template lists the infrastructure providers its name spells (\<open>aws\<close>,
  \<open>aws,azure\<close>, ...). Every infrastructure object carries the blocking finalizer;
  \<open>machines\<close> are the machine objects a list request finds.
\<close>

definition clustertemplate_example :: "string \<Rightarrow> ClusterTemplate" where
  "clustertemplate_example n =
     \<lparr>Name = n, Namespace = ''hmc-system'', UID = ''uid-'' @ n, Generation = 1, Labels = [],
      Finalizers = [], Deleting = False,
      Spec = \<lparr>Helm = \<lparr>HelmSpec.ChartName = n, HelmSpec.ChartVersion = ''0.1.0'',
                     HelmSpec.ChartRef = None\<rparr>,
              TemplateSpecCommon.Providers = Providers_zero\<rparr>,
      Object.Status = \<lparr>Valid = (n \<noteq> ''invalid''), ValidationError = [],
                Description = [], TemplateStatusCommon.Config = None,
                TemplateStatusCommon.ChartRef =
                  Some \<lparr>RefKind = ''HelmChart'', RefName = n, RefNamespace = ''hmc-system''\<rparr>,
                TemplateStatusCommon.Providers =
                  Providers_zero\<lparr>InfrastructureProviders := strings_Split n (CHR '','')\<rparr>,
                TemplateStatusCommon.ObservedGeneration = 1\<rparr>\<rparr>"

definition helmchart_example :: "string \<Rightarrow> string \<Rightarrow> HelmChart" where
  "helmchart_example ns n =
     \<lparr>Name = n, Namespace = ns, UID = ''uid-hc-'' @ n, Generation = 1, Labels = [],
      Finalizers = [], Deleting = False,
      Spec = \<lparr>Chart = n, Version = ''0.1.0'', SourceRef_Kind = ''HelmRepository'',
              SourceRef_Name = ''hmc-templates''\<rparr>,
      Object.Status = \<lparr>Artifact = Some \<lparr>Artifact.URL = ''http://source/'' @ n,
                                           Revision = ''0.1.0''\<rparr>\<rparr>\<rparr>"

definition helmrepository_example :: "string \<Rightarrow> string \<Rightarrow> HelmRepository" where
  "helmrepository_example ns n =
     \<lparr>Name = n, Namespace = ns, UID = ''uid-repo-'' @ n, Generation = 1, Labels = [],
      Finalizers = [], Deleting = False,
      Spec = \<lparr>HelmRepositorySpec.URL = ''oci://registry.example/charts''\<rparr>,
      Object.Status = ()\<rparr>"

definition chart_example :: "(string \<times> string) list \<Rightarrow> Chart" where
  "chart_example annotations =
     \<lparr>Metadata = Some \<lparr>Annotations = annotations, ChartMetadata.Description = ''a chart''\<rparr>,
      Chart.Values = []\<rparr>"

definition ready_release_example :: "string \<Rightarrow> string \<Rightarrow> HelmRelease" where
  "ready_release_example n ns =
     \<lparr>Name = n, Namespace = ns, UID = ''uid-hr-'' @ n, Generation = 1, Labels = [],
      Finalizers = [], Deleting = False,
      Spec = \<lparr>Suspend = False\<rparr>,
      Object.Status = \<lparr>HelmReleaseStatus.Conditions =
        [\<lparr>Condition.Type = ''Ready'', Condition.Status = ''True'',
          Reason = ''InstallSucceeded'', Message = ''Helm install succeeded''\<rparr>]\<rparr>\<rparr>"

definition infra_example :: "GroupVersionKind \<Rightarrow> string \<Rightarrow> string \<Rightarrow> PartialObjectMetadata" where
  "infra_example gvk ns n =
     \<lparr>Name = n, Namespace = ns, UID = ''uid-'' @ Kind gvk, Generation = 1,
      Labels = [(''helm.toolkit.fluxcd.io/name'', n)],
      Finalizers = [''hmc.mirantis.com/cleanup'', Kind gvk @ ''.infrastructure.cluster.x-k8s.io''],
      Deleting = True, TypeMeta = gvk\<rparr>"


definition mc_reconciler_example ::
  "(ListOptions \<Rightarrow> PartialObjectMetadata list) \<Rightarrow> ManagedClusterReconciler" where
  "mc_reconciler_example machines =
     \<lparr>SystemNamespace = ''hmc-system'',
      Client_Update = (\<lambda>m. None),
      Status_Update = (\<lambda>m. None),
      Get_HelmRelease = (\<lambda>ns n. Inr (ready_release_example n ns)),
      Get_HelmChart = (\<lambda>ns n. Inr (helmchart_example ns n)),
      Get_object = (\<lambda>ns n. Inl (NotFound ''not found'')),
      Get_ClusterTemplate = (\<lambda>ns n. if n = ''missing'' then Inl (NotFound ''not found'')
                                      else Inr (clustertemplate_example n)),
      Get_ServiceTemplate = (\<lambda>ns n. if n = ''missing'' then Inl (NotFound ''not found'')
                                      else Inr (clustertemplate_example n)),
      Get_HelmRepository = (\<lambda>ns n. Inr (helmrepository_example ns n)),
      helm_DownloadChartFromArtifact = (\<lambda>a. Inr (chart_example [])),
      action_Init = (\<lambda>ns. None),
      install_RunWithContext = (\<lambda>n ns c vals. None),
      helm_ReconcileHelmRelease = (\<lambda>n ns opts. Inr (ready_release_example n ns)),
      helm_DeleteHelmRelease = (\<lambda>n ns. None),
      sveltos_ReconcileClusterProfile = (\<lambda>ns n labels opts. None),
      sveltos_DeleteClusterProfile = (\<lambda>ns n. None),
      DynamicClient_List = (\<lambda>ns sel. (Some [[(''kind'', JString ''Cluster'')]], None)),
      NestedSlice_status_conditions = (\<lambda>obj. ([JObject [(''type'', JString ''Ready'')]], True, None)),
      FromUnstructured = (\<lambda>m. Inr \<lparr>Condition.Type = ''InfrastructureReady'',
                                      Condition.Status = ''True'', Reason = [], Message = []\<rparr>),
      Client_List = (\<lambda>gvk opts. if gvk = gvkMachine then Inr (machines opts)
                                  else Inr [infra_example gvk (ListNamespace opts)
                                              (snd (hd (LabelSelector opts)))]),
      Client_Patch = (\<lambda>obj original. None)\<rparr>"

definition service_example :: "string \<Rightarrow> bool \<Rightarrow> ServiceSpec" where
  "service_example n install =
     \<lparr>ServiceSpec.Template = n, ServiceSpec.ReleaseName = n, ServiceSpec.ReleaseNamespace = [],
      ServiceSpec.Values = [], Install = install, ServiceSpec.CreateNamespace = True,
      ServiceSpec.PlainHTTP = False, ServiceSpec.Insecure = False\<rparr>"

definition managedcluster_example ::
  "string list \<Rightarrow> string \<Rightarrow> bool \<Rightarrow> ServiceSpec list \<Rightarrow> Condition list \<Rightarrow> ManagedCluster" where
  "managedcluster_example fs template dryRun services conditions =
     \<lparr>Name = ''dev'', Namespace = ''team-a'', UID = ''uid-dev'', Generation = 2, Labels = [],
      Finalizers = fs, Deleting = False,
      Spec = \<lparr>ManagedClusterSpec.Template = template, ManagedClusterSpec.Config = None,
              DryRun = dryRun, Services = services\<rparr>,
      Object.Status = \<lparr>ManagedClusterStatus.ObservedGeneration = 1,
                       ManagedClusterStatus.Conditions = conditions\<rparr>\<rparr>"

text \<open>
  Template reconcilers in whose cluster no call fails: the managed HelmChart comes back
  with an artifact, and the chart downloaded from it carries the given annotations.
\<close>

definition template_reconciler_example ::
  "(string \<Rightarrow> string \<Rightarrow> error + 'obj) \<Rightarrow> (string \<times> string) list \<Rightarrow> 'obj TemplateReconciler" where
  "template_reconciler_example get annotations =
     \<lparr>SystemNamespace = ''hmc-system'',
      Client_Update = (\<lambda>t. None),
      Status_Update = (\<lambda>t. None),
      Get_HelmRelease = (\<lambda>ns n. Inl (NotFound ''not found'')),
      Get_HelmChart = (\<lambda>ns n. Inr (helmchart_example ns n)),
      Get_object = get,
      helm_ArtifactReady = (\<lambda>c. (False, None)),
      downloadHelmChartFunc = (\<lambda>a. Inr (chart_example annotations)),
      chart_Validate = (\<lambda>c. None),
      json_Marshal_Values = (\<lambda>v. Inr ''{}''),
      CreateOrUpdate_HelmChart = (\<lambda>c owners. Inr (helmchart_example (Namespace c) (Name c))),
      helm_ReconcileHelmRepository = (\<lambda>n ns. None)\<rparr>"

text \<open>A template of the single-kind variant that declares no type.\<close>

definition untyped_template_example :: Template where
  "untyped_template_example =
     \<lparr>Name = ''aws-standalone'', Namespace = ''hmc-system'', UID = ''uid-t'', Generation = 3,
      Labels = [], Finalizers = [], Deleting = False,
      Spec = \<lparr>Helm = \<lparr>HelmSpec.ChartName = ''aws-standalone'', HelmSpec.ChartVersion = ''0.1.0'',
                     HelmSpec.ChartRef = None\<rparr>,
              TemplateSpecCommon.Providers = Providers_zero, TemplateSpec.Type = []\<rparr>,
      Object.Status = TemplateStatus_zero\<rparr>"

text \<open>A ClusterTemplate of the three-kind variant.\<close>

definition TemplateStatusCommon_zero :: TemplateStatusCommon where
  "TemplateStatusCommon_zero =
     \<lparr>Valid = False, ValidationError = [], Description = [], TemplateStatusCommon.Config = None,
      TemplateStatusCommon.ChartRef = None, TemplateStatusCommon.Providers = Providers_zero,
      TemplateStatusCommon.ObservedGeneration = 0\<rparr>"

definition new_clustertemplate_example :: TemplateObject where
  "new_clustertemplate_example =
     \<lparr>Name = ''aws-standalone'', Namespace = ''hmc-system'', UID = ''uid-t'', Generation = 3,
      Labels = [], Finalizers = [], Deleting = False,
      Spec = \<lparr>Helm = \<lparr>HelmSpec.ChartName = ''aws-standalone'', HelmSpec.ChartVersion = ''0.1.0'',
                     HelmSpec.ChartRef = None\<rparr>,
              TemplateSpecCommon.Providers = Providers_zero\<rparr>,
      Object.Status = TemplateStatusCommon_zero\<rparr>"

section \<open>Properties of the Management controller\<close>

subsection \<open>Joined errors\<close>

lemma errors_Join_Some:
  "errors_Join [eo, Some x] = Some (Joined (case eo of None \<Rightarrow> [x] | Some e \<Rightarrow> [e, x]))"
  by (cases eo) (simp_all add: errors_Join_def List.map_filter_def)

lemma leaves_errors_Join:
  "errors_Join [eo, Some x] = Some e \<Longrightarrow>
   set (leaves e) = (case eo of None \<Rightarrow> {} | Some e0 \<Rightarrow> set (leaves e0)) \<union> set (leaves x)"
  by (cases eo) (auto simp: errors_Join_Some)

subsection \<open>The loop over the components\<close>

lemma Update_component_failure:
  assumes "template_failure r (Component.Template c) = Some msg"
  shows "Update_component r c (errs, dp, dc, calls) =
           (errors_Join [errs, Some (Failure msg)], dp,
            dc(Component.Template c \<mapsto> \<lparr>Success = False, Error_msg = msg\<rparr>),
            calls @ [Call_Get_Template (SystemNamespace r) (Component.Template c)])"
  using assms
  by (auto simp: Update_component_def template_failure_def updateComponentsStatus_def
      errors_New_def Let_def split: sum.splits if_splits)

lemma Update_component_other:
  "Update_component r c (errs, dp, dc, calls) = (errs', dp', dc', calls') \<Longrightarrow>
   (n \<noteq> Component.Template c \<longrightarrow> dc' n = dc n) \<and> Component.Template c \<in> dom dc' \<and>
   (\<forall>e. errs = Some e \<longrightarrow> (\<exists>e'. errs' = Some e' \<and> set (leaves e) \<subseteq> set (leaves e'))) \<and>
   filter is_Get_Template calls' =
     filter is_Get_Template calls @ [Call_Get_Template (SystemNamespace r) (Component.Template c)]"
  by (auto simp: Update_component_def updateComponentsStatus_def errors_Join_Some
      errors_New_def Let_def HelmReleaseName_def split: sum.splits if_splits option.splits)


lemma Update_components_calls:
  "Update_components r cs (errs, dp, dc, calls) = (errs', dp', dc', calls') \<Longrightarrow>
   filter is_Get_Template calls' =
     filter is_Get_Template calls @ map (\<lambda>c. Call_Get_Template (SystemNamespace r) (Component.Template c)) cs"
proof (induction cs arbitrary: errs dp dc calls)
  case Nil
  then show ?case by simp
next
  case (Cons c cs)
  obtain e1 p1 d1 c1 where step: "Update_component r c (errs, dp, dc, calls) = (e1, p1, d1, c1)"
    by (cases "Update_component r c (errs, dp, dc, calls)") auto
  from Cons.prems step have "Update_components r cs (e1, p1, d1, c1) = (errs', dp', dc', calls')"
    by simp
  from Cons.IH [OF this] Update_component_other [OF step] show ?case by simp
qed

lemma Update_components_dom:
  "Update_components r cs (errs, dp, dc, calls) = (errs', dp', dc', calls') \<Longrightarrow>
   dom dc \<union> Component.Template ` set cs \<subseteq> dom dc'"
proof (induction cs arbitrary: errs dp dc calls)
  case Nil
  then show ?case by simp
next
  case (Cons c cs)
  obtain e1 p1 d1 c1 where step: "Update_component r c (errs, dp, dc, calls) = (e1, p1, d1, c1)"
    by (cases "Update_component r c (errs, dp, dc, calls)") auto
  from Cons.prems step have rest: "Update_components r cs (e1, p1, d1, c1) = (errs', dp', dc', calls')"
    by simp
  have "dom dc \<subseteq> dom d1"
  proof
    fix n assume n: "n \<in> dom dc"
    show "n \<in> dom d1"
    proof (cases "n = Component.Template c")
      case True
      with Update_component_other [OF step] show ?thesis by blast
    next
      case False
      with Update_component_other [OF step, of n] n show ?thesis by (auto simp: dom_def)
    qed
  qed
  moreover have "Component.Template c \<in> dom d1"
    using Update_component_other [OF step] by blast
  ultimately show ?case using Cons.IH [OF rest] by auto
qed

lemma Update_components_failure:
  assumes "template_failure r n = Some msg"
  shows "Update_components r cs (errs, dp, dc, calls) = (errs', dp', dc', calls') \<Longrightarrow>
         n \<in> Component.Template ` set cs \<or> dc n = Some \<lparr>Success = False, Error_msg = msg\<rparr> \<Longrightarrow>
         dc' n = Some \<lparr>Success = False, Error_msg = msg\<rparr>"
proof (induction cs arbitrary: errs dp dc calls)
  case Nil
  then show ?case by simp
next
  case (Cons c cs)
  obtain e1 p1 d1 c1 where step: "Update_component r c (errs, dp, dc, calls) = (e1, p1, d1, c1)"
    by (cases "Update_component r c (errs, dp, dc, calls)") auto
  from Cons.prems(1) step
  have rest: "Update_components r cs (e1, p1, d1, c1) = (errs', dp', dc', calls')"
    by simp
  have "n \<in> Component.Template ` set cs \<or> d1 n = Some \<lparr>Success = False, Error_msg = msg\<rparr>"
  proof (cases "n = Component.Template c")
    case True
    with assms step Update_component_failure [of r c msg errs dp dc calls]
    show ?thesis by auto
  next
    case False
    with Cons.prems(2) Update_component_other [OF step, of n] show ?thesis by auto
  qed
  from Cons.IH [OF rest this] show ?case .
qed

lemma Update_components_errs:
  assumes "template_failure r n = Some msg"
  shows "Update_components r cs (errs, dp, dc, calls) = (errs', dp', dc', calls') \<Longrightarrow>
         n \<in> Component.Template ` set cs \<or> (\<exists>e. errs = Some e \<and> Failure msg \<in> set (leaves e)) \<Longrightarrow>
         \<exists>e'. errs' = Some e' \<and> Failure msg \<in> set (leaves e')"
proof (induction cs arbitrary: errs dp dc calls)
  case Nil
  then show ?case by simp
next
  case (Cons c cs)
  obtain e1 p1 d1 c1 where step: "Update_component r c (errs, dp, dc, calls) = (e1, p1, d1, c1)"
    by (cases "Update_component r c (errs, dp, dc, calls)") auto
  from Cons.prems(1) step
  have rest: "Update_components r cs (e1, p1, d1, c1) = (errs', dp', dc', calls')"
    by simp
  have "n \<in> Component.Template ` set cs \<or> (\<exists>e. e1 = Some e \<and> Failure msg \<in> set (leaves e))"
  proof (cases "\<exists>e. errs = Some e \<and> Failure msg \<in> set (leaves e)")
    case True
    with Update_component_other [OF step] show ?thesis by blast
  next
    case False
    with Cons.prems(2) have "n = Component.Template c \<or> n \<in> Component.Template ` set cs" by auto
    then show ?thesis
    proof
      assume "n = Component.Template c"
      with assms step Update_component_failure [of r c msg errs dp dc calls]
      have "e1 = errors_Join [errs, Some (Failure msg)]" by simp
      then show ?thesis by (cases errs) (auto simp: errors_Join_Some)
    qed simp
  qed
  from Cons.IH [OF rest this] show ?case .
qed


lemma Update_component_reconciles:
  "Update_component r c (errs, dp, dc, calls) = (errs', dp', dc', calls') \<Longrightarrow>
   set calls \<subseteq> set calls' \<and>
   (\<forall>t. Get_Template r (SystemNamespace r) (Component.Template c) = Inr t \<and> Valid (Object.Status t) \<longrightarrow>
      Call_ReconcileHelmRelease2 (Component.Template c) (SystemNamespace r) (release_opts c t) \<in> set calls')"
  by (auto simp: Update_component_def updateComponentsStatus_def release_opts_def
      Let_def HelmReleaseName_def split: sum.splits if_splits option.splits)

lemma Update_components_reconciles:
  "Update_components r cs (errs, dp, dc, calls) = (errs', dp', dc', calls') \<Longrightarrow>
   set calls \<subseteq> set calls' \<and>
   (\<forall>c \<in> set cs. \<forall>t.
      Get_Template r (SystemNamespace r) (Component.Template c) = Inr t \<and> Valid (Object.Status t) \<longrightarrow>
      Call_ReconcileHelmRelease2 (Component.Template c) (SystemNamespace r) (release_opts c t) \<in> set calls')"
proof (induction cs arbitrary: errs dp dc calls)
  case Nil
  then show ?case by simp
next
  case (Cons c cs)
  obtain e1 p1 d1 c1 where step: "Update_component r c (errs, dp, dc, calls) = (e1, p1, d1, c1)"
    by (cases "Update_component r c (errs, dp, dc, calls)") auto
  from Cons.prems step
  have rest: "Update_components r cs (e1, p1, d1, c1) = (errs', dp', dc', calls')"
    by simp
  from Cons.IH [OF rest] Update_component_reconciles [OF step] show ?case
    by (simp add: subset_iff)
qed

lemma enableAdditionalComponents_calls:
  "enableAdditionalComponents r m = (Returns (m3, None), calls0) \<Longrightarrow>
   Core (Spec m) \<noteq> None \<and> filter is_Get_Template calls0 = [] \<and>
   Finalizers m3 = Finalizers m \<and> Core (Spec m3) \<noteq> None"
  by (auto simp: enableAdditionalComponents_def Let_def
      split: option.splits sum.splits exec.splits)

text \<open>
  Claim C1. In a pass of \<open>Update\<close> that reaches the loop over the components (the
  finalizer is already there and \<open>enableAdditionalComponents\<close> returned without error),
  take any component \<open>c\<close> of the computed list whose template cannot be fetched from the
  system namespace or is not marked as valid. Then the pass returns a non-nil error \<open>e\<close>;
  the status it builds maps the component's name to \<open>success = false\<close> with the non-empty
  message of that failure; the message is one of the errors joined in \<open>e\<close>; the pass
  looked up the template of every component of the list, once each and in order; every
  component has an entry in the status, and every component whose template is valid had its
  release reconciled; the status update is the last call of the pass.
\<close>

theorem Update_isolates_component_failures:
  assumes fin: "ManagementFinalizer \<in> set (Finalizers m)"
    and en: "enableAdditionalComponents r m = (Returns (m3, None), calls0)"
    and c: "c \<in> set (wrappedComponents K m3)"
    and bad: "(\<exists>err. Get_Template r (SystemNamespace r) (Component.Template c) = Inl err) \<or>
              (\<exists>t. Get_Template r (SystemNamespace r) (Component.Template c) = Inr t \<and> \<not> Valid (Object.Status t))"
  shows "\<exists>m' e calls msg.
      Management_Update K r m = (Returns (m', Result_zero, Some e), calls) \<and>
      msg = (case Get_Template r (SystemNamespace r) (Component.Template c) of
               Inl err \<Rightarrow> ''Failed to get Template '' @ SystemNamespace r @ ''/'' @ Component.Template c
                          @ '': '' @ Error err
             | Inr t \<Rightarrow> ''Template '' @ SystemNamespace r @ ''/'' @ Component.Template c
                          @ '' is not marked as valid'') \<and>
      msg \<noteq> [] \<and>
      Components (Object.Status m') (Component.Template c) = Some \<lparr>Success = False, Error_msg = msg\<rparr> \<and>
      Failure msg \<in> set (leaves e) \<and>
      filter is_Get_Template calls =
        map (\<lambda>c'. Call_Get_Template (SystemNamespace r) (Component.Template c')) (wrappedComponents K m3) \<and>
      (\<forall>c' \<in> set (wrappedComponents K m3).
         Component.Template c' \<in> dom (Components (Object.Status m')) \<and>
         (\<forall>t. Get_Template r (SystemNamespace r) (Component.Template c') = Inr t \<and> Valid (Object.Status t) \<longrightarrow>
            Call_ReconcileHelmRelease2 (Component.Template c') (SystemNamespace r) (release_opts c' t) \<in> set calls)) \<and>
      last calls = Call_Status_Update m'"
proof -
  define msg where "msg = (case Get_Template r (SystemNamespace r) (Component.Template c) of
               Inl err \<Rightarrow> ''Failed to get Template '' @ SystemNamespace r @ ''/'' @ Component.Template c
                          @ '': '' @ Error err
             | Inr t \<Rightarrow> ''Template '' @ SystemNamespace r @ ''/'' @ Component.Template c
                          @ '' is not marked as valid'')"
  from bad have tf: "template_failure r (Component.Template c) = Some msg"
    by (auto simp: template_failure_def msg_def)
  have nonempty: "msg \<noteq> []"
    by (simp add: msg_def split: sum.splits)
  obtain errs dp dc calls1 where loop:
    "Update_components r (wrappedComponents K m3) (None, Providers_zero, Map.empty, calls0)
       = (errs, dp, dc, calls1)"
    by (cases "Update_components r (wrappedComponents K m3) (None, Providers_zero, Map.empty, calls0)")
      auto
  from c have cin: "Component.Template c \<in> Component.Template ` set (wrappedComponents K m3)" by blast
  from Update_components_errs [OF tf loop] cin
  obtain e where e: "errs = Some e" "Failure msg \<in> set (leaves e)" by blast
  from Update_components_failure [OF tf loop] cin
  have entry: "dc (Component.Template c) = Some \<lparr>Success = False, Error_msg = msg\<rparr>" by blast
  define m4 where "m4 = m3\<lparr>Object.Status :=
      \<lparr>ManagementStatus.ObservedGeneration = Generation m3,
       AvailableProviders = dp, Components = dc\<rparr>\<rparr>"
  define e' where "e' = (case Status_Update r m4 of
       Some err \<Rightarrow> Joined [e, Wrapped (''failed to update status for Management '' @ Name m4 @ '': '') err]
     | None \<Rightarrow> e)"
  from enableAdditionalComponents_calls [OF en]
  have core: "Core (Spec m) \<noteq> None" and nog: "filter is_Get_Template calls0 = []" by auto
  have upd: "Management_Update K r m = (Returns (m4, Result_zero, Some e'), calls1 @ [Call_Status_Update m4])"
    using fin core en loop e(1)
    by (simp add: Management_Update_def AddFinalizer_def SetDefaults_def Let_def m4_def e'_def
        errors_Join_Some split: option.splits)
  have lv: "Failure msg \<in> set (leaves e')"
    using e(2) by (simp add: e'_def split: option.splits)
  have gets: "filter is_Get_Template (calls1 @ [Call_Status_Update m4]) =
      map (\<lambda>c'. Call_Get_Template (SystemNamespace r) (Component.Template c')) (wrappedComponents K m3)"
    using Update_components_calls [OF loop] nog by simp
  have all: "\<forall>c' \<in> set (wrappedComponents K m3).
         Component.Template c' \<in> dom (Components (Object.Status m4)) \<and>
         (\<forall>t. Get_Template r (SystemNamespace r) (Component.Template c') = Inr t \<and> Valid (Object.Status t) \<longrightarrow>
            Call_ReconcileHelmRelease2 (Component.Template c') (SystemNamespace r) (release_opts c' t)
              \<in> set (calls1 @ [Call_Status_Update m4]))"
    using Update_components_dom [OF loop] Update_components_reconciles [OF loop]
    by (auto simp: m4_def)
  have "Components (Object.Status m4) (Component.Template c) = Some \<lparr>Success = False, Error_msg = msg\<rparr>"
    using entry by (simp add: m4_def)
  moreover have "last (calls1 @ [Call_Status_Update m4]) = Call_Status_Update m4"
    by simp
  ultimately show ?thesis
    using upd nonempty lv gets all msg_def
    by (intro exI [of _ m4] exI [of _ e'] exI [of _ "calls1 @ [Call_Status_Update m4]"]
        exI [of _ msg] conjI)
qed


theorem Update_isolates_component_failures_witness:
  "ManagementFinalizer \<in> set (Finalizers
      (management_example [ManagementFinalizer] (Some DefaultCoreConfiguration) providers_example)) \<and>
   enableAdditionalComponents reconciler_example
      (management_example [ManagementFinalizer] (Some DefaultCoreConfiguration) providers_example) =
     (Returns (management_example [ManagementFinalizer]
        (Some (DefaultCoreConfiguration\<lparr>HMC := (HMC DefaultCoreConfiguration)
           \<lparr>Component.Config := Some ''{admissionWebhook:{enabled:true}}''\<rparr>\<rparr>)) providers_example, None),
      [Call_VerifyAPI ''hmc-system'']) \<and>
   (\<exists>m' e calls.
      Management_Update hmc_example reconciler_example
        (management_example [ManagementFinalizer] (Some DefaultCoreConfiguration) providers_example)
        = (Returns (m', Result_zero, Some e), calls) \<and>
      Components (Object.Status m') ''p1'' =
        Some \<lparr>Success = False, Error_msg = ''Template hmc-system/p1 is not marked as valid''\<rparr> \<and>
      Failure ''Template hmc-system/p1 is not marked as valid'' \<in> set (leaves e) \<and>
      filter is_Get_Template calls =
        [Call_Get_Template ''hmc-system'' ''hmc'', Call_Get_Template ''hmc-system'' ''cluster-api'',
         Call_Get_Template ''hmc-system'' ''p1'', Call_Get_Template ''hmc-system'' ''p2'',
         Call_Get_Template ''hmc-system'' ''p3''])"
proof -
  let ?m = "management_example [ManagementFinalizer] (Some DefaultCoreConfiguration) providers_example"
  let ?m3 = "management_example [ManagementFinalizer]
        (Some (DefaultCoreConfiguration\<lparr>HMC := (HMC DefaultCoreConfiguration)
           \<lparr>Component.Config := Some ''{admissionWebhook:{enabled:true}}''\<rparr>\<rparr>)) providers_example"
  let ?c = "wrappedProvider hmc_example
     (DefaultCoreConfiguration\<lparr>HMC := (HMC DefaultCoreConfiguration)
           \<lparr>Component.Config := Some ''{admissionWebhook:{enabled:true}}''\<rparr>\<rparr>)
     \<lparr>Component.Template = ''p1'', Component.Config = None\<rparr>"
  have h1: "ManagementFinalizer \<in> set (Finalizers ?m)"
    by (simp add: management_example_def)
  have h2: "enableAdditionalComponents reconciler_example ?m =
      (Returns (?m3, None), [Call_VerifyAPI ''hmc-system''])"
    by (simp add: enableAdditionalComponents_def management_example_def reconciler_example_def
        DefaultCoreConfiguration_def values_of_def Let_def)
  have h3: "?c \<in> set (wrappedComponents hmc_example ?m3)"
    by (simp add: wrappedComponents_def management_example_def providers_example_def)
  have t: "Component.Template ?c = ''p1''"
    by (simp add: wrappedProvider_def wrap_def Let_def)
  have h4: "(\<exists>err. Get_Template reconciler_example (SystemNamespace reconciler_example) (Component.Template ?c)
                = Inl err) \<or>
            (\<exists>t. Get_Template reconciler_example (SystemNamespace reconciler_example) (Component.Template ?c)
                = Inr t \<and> \<not> Valid (Object.Status t))"
    unfolding t by (simp add: reconciler_example_def template_example_def)
  have comps: "map Component.Template (wrappedComponents hmc_example ?m3) =
      [''hmc'', ''cluster-api'', ''p1'', ''p2'', ''p3'']"
    by (simp add: wrappedComponents_def management_example_def providers_example_def
        DefaultCoreConfiguration_def DefaultCoreHMCTemplate_def DefaultCoreCAPITemplate_def
        wrappedProvider_def wrap_def Let_def)
  have gets: "map (\<lambda>c'. Call_Get_Template ''hmc-system'' (Component.Template c'))
      (wrappedComponents hmc_example ?m3) =
      map (Call_Get_Template ''hmc-system'') (map Component.Template (wrappedComponents hmc_example ?m3))"
    by simp
  from Update_isolates_component_failures [OF h1 h2 h3 h4]
  obtain m' e calls msg where
    "Management_Update hmc_example reconciler_example ?m = (Returns (m', Result_zero, Some e), calls)"
    "msg = (case Get_Template reconciler_example (SystemNamespace reconciler_example) (Component.Template ?c) of
               Inl err \<Rightarrow> ''Failed to get Template '' @ SystemNamespace reconciler_example @ ''/''
                  @ Component.Template ?c @ '': '' @ Error err
             | Inr t \<Rightarrow> ''Template '' @ SystemNamespace reconciler_example @ ''/'' @ Component.Template ?c
                          @ '' is not marked as valid'')"
    "Components (Object.Status m') (Component.Template ?c) = Some \<lparr>Success = False, Error_msg = msg\<rparr>"
    "Failure msg \<in> set (leaves e)"
    "filter is_Get_Template calls =
        map (\<lambda>c'. Call_Get_Template (SystemNamespace reconciler_example) (Component.Template c'))
          (wrappedComponents hmc_example ?m3)"
    by blast
  moreover have "SystemNamespace reconciler_example = ''hmc-system''"
    by (simp add: reconciler_example_def)
  ultimately have "\<exists>m' e calls.
      Management_Update hmc_example reconciler_example ?m = (Returns (m', Result_zero, Some e), calls) \<and>
      Components (Object.Status m') ''p1'' =
        Some \<lparr>Success = False, Error_msg = ''Template hmc-system/p1 is not marked as valid''\<rparr> \<and>
      Failure ''Template hmc-system/p1 is not marked as valid'' \<in> set (leaves e) \<and>
      filter is_Get_Template calls =
        [Call_Get_Template ''hmc-system'' ''hmc'', Call_Get_Template ''hmc-system'' ''cluster-api'',
         Call_Get_Template ''hmc-system'' ''p1'', Call_Get_Template ''hmc-system'' ''p2'',
         Call_Get_Template ''hmc-system'' ''p3'']"
    using t gets comps
    by (simp add: reconciler_example_def template_example_def)
  with h1 h2 show ?thesis by blast
qed


subsection \<open>Defaults of the core configuration\<close>

text \<open>
  Claim C9, as stated, fails on a Management that does not carry its finalizer yet: the
  first pass only adds the finalizer and returns, and \<open>spec.core\<close> is still nil in the
  object it sends to the API server.
\<close>

theorem Update_first_pass_leaves_core_nil:
  "Core (Spec (management_example [] None [])) = None \<and>
   Management_Update hmc_example reconciler_example (management_example [] None []) =
     (Returns (management_example [ManagementFinalizer] None [], Result_zero, None),
      [Call_Client_Update (management_example [ManagementFinalizer] None [])])"
  by (simp add: Management_Update_def management_example_def AddFinalizer_def reconciler_example_def Let_def)

text \<open>
  Claim C9, amended. For a Management that carries the finalizer and whose \<open>spec.core\<close>
  is nil, the pass sets \<open>spec.core\<close> to the default core configuration (HMC on template
  \<open>hmc\<close>, CAPI on template \<open>cluster-api\<close>), sends exactly that object in one client
  update and returns the update's error. \<open>SetDefaults\<close> changes nothing when the core is
  set, and never leaves it nil.
\<close>

theorem Update_sets_default_core:
  "(ManagementFinalizer \<in> set (Finalizers m) \<and> Core (Spec m) = None \<longrightarrow>
      (let m' = m\<lparr>Spec := (Spec m)\<lparr>Core := Some DefaultCoreConfiguration\<rparr>\<rparr> in
       Management_Update K r m = (Returns (m', Result_zero, Client_Update r m'), [Call_Client_Update m']) \<and>
       Core (Spec m') =
         Some \<lparr>HMC = \<lparr>Component.Template = ''hmc'', Component.Config = None\<rparr>,
               CAPI = \<lparr>Component.Template = ''cluster-api'', Component.Config = None\<rparr>\<rparr>))
   \<and> (Core s \<noteq> None \<longrightarrow> SetDefaults s = (s, False))
   \<and> Core (fst (SetDefaults s)) \<noteq> None"
  by (auto simp: Management_Update_def AddFinalizer_def SetDefaults_def Let_def DefaultCoreConfiguration_def
      DefaultCoreHMCTemplate_def DefaultCoreCAPITemplate_def)


theorem Update_sets_default_core_witness:
  "ManagementFinalizer \<in> set (Finalizers (management_example [ManagementFinalizer] None [])) \<and>
   Core (Spec (management_example [ManagementFinalizer] None [])) = None \<and>
   Management_Update hmc_example reconciler_example (management_example [ManagementFinalizer] None []) =
     (Returns (management_example [ManagementFinalizer] (Some DefaultCoreConfiguration) [],
               Result_zero, None),
      [Call_Client_Update
         (management_example [ManagementFinalizer] (Some DefaultCoreConfiguration) [])]) \<and>
   SetDefaults \<lparr>Core = Some DefaultCoreConfiguration, ManagementSpec.Providers = providers_example\<rparr> =
     (\<lparr>Core = Some DefaultCoreConfiguration, ManagementSpec.Providers = providers_example\<rparr>, False)"
  using Update_sets_default_core [of "management_example [ManagementFinalizer] None []" hmc_example reconciler_example
      "\<lparr>Core = Some DefaultCoreConfiguration, ManagementSpec.Providers = providers_example\<rparr>"]
  by (simp add: management_example_def reconciler_example_def Let_def)

subsection \<open>Deletion\<close>

lemma RemoveFinalizer_eq:
  "RemoveFinalizer f x = (filter (\<lambda>e. e \<noteq> x) f, x \<in> set f)"
proof -
  have "length (filter (\<lambda>e. e \<noteq> x) f) = length f \<longleftrightarrow> x \<notin> set f"
  proof
    assume "length (filter (\<lambda>e. e \<noteq> x) f) = length f"
    then show "x \<notin> set f"
      using length_filter_less [of x f "\<lambda>e. e \<noteq> x"] by auto
  next
    assume "x \<notin> set f"
    then have "filter (\<lambda>e. e \<noteq> x) f = f" by (simp add: filter_id_conv) blast
    then show "length (filter (\<lambda>e. e \<noteq> x) f) = length f" by simp
  qed
  then show ?thesis by (auto simp: RemoveFinalizer_def Let_def)
qed

lemma filter_absent: "x \<notin> set f \<Longrightarrow> filter (\<lambda>e. e \<noteq> x) f = f"
  by (simp add: filter_id_conv) blast

text \<open>
  Claim C6 fails on a Management whose \<open>spec.core\<close> is nil, the state in which the first
  pass of \<open>Update\<close> leaves a new object (it adds the finalizer and returns before the
  defaults are set): \<open>Delete\<close> dereferences \<open>management.Spec.Core\<close> for the name of the
  HMC release and panics before any call, so nothing is suspended or deleted and the
  finalizer stays.
\<close>

theorem Delete_panics_on_nil_core:
  "Management_Update hmc_example reconciler_example (management_example [] None []) =
     (Returns (management_example [ManagementFinalizer] None [], Result_zero, None),
      [Call_Client_Update (management_example [ManagementFinalizer] None [])]) \<and>
   Core (Spec (management_example [ManagementFinalizer] None [])) = None \<and>
   Management_Delete hmc_example reconciler_example
     (management_example [ManagementFinalizer] None []) = (Panics, [])"
  by (simp add: Management_Update_def Management_Delete_def management_example_def
      AddFinalizer_def reconciler_example_def Let_def)

text \<open>
  Claim C6, for a Management whose core configuration is set. The pass of \<open>Delete\<close> is
  the following, call for call. It looks up the core HMC release; a failure other than
  not-found ends the pass with that error. When the release exists and is not suspended,
  it sends the release with \<open>suspend = true\<close>; a failure ends the pass with that error.
  Then it issues delete-all-of HelmReleases, then HelmCharts, then HelmRepositories, each
  with the managed-by label selector; the first of them that fails ends the pass with its
  error, the later ones not issued and the finalizer not removed. Only after all three
  returned no error is the Management finalizer removed from the object, and the object
  sent in one update, whose error the pass returns (no update when the finalizer was not
  there).
\<close>

theorem Delete_order:
  assumes core: "Core (Spec m) = Some core"
  shows "let sel = [(HMCManagedLabelKey K, HMCManagedLabelValue K)];
             hmcName = Component.Template (HMC core);
             get = [Call_Get_HelmRelease (SystemNamespace r) hmcName];
             releases = Call_EnsureDeleteAllOf gvk_HelmRelease sel;
             charts = Call_EnsureDeleteAllOf gvk_HelmChart sel;
             repositories = Call_EnsureDeleteAllOf gvk_HelmRepository sel;
             m' = m\<lparr>Finalizers := filter (\<lambda>f. f \<noteq> ManagementFinalizer) (Finalizers m)\<rparr>;
             stop = (\<lambda>err calls. (Returns (m, Result_zero, Some err), calls));
             deletes = (\<lambda>calls.
               case utils_EnsureDeleteAllOf r gvk_HelmRelease sel of
                 Some err \<Rightarrow> stop err (calls @ [releases])
               | None \<Rightarrow>
                  (case utils_EnsureDeleteAllOf r gvk_HelmChart sel of
                     Some err \<Rightarrow> stop err (calls @ [releases, charts])
                   | None \<Rightarrow>
                      (case utils_EnsureDeleteAllOf r gvk_HelmRepository sel of
                         Some err \<Rightarrow> stop err (calls @ [releases, charts, repositories])
                       | None \<Rightarrow>
                           if ManagementFinalizer \<in> set (Finalizers m)
                           then (Returns (m', Result_zero, Client_Update r m'),
                                 calls @ [releases, charts, repositories, Call_Client_Update m'])
                           else (Returns (m, Result_zero, None),
                                 calls @ [releases, charts, repositories]))))
         in Management_Delete K r m =
              (case Get_HelmRelease r (SystemNamespace r) hmcName of
                 Inl err \<Rightarrow> if IsNotFound err then deletes get else stop err get
               | Inr hr \<Rightarrow>
                   if Suspend (Spec hr) then deletes get
                   else
                     (let suspended = hr\<lparr>Spec := (Spec hr)\<lparr>Suspend := True\<rparr>\<rparr> in
                      case Client_Update_HelmRelease r suspended of
                        Some err \<Rightarrow> stop err (get @ [Call_Client_Update_HelmRelease suspended])
                      | None \<Rightarrow> deletes (get @ [Call_Client_Update_HelmRelease suspended])))"
  using core
  by (auto simp: Management_Delete_def removeHelmReleases_def removeHelmCharts_def
      removeHelmRepositories_def RemoveFinalizer_eq Let_def HelmReleaseName_def filter_absent
      split: option.splits sum.splits if_splits)

theorem Delete_order_witness:
  "Core (Spec (management_example [ManagementFinalizer] (Some DefaultCoreConfiguration) [])) =
     Some DefaultCoreConfiguration \<and>
   Management_Delete hmc_example reconciler_example
     (management_example [ManagementFinalizer] (Some DefaultCoreConfiguration) []) =
     (Returns (management_example [] (Some DefaultCoreConfiguration) [], Result_zero, None),
      [Call_Get_HelmRelease ''hmc-system'' ''hmc'',
       Call_Client_Update_HelmRelease
         ((helmrelease_example ''hmc-system'' ''hmc'')\<lparr>Spec := \<lparr>Suspend = True\<rparr>\<rparr>),
       Call_EnsureDeleteAllOf gvk_HelmRelease [(''hmc.mirantis.com/managed'', ''true'')],
       Call_EnsureDeleteAllOf gvk_HelmChart [(''hmc.mirantis.com/managed'', ''true'')],
       Call_EnsureDeleteAllOf gvk_HelmRepository [(''hmc.mirantis.com/managed'', ''true'')],
       Call_Client_Update (management_example [] (Some DefaultCoreConfiguration) [])]) \<and>
   Management_Delete hmc_example
     (reconciler_example\<lparr>utils_EnsureDeleteAllOf :=
        (\<lambda>gvk sel. if gvk = gvk_HelmChart then Some (Failure ''charts remain'') else None)\<rparr>)
     (management_example [ManagementFinalizer] (Some DefaultCoreConfiguration) []) =
     (Returns (management_example [ManagementFinalizer] (Some DefaultCoreConfiguration) [],
               Result_zero, Some (Failure ''charts remain'')),
      [Call_Get_HelmRelease ''hmc-system'' ''hmc'',
       Call_Client_Update_HelmRelease
         ((helmrelease_example ''hmc-system'' ''hmc'')\<lparr>Spec := \<lparr>Suspend = True\<rparr>\<rparr>),
       Call_EnsureDeleteAllOf gvk_HelmRelease [(''hmc.mirantis.com/managed'', ''true'')],
       Call_EnsureDeleteAllOf gvk_HelmChart [(''hmc.mirantis.com/managed'', ''true'')]])"
proof -
  have h: "Core (Spec (management_example [ManagementFinalizer] (Some DefaultCoreConfiguration) []))
      = Some DefaultCoreConfiguration"
    by (simp add: management_example_def)
  show ?thesis
    using Delete_order [OF h, of hmc_example reconciler_example]
      Delete_order [OF h, of hmc_example "reconciler_example\<lparr>utils_EnsureDeleteAllOf :=
        (\<lambda>gvk sel. if gvk = gvk_HelmChart then Some (Failure ''charts remain'') else None)\<rparr>"]
    by (simp add: management_example_def reconciler_example_def helmrelease_example_def
        hmc_example_def DefaultCoreConfiguration_def DefaultCoreHMCTemplate_def
        ManagementFinalizer_def Let_def gvk_HelmRelease_def gvk_HelmChart_def
        gvk_HelmRepository_def)
qed
section \<open>Properties of the ManagedCluster controller\<close>

subsection \<open>Conditions\<close>

lemma updateStatus_messages_eq:
  "updateStatus_messages K cs (w, e) =
     (w @ concat (map (\<lambda>c. Message c @ ''. '')
        (filter (\<lambda>c. Condition.Type c \<noteq> ReadyCondition K \<and> Condition.Status c = ConditionUnknown) cs)),
      e @ concat (map (\<lambda>c. Message c @ ''. '')
        (filter (\<lambda>c. Condition.Type c \<noteq> ReadyCondition K \<and> Condition.Status c = ConditionFalse) cs)))"
  by (induction cs arbitrary: w e) auto

lemma Find_Set_same:
  "FindStatusCondition (SetStatusCondition cs c) (Condition.Type c) = Some c"
  by (induction cs) auto

lemma Find_Set_other:
  "t \<noteq> Condition.Type c \<Longrightarrow>
   FindStatusCondition (SetStatusCondition cs c) t = FindStatusCondition cs t"
  by (induction cs) auto

lemma filter_Set_other:
  "filter (\<lambda>x. Condition.Type x \<noteq> Condition.Type c) (SetStatusCondition cs c) =
   filter (\<lambda>x. Condition.Type x \<noteq> Condition.Type c) cs"
  by (induction cs) auto

lemma messages_empty:
  "concat (map (\<lambda>c. Message c @ ''. '') cs) = [] \<longleftrightarrow> cs = []"
  by (cases cs) auto

lemma errors_Join_first:
  "errors_Join [Some x, eo] = Some (Joined (x # (case eo of None \<Rightarrow> [] | Some e \<Rightarrow> [e])))"
  by (cases eo) (simp_all add: errors_Join_def List.map_filter_def)

lemma errors_Join_None:
  "errors_Join [None, eo] = (case eo of None \<Rightarrow> None | Some e \<Rightarrow> Some (Joined [e]))"
  by (cases eo) (simp_all add: errors_Join_def List.map_filter_def)

lemma updateStatus_shape:
  "\<exists>mc' err ready.
     ManagedCluster_updateStatus K r mc = (mc', err, [Call_Status_Update mc']) \<and>
     Condition.Type ready = ReadyCondition K \<and>
     ManagedClusterStatus.Conditions (Object.Status mc') =
       SetStatusCondition (ManagedClusterStatus.Conditions (Object.Status mc)) ready \<and>
     (err = None \<longleftrightarrow> Status_Update r mc' = None)"
proof -
  obtain w e where m:
    "updateStatus_messages K (ManagedClusterStatus.Conditions (Object.Status mc)) ([], []) = (w, e)"
    by (cases "updateStatus_messages K (ManagedClusterStatus.Conditions (Object.Status mc)) ([], [])")
      auto
  define ready where "ready =
     (if e \<noteq> [] then condition (ReadyCondition K) ConditionFalse (FailedReason K) e
      else if w \<noteq> [] then condition (ReadyCondition K) ConditionUnknown (ProgressingReason K) w
      else condition (ReadyCondition K) ConditionTrue (SucceededReason K)
             ''ManagedCluster is ready'')"
  define mc' where "mc' = setCondition
      (mc\<lparr>Object.Status := (Object.Status mc)
         \<lparr>ManagedClusterStatus.ObservedGeneration := Generation mc\<rparr>\<rparr>) ready"
  define err where "err = (case Status_Update r mc' of
               Some err \<Rightarrow> Some (Wrapped (''failed to update status for managedCluster ''
                 @ Namespace mc' @ ''/'' @ Name mc' @ '': '') err)
             | None \<Rightarrow> None)"
  have 1: "ManagedCluster_updateStatus K r mc = (mc', err, [Call_Status_Update mc'])"
    by (simp add: ManagedCluster_updateStatus_def Let_def m mc'_def ready_def condition_def
        err_def split: option.split)
  have 2: "Condition.Type ready = ReadyCondition K"
    by (simp add: ready_def condition_def)
  have 3: "ManagedClusterStatus.Conditions (Object.Status mc') =
       SetStatusCondition (ManagedClusterStatus.Conditions (Object.Status mc)) ready"
    by (simp add: mc'_def setCondition_def)
  have 4: "err = None \<longleftrightarrow> Status_Update r mc' = None"
    by (simp add: err_def split: option.split)
  from 1 2 3 4 show ?thesis
    by (intro exI [of _ mc'] exI [of _ err] exI [of _ ready] conjI)
qed

lemma setCondition_find_same:
  "FindStatusCondition (ManagedClusterStatus.Conditions (Object.Status (setCondition mc c)))
     (Condition.Type c) = Some c"
  by (simp add: setCondition_def Find_Set_same)

lemma setCondition_find_other:
  "t \<noteq> Condition.Type c \<Longrightarrow>
   FindStatusCondition (ManagedClusterStatus.Conditions (Object.Status (setCondition mc c))) t =
   FindStatusCondition (ManagedClusterStatus.Conditions (Object.Status mc)) t"
  by (simp add: setCondition_def Find_Set_other)

lemma setCondition_meta [simp]:
  "Name (setCondition mc c) = Name mc" "Namespace (setCondition mc c) = Namespace mc"
  "Spec (setCondition mc c) = Spec mc" "Finalizers (setCondition mc c) = Finalizers mc"
  by (simp_all add: setCondition_def)

lemma condition_sel [simp]:
  "Condition.Type (condition t s re m) = t" "Condition.Status (condition t s re m) = s"
  "Reason (condition t s re m) = re" "Message (condition t s re m) = m"
  by (simp_all add: condition_def)

subsection \<open>The aggregate Ready condition\<close>

text \<open>
  Claim C7. \<open>updateStatus\<close> sets the Ready condition from the other conditions and sends
  the status: Ready is False, with the messages of the False conditions concatenated, when
  some condition other than Ready is False; otherwise Unknown, with the messages of the
  Unknown conditions, when some is Unknown; otherwise True. The other conditions are left
  as they were. (\<open>Update\<close> defers this call, so it runs after every other step.)
\<close>

theorem updateStatus_Ready_aggregate:
  "let conditions = ManagedClusterStatus.Conditions (Object.Status mc);
       others = filter (\<lambda>c. Condition.Type c \<noteq> ReadyCondition K) conditions;
       falses = filter (\<lambda>c. Condition.Status c = ConditionFalse) others;
       unknowns = filter (\<lambda>c. Condition.Status c = ConditionUnknown) others;
       messages = (\<lambda>cs. concat (map (\<lambda>c. Message c @ ''. '') cs))
   in \<exists>mc' err.
        ManagedCluster_updateStatus K r mc = (mc', err, [Call_Status_Update mc']) \<and>
        FindStatusCondition (ManagedClusterStatus.Conditions (Object.Status mc')) (ReadyCondition K) =
          Some (if falses \<noteq> [] then
                  condition (ReadyCondition K) ConditionFalse (FailedReason K) (messages falses)
                else if unknowns \<noteq> [] then
                  condition (ReadyCondition K) ConditionUnknown (ProgressingReason K)
                    (messages unknowns)
                else
                  condition (ReadyCondition K) ConditionTrue (SucceededReason K)
                    ''ManagedCluster is ready'') \<and>
        filter (\<lambda>c. Condition.Type c \<noteq> ReadyCondition K)
          (ManagedClusterStatus.Conditions (Object.Status mc')) = others"
proof -
  define conditions where "conditions = ManagedClusterStatus.Conditions (Object.Status mc)"
  define falses where "falses = filter (\<lambda>c. Condition.Type c \<noteq> ReadyCondition K
      \<and> Condition.Status c = ConditionFalse) conditions"
  define unknowns where "unknowns = filter (\<lambda>c. Condition.Type c \<noteq> ReadyCondition K
      \<and> Condition.Status c = ConditionUnknown) conditions"
  define ready where "ready =
     (if falses \<noteq> [] then
        condition (ReadyCondition K) ConditionFalse (FailedReason K)
          (concat (map (\<lambda>c. Message c @ ''. '') falses))
      else if unknowns \<noteq> [] then
        condition (ReadyCondition K) ConditionUnknown (ProgressingReason K)
          (concat (map (\<lambda>c. Message c @ ''. '') unknowns))
      else condition (ReadyCondition K) ConditionTrue (SucceededReason K)
          ''ManagedCluster is ready'')"
  define mc' where "mc' = setCondition
      (mc\<lparr>Object.Status := (Object.Status mc)
         \<lparr>ManagedClusterStatus.ObservedGeneration := Generation mc\<rparr>\<rparr>) ready"
  have t: "Condition.Type ready = ReadyCondition K"
    by (simp add: ready_def condition_def)
  have msgs: "updateStatus_messages K conditions ([], []) =
      (concat (map (\<lambda>c. Message c @ ''. '') unknowns),
       concat (map (\<lambda>c. Message c @ ''. '') falses))"
    by (simp add: updateStatus_messages_eq unknowns_def falses_def)
  have upd: "ManagedCluster_updateStatus K r mc =
      (mc', (case Status_Update r mc' of
               Some err \<Rightarrow> Some (Wrapped (''failed to update status for managedCluster ''
                 @ Namespace mc' @ ''/'' @ Name mc' @ '': '') err)
             | None \<Rightarrow> None), [Call_Status_Update mc'])"
    by (simp add: ManagedCluster_updateStatus_def Let_def conditions_def [symmetric] msgs
        mc'_def ready_def condition_def messages_empty split: option.split)
  have conds: "ManagedClusterStatus.Conditions (Object.Status mc') =
      SetStatusCondition conditions ready"
    by (simp add: mc'_def setCondition_def conditions_def)
  have find: "FindStatusCondition (ManagedClusterStatus.Conditions (Object.Status mc'))
      (ReadyCondition K) = Some ready"
    unfolding conds using Find_Set_same [of conditions ready] by (simp add: t)
  have rest: "filter (\<lambda>c. Condition.Type c \<noteq> ReadyCondition K)
      (ManagedClusterStatus.Conditions (Object.Status mc')) =
      filter (\<lambda>c. Condition.Type c \<noteq> ReadyCondition K) conditions"
    unfolding conds using filter_Set_other [of ready conditions] by (simp add: t)
  have f: "filter (\<lambda>c. Condition.Status c = ConditionFalse)
      (filter (\<lambda>c. Condition.Type c \<noteq> ReadyCondition K) conditions) = falses"
    by (simp add: falses_def conj_commute)
  have u: "filter (\<lambda>c. Condition.Status c = ConditionUnknown)
      (filter (\<lambda>c. Condition.Type c \<noteq> ReadyCondition K) conditions) = unknowns"
    by (simp add: unknowns_def conj_commute)
  show ?thesis
    unfolding Let_def conditions_def [symmetric] f u
    using upd find rest by (simp add: ready_def)
qed

theorem updateStatus_Ready_aggregate_witness:
  "\<exists>mc' err.
     ManagedCluster_updateStatus hmc_example (mc_reconciler_example (\<lambda>opts. []))
       (managedcluster_example [] ''invalid'' False []
          [condition ''TemplateReady'' ''False'' ''Failed'' ''provided template is not marked as valid'',
           condition ''HelmChartReady'' ''Unknown'' ''Progressing'' ''HelmChart is not yet ready'',
           condition ''Ready'' ''Unknown'' ''Progressing'' ''ManagedCluster is not yet ready''])
       = (mc', err, [Call_Status_Update mc']) \<and>
     FindStatusCondition (ManagedClusterStatus.Conditions (Object.Status mc')) ''Ready'' =
       Some (condition ''Ready'' ''False'' ''Failed'' ''provided template is not marked as valid. '')"
  using updateStatus_Ready_aggregate [of
      "managedcluster_example [] ''invalid'' False []
          [condition ''TemplateReady'' ''False'' ''Failed'' ''provided template is not marked as valid'',
           condition ''HelmChartReady'' ''Unknown'' ''Progressing'' ''HelmChart is not yet ready'',
           condition ''Ready'' ''Unknown'' ''Progressing'' ''ManagedCluster is not yet ready'']"
      hmc_example "mc_reconciler_example (\<lambda>opts. [])"]
  apply (simp add: Let_def managedcluster_example_def hmc_example_def ConditionFalse_def
      ConditionUnknown_def)
  apply (elim exE conjE)
  apply (intro exI conjI)
   apply assumption+
  done

subsection \<open>The steps of Update\<close>

lemma Update_with_steps:
  assumes fin: "ManagedClusterFinalizer K \<in> set (Finalizers mc)"
    and steps: "Update_steps services K r (initial K mc) = ((mc3, Returns (res, err)), calls)"
  shows "\<exists>mc' serr ready.
     Update_with services K r mc =
       ((mc', Returns (res, errors_Join [err, serr])), calls @ [Call_Status_Update mc']) \<and>
     Condition.Type ready = ReadyCondition K \<and>
     ManagedClusterStatus.Conditions (Object.Status mc') =
       SetStatusCondition (ManagedClusterStatus.Conditions (Object.Status mc3)) ready \<and>
     (serr = None \<longleftrightarrow> Status_Update r mc' = None)"
proof -
  from updateStatus_shape [of K r mc3] obtain mc' serr ready where
    u: "ManagedCluster_updateStatus K r mc3 = (mc', serr, [Call_Status_Update mc'])"
    and t: "Condition.Type ready = ReadyCondition K"
    and c: "ManagedClusterStatus.Conditions (Object.Status mc') =
       SetStatusCondition (ManagedClusterStatus.Conditions (Object.Status mc3)) ready"
    and e: "serr = None \<longleftrightarrow> Status_Update r mc' = None"
    by auto
  have "Update_with services K r mc =
       ((mc', Returns (res, errors_Join [err, serr])), calls @ [Call_Status_Update mc'])"
    using fin steps u
    by (simp add: Update_with_def AddFinalizer_def Let_def initial_def split: if_splits)
  with t c e show ?thesis
    by (intro exI [of _ mc'] exI [of _ serr] exI [of _ ready] conjI)
qed

text \<open>
  Claim C5. In a pass of \<open>Update\<close> over a ManagedCluster that carries its finalizer and
  whose ClusterTemplate exists but is not marked as valid, the pass sets TemplateReady to
  False with the message "provided template is not marked as valid" and returns an error
  that carries it; its only calls are the lookup of the template and the status update, so
  no HelmRelease is reconciled. Both variants of \<open>Update\<close> behave so.
\<close>

theorem invalid_template_stops_pass:
  assumes fin: "ManagedClusterFinalizer K \<in> set (Finalizers mc)"
    and get: "Get_ClusterTemplate r (SystemNamespace r) (ManagedClusterSpec.Template (Spec mc))
                = Inr template"
    and inv: "\<not> Valid (Object.Status template)"
    and ne: "TemplateReadyCondition K \<noteq> ReadyCondition K"
  shows "\<exists>mc' e.
     ManagedCluster_Update K r mc =
       ((mc', Returns (Result_zero, Some e)),
        [Call_Get_ClusterTemplate (SystemNamespace r) (ManagedClusterSpec.Template (Spec mc)),
         Call_Status_Update mc']) \<and>
     ManagedCluster_Update_v1 K r mc = ManagedCluster_Update K r mc \<and>
     FindStatusCondition (ManagedClusterStatus.Conditions (Object.Status mc'))
         (TemplateReadyCondition K) =
       Some (condition (TemplateReadyCondition K) ConditionFalse (FailedReason K)
               ''provided template is not marked as valid'') \<and>
     Failure ''provided template is not marked as valid'' \<in> set (leaves e)"
proof -
  let ?c = "condition (TemplateReadyCondition K) ConditionFalse (FailedReason K)
               ''provided template is not marked as valid''"
  have spec: "Spec (initial K mc) = Spec mc"
    by (simp add: initial_def)
  have steps: "\<And>services. Update_steps services K r (initial K mc) =
      ((setCondition (initial K mc) ?c,
        Returns (Result_zero, Some (Failure ''provided template is not marked as valid''))),
       [Call_Get_ClusterTemplate (SystemNamespace r) (ManagedClusterSpec.Template (Spec mc))])"
    using get inv by (simp add: Update_steps_def spec Let_def errors_New_def)
  from Update_with_steps [OF fin steps, of "updateServices K r"]
  obtain mc' serr ready where
    u: "Update_with (updateServices K r) K r mc =
       ((mc', Returns (Result_zero,
           errors_Join [Some (Failure ''provided template is not marked as valid''), serr])),
        [Call_Get_ClusterTemplate (SystemNamespace r) (ManagedClusterSpec.Template (Spec mc))]
          @ [Call_Status_Update mc'])"
    and t: "Condition.Type ready = ReadyCondition K"
    and c: "ManagedClusterStatus.Conditions (Object.Status mc') =
       SetStatusCondition (ManagedClusterStatus.Conditions
         (Object.Status (setCondition (initial K mc) ?c))) ready"
    by auto
  have same: "Update_with (Update_v1_services K r) K r mc = Update_with (updateServices K r) K r mc"
    using fin steps [of "Update_v1_services K r"] steps [of "updateServices K r"]
    by (simp add: Update_with_def AddFinalizer_def Let_def initial_def split: if_splits)
  have find: "FindStatusCondition (ManagedClusterStatus.Conditions (Object.Status mc'))
         (TemplateReadyCondition K) = Some ?c"
    unfolding c using ne t setCondition_find_same [of "initial K mc" ?c]
    by (simp add: Find_Set_other)
  show ?thesis
    using u same find
    by (simp add: ManagedCluster_Update_def ManagedCluster_Update_v1_def errors_Join_first)
qed

theorem invalid_template_stops_pass_witness:
  "ManagedClusterFinalizer hmc_example \<in> set (Finalizers
      (managedcluster_example [''hmc.mirantis.com/managed-cluster''] ''invalid'' False [] [])) \<and>
   Get_ClusterTemplate (mc_reconciler_example (\<lambda>opts. [])) ''hmc-system'' ''invalid''
     = Inr (clustertemplate_example ''invalid'') \<and>
   \<not> Valid (Object.Status (clustertemplate_example ''invalid'')) \<and>
   (\<exists>mc' e.
      ManagedCluster_Update hmc_example (mc_reconciler_example (\<lambda>opts. []))
        (managedcluster_example [''hmc.mirantis.com/managed-cluster''] ''invalid'' False [] []) =
        ((mc', Returns (Result_zero, Some e)),
         [Call_Get_ClusterTemplate ''hmc-system'' ''invalid'', Call_Status_Update mc']) \<and>
      FindStatusCondition (ManagedClusterStatus.Conditions (Object.Status mc')) ''TemplateReady'' =
        Some (condition ''TemplateReady'' ''False'' ''Failed''
                ''provided template is not marked as valid'') \<and>
      Failure ''provided template is not marked as valid'' \<in> set (leaves e))"
proof -
  let ?mc = "managedcluster_example [''hmc.mirantis.com/managed-cluster''] ''invalid'' False [] []"
  let ?r = "mc_reconciler_example (\<lambda>opts. [])"
  have h1: "ManagedClusterFinalizer hmc_example \<in> set (Finalizers ?mc)"
    by (simp add: managedcluster_example_def hmc_example_def)
  have h2: "Get_ClusterTemplate ?r (SystemNamespace ?r) (ManagedClusterSpec.Template (Spec ?mc))
      = Inr (clustertemplate_example ''invalid'')"
    by (simp add: managedcluster_example_def mc_reconciler_example_def)
  have h3: "\<not> Valid (Object.Status (clustertemplate_example ''invalid''))"
    by (simp add: clustertemplate_example_def)
  have h4: "TemplateReadyCondition hmc_example \<noteq> ReadyCondition hmc_example"
    by (simp add: hmc_example_def)
  have c: "SystemNamespace ?r = ''hmc-system''" "ManagedClusterSpec.Template (Spec ?mc) = ''invalid''"
    "TemplateReadyCondition hmc_example = ''TemplateReady''" "FailedReason hmc_example = ''Failed''"
    by (simp_all add: managedcluster_example_def mc_reconciler_example_def hmc_example_def)
  from invalid_template_stops_pass [OF h1 h2 h3 h4] h1 h2 h3 show ?thesis
    unfolding c ConditionFalse_def by auto
qed

text \<open>
  Claim C3. In a pass of \<open>Update\<close> over a ManagedCluster with \<open>dryRun = true\<close> that
  carries its finalizer, whose template is valid, whose chart source is found and downloads,
  and whose values pass the dry-run install (the Helm client initialised), the pass sets
  TemplateReady and HelmChartReady to True, leaves the HelmReleaseReady condition as it was
  when the steps started, and makes exactly the calls listed: no HelmRelease and no
  ClusterProfile is reconciled. The pass returns the error of the status update only. Both
  variants of \<open>Update\<close> behave so.
\<close>

theorem dry_run_stops_before_release:
  assumes fin: "ManagedClusterFinalizer K \<in> set (Finalizers mc)"
    and dry: "DryRun (Spec mc)"
    and get: "Get_ClusterTemplate r (SystemNamespace r) (ManagedClusterSpec.Template (Spec mc))
                = Inr template"
    and valid: "Valid (Object.Status template)"
    and ref: "TemplateStatusCommon.ChartRef (Object.Status template) = Some ref"
    and src: "Get_HelmChart r (RefNamespace ref) (RefName ref) = Inr source"
    and dl: "helm_DownloadChartFromArtifact r (Artifact (Object.Status source)) = Inr hcChart"
    and init: "action_Init r (Namespace mc) = None"
    and vals: "HelmValues K (Spec mc) = Inr vals"
    and run: "install_RunWithContext r (Name mc) (Namespace mc) hcChart vals = None"
    and ne: "distinct [TemplateReadyCondition K, HelmChartReadyCondition K,
                       HelmReleaseReadyCondition K, ReadyCondition K]"
  shows "\<exists>mc' err.
     ManagedCluster_Update K r mc =
       ((mc', Returns (Result_zero, err)),
        [Call_Get_ClusterTemplate (SystemNamespace r) (ManagedClusterSpec.Template (Spec mc)),
         Call_Get_HelmChart (RefNamespace ref) (RefName ref),
         Call_DownloadChartFromArtifact (Artifact (Object.Status source)),
         Call_Init (Namespace mc),
         Call_RunWithContext (Name mc) (Namespace mc) hcChart vals,
         Call_Status_Update mc']) \<and>
     ManagedCluster_Update_v1 K r mc = ManagedCluster_Update K r mc \<and>
     (err = None \<longleftrightarrow> Status_Update r mc' = None) \<and>
     FindStatusCondition (ManagedClusterStatus.Conditions (Object.Status mc'))
         (TemplateReadyCondition K) =
       Some (condition (TemplateReadyCondition K) ConditionTrue (SucceededReason K)
               ''Template is valid'') \<and>
     FindStatusCondition (ManagedClusterStatus.Conditions (Object.Status mc'))
         (HelmChartReadyCondition K) =
       Some (condition (HelmChartReadyCondition K) ConditionTrue (SucceededReason K)
               ''Helm chart is valid'') \<and>
     FindStatusCondition (ManagedClusterStatus.Conditions (Object.Status mc'))
         (HelmReleaseReadyCondition K) =
       FindStatusCondition (ManagedClusterStatus.Conditions (Object.Status (initial K mc)))
         (HelmReleaseReadyCondition K)"
proof -
  let ?t = "condition (TemplateReadyCondition K) ConditionTrue (SucceededReason K)
               ''Template is valid''"
  let ?h = "condition (HelmChartReadyCondition K) ConditionTrue (SucceededReason K)
               ''Helm chart is valid''"
  let ?calls = "[Call_Get_ClusterTemplate (SystemNamespace r) (ManagedClusterSpec.Template (Spec mc)),
         Call_Get_HelmChart (RefNamespace ref) (RefName ref),
         Call_DownloadChartFromArtifact (Artifact (Object.Status source)),
         Call_Init (Namespace mc),
         Call_RunWithContext (Name mc) (Namespace mc) hcChart vals]"
  have meta: "Spec (initial K mc) = Spec mc" "Name (initial K mc) = Name mc"
    "Namespace (initial K mc) = Namespace mc"
    by (simp_all add: initial_def)
  have steps: "\<And>services. Update_steps services K r (initial K mc) =
      ((setCondition (setCondition (initial K mc) ?t) ?h, Returns (Result_zero, None)), ?calls)"
    using dry get valid ref src dl init vals run
    by (simp add: Update_steps_def meta Let_def getSource_def validateReleaseWithValues_def)
  from Update_with_steps [OF fin steps, of "updateServices K r"]
  obtain mc' serr ready where
    u: "Update_with (updateServices K r) K r mc =
       ((mc', Returns (Result_zero, errors_Join [None, serr])), ?calls @ [Call_Status_Update mc'])"
    and t: "Condition.Type ready = ReadyCondition K"
    and c: "ManagedClusterStatus.Conditions (Object.Status mc') =
       SetStatusCondition (ManagedClusterStatus.Conditions
         (Object.Status (setCondition (setCondition (initial K mc) ?t) ?h))) ready"
    and e: "serr = None \<longleftrightarrow> Status_Update r mc' = None"
    by auto
  have same: "Update_with (Update_v1_services K r) K r mc = Update_with (updateServices K r) K r mc"
    using fin steps [of "Update_v1_services K r"] steps [of "updateServices K r"]
    by (simp add: Update_with_def AddFinalizer_def Let_def initial_def split: if_splits)
  from ne have d:
    "TemplateReadyCondition K \<noteq> HelmChartReadyCondition K"
    "TemplateReadyCondition K \<noteq> ReadyCondition K"
    "HelmChartReadyCondition K \<noteq> ReadyCondition K"
    "HelmReleaseReadyCondition K \<noteq> TemplateReadyCondition K"
    "HelmReleaseReadyCondition K \<noteq> HelmChartReadyCondition K"
    "HelmReleaseReadyCondition K \<noteq> ReadyCondition K"
    by auto
  have f1: "FindStatusCondition (ManagedClusterStatus.Conditions (Object.Status mc'))
         (TemplateReadyCondition K) = Some ?t"
    unfolding c using d t setCondition_find_same [of "initial K mc" ?t]
    by (simp add: Find_Set_other setCondition_find_other)
  have f2: "FindStatusCondition (ManagedClusterStatus.Conditions (Object.Status mc'))
         (HelmChartReadyCondition K) = Some ?h"
    unfolding c using d t setCondition_find_same [of "setCondition (initial K mc) ?t" ?h]
    by (simp add: Find_Set_other)
  have f3: "FindStatusCondition (ManagedClusterStatus.Conditions (Object.Status mc'))
         (HelmReleaseReadyCondition K) =
       FindStatusCondition (ManagedClusterStatus.Conditions (Object.Status (initial K mc)))
         (HelmReleaseReadyCondition K)"
    unfolding c using d t by (simp add: Find_Set_other setCondition_find_other)
  have e': "errors_Join [None, serr] = None \<longleftrightarrow> Status_Update r mc' = None"
    using e by (cases serr) (auto simp: errors_Join_None)
  show ?thesis
    using u same f1 f2 f3 e'
    by (intro exI [of _ mc'] exI [of _ "errors_Join [None, serr]"] conjI)
      (simp_all add: ManagedCluster_Update_def ManagedCluster_Update_v1_def)
qed

theorem dry_run_stops_before_release_witness:
  "DryRun (Spec (managedcluster_example [''hmc.mirantis.com/managed-cluster''] ''aws'' True [] [])) \<and>
   Valid (Object.Status (clustertemplate_example ''aws'')) \<and>
   (\<exists>mc'.
      ManagedCluster_Update hmc_example (mc_reconciler_example (\<lambda>opts. []))
        (managedcluster_example [''hmc.mirantis.com/managed-cluster''] ''aws'' True [] []) =
        ((mc', Returns (Result_zero, None)),
         [Call_Get_ClusterTemplate ''hmc-system'' ''aws'',
          Call_Get_HelmChart ''hmc-system'' ''aws'',
          Call_DownloadChartFromArtifact
            (Some \<lparr>Artifact.URL = ''http://source/aws'', Revision = ''0.1.0''\<rparr>),
          Call_Init ''team-a'',
          Call_RunWithContext ''dev'' ''team-a'' (chart_example []) [],
          Call_Status_Update mc']) \<and>
      FindStatusCondition (ManagedClusterStatus.Conditions (Object.Status mc')) ''TemplateReady'' =
        Some (condition ''TemplateReady'' ''True'' ''Succeeded'' ''Template is valid'') \<and>
      FindStatusCondition (ManagedClusterStatus.Conditions (Object.Status mc')) ''HelmChartReady'' =
        Some (condition ''HelmChartReady'' ''True'' ''Succeeded'' ''Helm chart is valid'') \<and>
      FindStatusCondition (ManagedClusterStatus.Conditions (Object.Status mc')) ''HelmReleaseReady'' =
        None)"
proof -
  let ?mc = "managedcluster_example [''hmc.mirantis.com/managed-cluster''] ''aws'' True [] []"
  let ?r = "mc_reconciler_example (\<lambda>opts. [])"
  let ?ref = "\<lparr>RefKind = ''HelmChart'', RefName = ''aws'', RefNamespace = ''hmc-system''\<rparr>"
  have h1: "ManagedClusterFinalizer hmc_example \<in> set (Finalizers ?mc)"
    by (simp add: managedcluster_example_def hmc_example_def)
  have h2: "DryRun (Spec ?mc)"
    by (simp add: managedcluster_example_def)
  have h3: "Get_ClusterTemplate ?r (SystemNamespace ?r) (ManagedClusterSpec.Template (Spec ?mc))
      = Inr (clustertemplate_example ''aws'')"
    by (simp add: managedcluster_example_def mc_reconciler_example_def)
  have h4: "Valid (Object.Status (clustertemplate_example ''aws''))"
    by (simp add: clustertemplate_example_def)
  have h5: "TemplateStatusCommon.ChartRef (Object.Status (clustertemplate_example ''aws'')) = Some ?ref"
    by (simp add: clustertemplate_example_def)
  have h6: "Get_HelmChart ?r (RefNamespace ?ref) (RefName ?ref) = Inr (helmchart_example ''hmc-system'' ''aws'')"
    by (simp add: mc_reconciler_example_def)
  have h7: "helm_DownloadChartFromArtifact ?r (Artifact (Object.Status (helmchart_example ''hmc-system'' ''aws'')))
      = Inr (chart_example [])"
    by (simp add: mc_reconciler_example_def)
  have h8: "action_Init ?r (Namespace ?mc) = None"
    by (simp add: mc_reconciler_example_def)
  have h9: "HelmValues hmc_example (Spec ?mc) = Inr []"
    by (simp add: hmc_example_def)
  have h10: "install_RunWithContext ?r (Name ?mc) (Namespace ?mc) (chart_example []) [] = None"
    by (simp add: mc_reconciler_example_def)
  have h11: "distinct [TemplateReadyCondition hmc_example, HelmChartReadyCondition hmc_example,
                       HelmReleaseReadyCondition hmc_example, ReadyCondition hmc_example]"
    by (simp add: hmc_example_def)
  have c: "SystemNamespace ?r = ''hmc-system''" "ManagedClusterSpec.Template (Spec ?mc) = ''aws''"
    "RefNamespace ?ref = ''hmc-system''" "RefName ?ref = ''aws''"
    "Artifact (Object.Status (helmchart_example ''hmc-system'' ''aws'')) =
       Some \<lparr>Artifact.URL = ''http://source/aws'', Revision = ''0.1.0''\<rparr>"
    "Namespace ?mc = ''team-a''" "Name ?mc = ''dev''"
    "TemplateReadyCondition hmc_example = ''TemplateReady''"
    "HelmChartReadyCondition hmc_example = ''HelmChartReady''"
    "HelmReleaseReadyCondition hmc_example = ''HelmReleaseReady''"
    "SucceededReason hmc_example = ''Succeeded''"
    "\<And>m. Status_Update ?r m = None"
    "FindStatusCondition (ManagedClusterStatus.Conditions (Object.Status (initial hmc_example ?mc)))
       ''HelmReleaseReady'' = None"
    by (simp_all add: managedcluster_example_def mc_reconciler_example_def hmc_example_def
        helmchart_example_def initial_def InitConditions_example_def)
  from dry_run_stops_before_release [OF h1 h2 h3 h4 h5 h6 h7 h8 h9 h10 h11] h2 h4 show ?thesis
    unfolding c ConditionTrue_def by auto
qed

subsection \<open>The add-on pass\<close>

lemma getServiceTemplateRepoURL_calls:
  "getServiceTemplateRepoURL r tmpl = (res, calls) \<Longrightarrow> \<not> list_ex is_profile_call calls"
  by (auto simp: getServiceTemplateRepoURL_def Let_def split: option.splits sum.splits)

lemma updateServices_opts_calls:
  "updateServices_opts r mc svcs opts = (res, calls) \<Longrightarrow> \<not> list_ex is_profile_call calls"
proof (induction svcs arbitrary: opts res calls)
  case Nil
  then show ?case by auto
next
  case (Cons svc svcs)
  show ?case
  proof (cases "Install svc")
    case False
    with Cons show ?thesis by simp
  next
    case True
    show ?thesis
    proof (cases "Get_ServiceTemplate r (Namespace mc) (ServiceSpec.Template svc)")
      case (Inl e)
      with True Cons.prems show ?thesis by (auto simp: Let_def)
    next
      case (Inr tmpl)
      obtain u c where u: "getServiceTemplateRepoURL r tmpl = (u, c)"
        by (cases "getServiceTemplateRepoURL r tmpl") auto
      note c = getServiceTemplateRepoURL_calls [OF u]
      show ?thesis
      proof (cases u)
        case (Inl e)
        with True Inr u c Cons.prems show ?thesis by (auto simp: Let_def)
      next
        case (Inr url)
        obtain res' c' where
          rest: "updateServices_opts r mc svcs (opts @ [service_opts svc tmpl url]) = (res', c')"
          by (cases "updateServices_opts r mc svcs (opts @ [service_opts svc tmpl url])") auto
        from Cons.IH [OF rest] True
          \<open>Get_ServiceTemplate r (Namespace mc) (ServiceSpec.Template svc) = Inr tmpl\<close>
          u Inr c rest Cons.prems
        show ?thesis by (auto simp: Let_def)
      qed
    qed
  qed
qed

lemma updateServices_opts_unresolved:
  assumes "Install svc" and "unresolved r mc svc"
  shows "\<exists>err calls. updateServices_opts r mc (svc # post) opts = (Inl err, calls) \<and>
           updateServices_opts r mc [svc] opts = (Inl err, calls)"
  using assms
  by (auto simp: unresolved_def Let_def split: sum.splits prod.splits)

lemma updateServices_opts_abort:
  assumes "Install svc" and "unresolved r mc svc"
  shows "\<exists>err calls. updateServices_opts r mc (pre @ svc # post) opts = (Inl err, calls) \<and>
           updateServices_opts r mc (pre @ [svc]) opts = (Inl err, calls)"
proof (induction pre arbitrary: opts)
  case Nil
  show ?case using updateServices_opts_unresolved [OF assms] by simp
next
  case (Cons a pre)
  show ?case
  proof (cases "Install a")
    case False
    then show ?thesis using Cons.IH by simp
  next
    case True
    show ?thesis
    proof (cases "Get_ServiceTemplate r (Namespace mc) (ServiceSpec.Template a)")
      case (Inl e)
      with True show ?thesis by (simp add: Let_def)
    next
      case (Inr tmpl)
      obtain res c where u: "getServiceTemplateRepoURL r tmpl = (res, c)"
        by (cases "getServiceTemplateRepoURL r tmpl") auto
      show ?thesis
      proof (cases res)
        case (Inl e)
        with True Inr u show ?thesis by (simp add: Let_def)
      next
        case (Inr url)
        from Cons.IH [of "opts @ [service_opts a tmpl url]"]
        obtain err calls where
          "updateServices_opts r mc (pre @ svc # post) (opts @ [service_opts a tmpl url])
             = (Inl err, calls)"
          "updateServices_opts r mc (pre @ [svc]) (opts @ [service_opts a tmpl url])
             = (Inl err, calls)"
          by auto
        with True \<open>Get_ServiceTemplate r (Namespace mc) (ServiceSpec.Template a) = Inr tmpl\<close> u Inr
        show ?thesis by (simp add: Let_def)
      qed
    qed
  qed
qed

lemma fst_case_prod_snd: "fst (case p of (a, b) \<Rightarrow> (a, f b)) = fst p"
  by (cases p) simp

lemma Update_v1_opts_skip:
  assumes "Get_ServiceTemplate r (SystemNamespace r) (ServiceSpec.Template svc) = Inl e"
  shows "fst (Update_v1_opts r (pre @ svc # post) opts) = fst (Update_v1_opts r (pre @ post) opts)"
proof (induction pre arbitrary: opts)
  case Nil
  show ?case using assms by (simp add: Let_def fst_case_prod_snd)
next
  case (Cons a pre)
  show ?case
    using Cons.IH by (simp add: Let_def fst_case_prod_snd split: sum.splits)
qed

text \<open>
  Claim C4, as stated, fails on the inline loop of the earlier \<open>Update\<close>: the service
  whose ServiceTemplate cannot be fetched is skipped, the pass goes on to the services after
  it, reconciles the ClusterProfile with the entries of the other two services and returns
  no error.
\<close>

theorem earlier_service_loop_skips_unresolved_service:
  "Install (service_example ''missing'' True) \<and>
   Get_ServiceTemplate (mc_reconciler_example (\<lambda>opts. [])) ''hmc-system'' ''missing''
     = Inl (NotFound ''not found'') \<and>
   Update_v1_services hmc_example (mc_reconciler_example (\<lambda>opts. []))
       (managedcluster_example [''hmc.mirantis.com/managed-cluster''] ''aws'' False
          [service_example ''ingress'' True, service_example ''missing'' True,
           service_example ''dns'' True] []) =
     ((Result_zero, None),
      [Call_Get_ServiceTemplate ''hmc-system'' ''ingress'',
       Call_Get_ServiceTemplate ''hmc-system'' ''missing'',
       Call_Get_ServiceTemplate ''hmc-system'' ''dns'',
       Call_ReconcileClusterProfile ''dev'' ''team-a'' []
         \<lparr>ReconcileClusterProfileOpts.OwnerReference =
            Some \<lparr>APIVersion = ''hmc.mirantis.com/v1alpha1'', OwnerKind = ''ManagedCluster'',
                   OwnerName = ''dev'', OwnerUID = ''uid-dev''\<rparr>,
          HelmChartOpts = [service_opts_v1 (clustertemplate_example ''ingress''),
                           service_opts_v1 (clustertemplate_example ''dns'')]\<rparr>])"
  by (simp add: Update_v1_services_def owner_of_def Let_def
      mc_reconciler_example_def managedcluster_example_def service_example_def hmc_example_def)

text \<open>
  Claim C4, amended. In \<open>updateServices\<close>, for a service with \<open>install = true\<close> whose
  ServiceTemplate cannot be fetched or whose repository URL cannot be looked up, the pass
  returns an error, reconciles no ClusterProfile, and does what it would do if the list of
  services ended with that service: nothing after it is looked at. The inline loop of the
  earlier \<open>Update\<close> is different: a service whose ServiceTemplate cannot be fetched is
  skipped, and the ClusterProfile is reconciled with the entries of the other services.
\<close>

theorem updateServices_aborts_on_unresolved_service:
  assumes svcs: "Services (Spec mc) = pre @ svc # post"
    and inst: "Install svc"
    and fail: "(\<exists>e. Get_ServiceTemplate r (Namespace mc) (ServiceSpec.Template svc) = Inl e) \<or>
               (\<exists>tmpl e. Get_ServiceTemplate r (Namespace mc) (ServiceSpec.Template svc) = Inr tmpl \<and>
                  fst (getServiceTemplateRepoURL r tmpl) = Inl e)"
  shows "\<exists>err calls.
     updateServices K r mc = ((Result_zero, Some err), calls) \<and>
     \<not> list_ex is_profile_call calls \<and>
     updateServices K r (mc\<lparr>Spec := (Spec mc)\<lparr>Services := pre @ [svc]\<rparr>\<rparr>)
       = ((Result_zero, Some err), calls) \<and>
     ((\<exists>e. Get_ServiceTemplate r (SystemNamespace r) (ServiceSpec.Template svc) = Inl e) \<longrightarrow>
        (\<exists>res calls'. Update_v1_services K r mc =
           (res, calls' @ [Call_ReconcileClusterProfile (Name mc) (Namespace mc) []
              \<lparr>ReconcileClusterProfileOpts.OwnerReference = Some (owner_of K mc),
               HelmChartOpts = fst (Update_v1_opts r (pre @ post) [])\<rparr>])))"
proof -
  from fail have un: "unresolved r mc svc"
    by (auto simp: unresolved_def)
  let ?mc = "mc\<lparr>Spec := (Spec mc)\<lparr>Services := pre @ [svc]\<rparr>\<rparr>"
  from updateServices_opts_abort [OF inst un, of pre post "[]"]
  obtain err calls where
    a: "updateServices_opts r mc (pre @ svc # post) [] = (Inl err, calls)"
    and b: "updateServices_opts r mc (pre @ [svc]) [] = (Inl err, calls)"
    by auto
  have same: "\<And>svcs opts. updateServices_opts r ?mc svcs opts = updateServices_opts r mc svcs opts"
  proof -
    fix svcs opts
    show "updateServices_opts r ?mc svcs opts = updateServices_opts r mc svcs opts"
      by (induction svcs arbitrary: opts)
        (simp_all add: Let_def cong: sum.case_cong prod.case_cong)
  qed
  have 1: "updateServices K r mc = ((Result_zero, Some err), calls)"
    using a svcs by (simp add: updateServices_def)
  have 2: "\<not> list_ex is_profile_call calls"
    using updateServices_opts_calls [OF a] .
  have 3: "updateServices K r ?mc = ((Result_zero, Some err), calls)"
    using b by (simp add: updateServices_def same)
  have 4: "(\<exists>e. Get_ServiceTemplate r (SystemNamespace r) (ServiceSpec.Template svc) = Inl e) \<longrightarrow>
        (\<exists>res calls'. Update_v1_services K r mc =
           (res, calls' @ [Call_ReconcileClusterProfile (Name mc) (Namespace mc) []
              \<lparr>ReconcileClusterProfileOpts.OwnerReference = Some (owner_of K mc),
               HelmChartOpts = fst (Update_v1_opts r (pre @ post) [])\<rparr>]))"
  proof
    assume "\<exists>e. Get_ServiceTemplate r (SystemNamespace r) (ServiceSpec.Template svc) = Inl e"
    then obtain e where "Get_ServiceTemplate r (SystemNamespace r) (ServiceSpec.Template svc) = Inl e"
      by auto
    from Update_v1_opts_skip [OF this, of pre post "[]"]
    show "\<exists>res calls'. Update_v1_services K r mc =
           (res, calls' @ [Call_ReconcileClusterProfile (Name mc) (Namespace mc) []
              \<lparr>ReconcileClusterProfileOpts.OwnerReference = Some (owner_of K mc),
               HelmChartOpts = fst (Update_v1_opts r (pre @ post) [])\<rparr>])"
      using svcs
      by (auto simp: Update_v1_services_def Let_def split: prod.splits option.splits)
  qed
  from 1 2 3 4 show ?thesis
    by (intro exI [of _ err] exI [of _ calls] conjI)
qed

theorem updateServices_aborts_on_unresolved_service_witness:
  "Install (service_example ''missing'' True) \<and>
   Get_ServiceTemplate (mc_reconciler_example (\<lambda>opts. [])) ''team-a'' ''missing''
     = Inl (NotFound ''not found'') \<and>
   (\<exists>err calls.
      updateServices hmc_example (mc_reconciler_example (\<lambda>opts. []))
        (managedcluster_example [''hmc.mirantis.com/managed-cluster''] ''aws'' False
           [service_example ''ingress'' True, service_example ''missing'' True,
            service_example ''dns'' True] [])
        = ((Result_zero, Some err), calls) \<and>
      \<not> list_ex is_profile_call calls \<and>
      updateServices hmc_example (mc_reconciler_example (\<lambda>opts. []))
        (managedcluster_example [''hmc.mirantis.com/managed-cluster''] ''aws'' False
           [service_example ''ingress'' True, service_example ''missing'' True] [])
        = ((Result_zero, Some err), calls))"
proof -
  let ?r = "mc_reconciler_example (\<lambda>opts. [])"
  let ?mc = "managedcluster_example [''hmc.mirantis.com/managed-cluster''] ''aws'' False
           [service_example ''ingress'' True, service_example ''missing'' True,
            service_example ''dns'' True] []"
  have svcs: "Services (Spec ?mc) =
      [service_example ''ingress'' True] @ service_example ''missing'' True # [service_example ''dns'' True]"
    by (simp add: managedcluster_example_def)
  have inst: "Install (service_example ''missing'' True)"
    by (simp add: service_example_def)
  have get: "Get_ServiceTemplate ?r ''team-a'' ''missing'' = Inl (NotFound ''not found'')"
    by (simp add: mc_reconciler_example_def)
  have fail: "(\<exists>e. Get_ServiceTemplate ?r (Namespace ?mc)
        (ServiceSpec.Template (service_example ''missing'' True)) = Inl e) \<or>
      (\<exists>tmpl e. Get_ServiceTemplate ?r (Namespace ?mc)
        (ServiceSpec.Template (service_example ''missing'' True)) = Inr tmpl \<and>
        fst (getServiceTemplateRepoURL ?r tmpl) = Inl e)"
    by (simp add: mc_reconciler_example_def service_example_def)
  have short: "?mc\<lparr>Spec := (Spec ?mc)\<lparr>Services :=
        [service_example ''ingress'' True] @ [service_example ''missing'' True]\<rparr>\<rparr> =
      managedcluster_example [''hmc.mirantis.com/managed-cluster''] ''aws'' False
           [service_example ''ingress'' True, service_example ''missing'' True] []"
    by (simp add: managedcluster_example_def)
  from updateServices_aborts_on_unresolved_service [OF svcs inst fail, of hmc_example]
  obtain err calls where
    "updateServices hmc_example ?r ?mc = ((Result_zero, Some err), calls)"
    "\<not> list_ex is_profile_call calls"
    "updateServices hmc_example ?r
       (managedcluster_example [''hmc.mirantis.com/managed-cluster''] ''aws'' False
           [service_example ''ingress'' True, service_example ''missing'' True] [])
      = ((Result_zero, Some err), calls)"
    unfolding short by blast
  with inst get show ?thesis
    by blast
qed

subsection \<open>The provider release gate\<close>

lemma providerGVKs_None: "providerGVKs p = None \<longleftrightarrow> p \<noteq> ''aws'' \<and> p \<noteq> ''azure''"
  by (simp add: providerGVKs_def)

lemma releaseCluster_providers_skip:
  "\<forall>q \<in> set pre. providerGVKs q = None \<Longrightarrow>
   releaseCluster_providers K r namespace name (pre @ ps) =
   releaseCluster_providers K r namespace name ps"
  by (induction pre) simp_all

lemma releaseCluster_providers_filter:
  "releaseCluster_providers K r namespace name ps =
   releaseCluster_providers K r namespace name (filter (\<lambda>p. providerGVKs p \<noteq> None) ps)"
  by (induction ps) (auto split: option.splits prod.splits sum.splits)

lemma RemoveFinalizer_inplace_steps:
  "k \<le> length f \<Longrightarrow>
   fold (\<lambda>i (f, index). if f ! i = x then (f, index) else (f[index := f ! i], index + 1))
     [0..<k] (f, 0) =
   (filter (\<lambda>e. e \<noteq> x) (take k f) @ drop (length (filter (\<lambda>e. e \<noteq> x) (take k f))) f,
    length (filter (\<lambda>e. e \<noteq> x) (take k f)))"
proof (induction k)
  case 0
  then show ?case by simp
next
  case (Suc k)
  let ?g = "filter (\<lambda>e. e \<noteq> x) (take k f)"
  let ?n = "length ?g"
  from Suc.prems have k: "k < length f" by simp
  have n: "?n \<le> k"
    using length_filter_le [of "\<lambda>e. e \<noteq> x" "take k f"] k by simp
  have rd: "(?g @ drop ?n f) ! k = f ! k"
    using n k by (simp add: nth_append)
  have tk: "take (Suc k) f = take k f @ [f ! k]"
    using k by (simp add: take_Suc_conv_app_nth)
  have wr: "(?g @ drop ?n f)[?n := f ! k] = (?g @ [f ! k]) @ drop (Suc ?n) f"
  proof -
    have "?n < length f" using n k by simp
    then have "drop ?n f = f ! ?n # drop (Suc ?n) f"
      by (simp add: Cons_nth_drop_Suc)
    then show ?thesis by (simp add: list_update_append)
  qed
  from Suc.IH k have
    "fold (\<lambda>i (f, index). if f ! i = x then (f, index) else (f[index := f ! i], index + 1))
       [0..<k] (f, 0) = (?g @ drop ?n f, ?n)"
    by simp
  then show ?case
    using rd wr by (simp add: tk)
qed

text \<open>
  The loop of \<open>RemoveFinalizer\<close> leaves the entries it keeps at the front of the array,
  and behind them the entries that were there before.
\<close>

lemma RemoveFinalizer_inplace_eq:
  "RemoveFinalizer_inplace f x =
     (filter (\<lambda>e. e \<noteq> x) f @ drop (length (filter (\<lambda>e. e \<noteq> x) f)) f,
      length (filter (\<lambda>e. e \<noteq> x) f))"
  using RemoveFinalizer_inplace_steps [of "length f" f x]
  by (simp add: RemoveFinalizer_inplace_def)


text \<open>
  Claim C10. The loop of \<open>releaseCluster\<close> gives the same result and makes the same calls
  as on the list with every name other than \<open>aws\<close> and \<open>azure\<close> removed: such a provider
  is skipped without any call. When no provider of the template is one of the two,
  \<open>releaseCluster\<close> returns nil, and its only call is the lookup of the template that
  yields the list: no list request and no patch.
\<close>

theorem other_providers_skipped:
  "releaseCluster_providers K r namespace name providers =
     releaseCluster_providers K r namespace name
       (filter (\<lambda>p. p = ''aws'' \<or> p = ''azure'') providers) \<and>
   ((\<forall>p \<in> set providers. p \<noteq> ''aws'' \<and> p \<noteq> ''azure'') \<longrightarrow>
      releaseCluster_providers K r namespace name providers = (None, [])) \<and>
   (\<forall>template.
      Get_ClusterTemplate r (SystemNamespace r) templateName = Inr template \<and>
      (\<forall>p \<in> set (InfrastructureProviders (TemplateStatusCommon.Providers (Object.Status template))).
         p \<noteq> ''aws'' \<and> p \<noteq> ''azure'') \<longrightarrow>
      releaseCluster K r namespace name templateName =
        (None, [Call_Get_ClusterTemplate (SystemNamespace r) templateName]))"
proof -
  have f: "(\<lambda>p. providerGVKs p \<noteq> None) = (\<lambda>p. p = ''aws'' \<or> p = ''azure'')"
    by (auto simp: providerGVKs_None)
  have 1: "releaseCluster_providers K r namespace name providers =
     releaseCluster_providers K r namespace name
       (filter (\<lambda>p. p = ''aws'' \<or> p = ''azure'') providers)"
    using releaseCluster_providers_filter [of K r namespace name providers] unfolding f .
  have 2: "\<And>ps. \<forall>p \<in> set ps. p \<noteq> ''aws'' \<and> p \<noteq> ''azure'' \<Longrightarrow>
      releaseCluster_providers K r namespace name ps = (None, [])"
    using releaseCluster_providers_skip [of _ K r namespace name "[]"]
    by (simp add: providerGVKs_None)
  show ?thesis
    using 1 2 by (auto simp: releaseCluster_def getProviders_def)
qed

theorem other_providers_skipped_witness:
  "Get_ClusterTemplate (mc_reconciler_example (\<lambda>opts. [])) ''hmc-system'' ''vsphere,openstack''
     = Inr (clustertemplate_example ''vsphere,openstack'') \<and>
   InfrastructureProviders (TemplateStatusCommon.Providers
       (Object.Status (clustertemplate_example ''vsphere,openstack'')))
     = [''vsphere'', ''openstack''] \<and>
   releaseCluster_providers hmc_example (mc_reconciler_example (\<lambda>opts. [])) ''team-a'' ''dev''
       [''vsphere'', ''openstack''] = (None, []) \<and>
   releaseCluster hmc_example (mc_reconciler_example (\<lambda>opts. [])) ''team-a'' ''dev''
       ''vsphere,openstack'' =
     (None, [Call_Get_ClusterTemplate ''hmc-system'' ''vsphere,openstack''])"
proof -
  let ?r = "mc_reconciler_example (\<lambda>opts. [])"
  have g: "Get_ClusterTemplate ?r ''hmc-system'' ''vsphere,openstack''
     = Inr (clustertemplate_example ''vsphere,openstack'')"
    by (simp add: mc_reconciler_example_def)
  have ps: "InfrastructureProviders (TemplateStatusCommon.Providers
       (Object.Status (clustertemplate_example ''vsphere,openstack'')))
     = [''vsphere'', ''openstack'']"
    by (simp add: clustertemplate_example_def Providers_zero_def)
  have s: "SystemNamespace ?r = ''hmc-system''"
    by (simp add: mc_reconciler_example_def)
  from other_providers_skipped [of hmc_example ?r "''team-a''" "''dev''"
      "[''vsphere'', ''openstack'']" "''vsphere,openstack''"] g ps
  show ?thesis unfolding s by auto
qed


text \<open>
  The loop of \<open>releaseCluster\<close> returns once a provider of the table has no machine. On a
  template that lists both \<open>aws\<close> and \<open>azure\<close>, with both infrastructure objects found by
  the release-name label, both carrying the blocking finalizer, and no machine listed, the
  pass patches the \<open>aws\<close> object and returns; the \<open>azure\<close> object is not listed and
  keeps its finalizer.
\<close>

theorem release_gate_second_provider_not_released:
  "InfrastructureProviders (TemplateStatusCommon.Providers
       (Object.Status (clustertemplate_example ''aws,azure''))) = [''aws'', ''azure''] \<and>
   Client_List (mc_reconciler_example (\<lambda>opts. [])) gvkAzureCluster
       \<lparr>LabelSelector = [(''helm.toolkit.fluxcd.io/name'', ''dev'')], ListNamespace = ''team-a'',
        Limit = 0\<rparr>
     = Inr [infra_example gvkAzureCluster ''team-a'' ''dev''] \<and>
   ''hmc.mirantis.com/cleanup'' \<in> set (Finalizers (infra_example gvkAzureCluster ''team-a'' ''dev'')) \<and>
   Client_List (mc_reconciler_example (\<lambda>opts. [])) gvkMachine
       \<lparr>LabelSelector = [(''cluster.x-k8s.io/cluster-name'', ''dev'')], ListNamespace = ''team-a'',
        Limit = 1\<rparr>
     = Inr [] \<and>
   ManagedCluster_Delete hmc_example (mc_reconciler_example (\<lambda>opts. []))
       (managedcluster_example [''hmc.mirantis.com/managed-cluster''] ''aws,azure'' False [] []) =
     ((managedcluster_example [''hmc.mirantis.com/managed-cluster''] ''aws,azure'' False [] [],
       requeueAfter DefaultRequeueInterval, None),
      [Call_Get_HelmRelease ''team-a'' ''dev'',
       Call_DeleteClusterProfile ''team-a'' ''dev'',
       Call_DeleteHelmRelease ''dev'' ''team-a'',
       Call_Get_ClusterTemplate ''hmc-system'' ''aws,azure'',
       Call_List gvkAWSCluster
         \<lparr>LabelSelector = [(''helm.toolkit.fluxcd.io/name'', ''dev'')], ListNamespace = ''team-a'',
          Limit = 0\<rparr>,
       Call_List gvkMachine
         \<lparr>LabelSelector = [(''cluster.x-k8s.io/cluster-name'', ''dev'')], ListNamespace = ''team-a'',
          Limit = 1\<rparr>,
       Call_Patch
         ((infra_example gvkAWSCluster ''team-a'' ''dev'')
            \<lparr>Finalizers := [''awscluster.infrastructure.cluster.x-k8s.io'']\<rparr>)
         ((infra_example gvkAWSCluster ''team-a'' ''dev'')
            \<lparr>Finalizers := [''awscluster.infrastructure.cluster.x-k8s.io'',
                            ''awscluster.infrastructure.cluster.x-k8s.io'']\<rparr>)])"
  by (simp add: ManagedCluster_Delete_def releaseCluster_def getProviders_def getCluster_def
      machinesAvailable_def removeClusterFinalizer_def providerGVKs_def
      RemoveFinalizer_inplace_eq mc_reconciler_example_def managedcluster_example_def clustertemplate_example_def
      infra_example_def hmc_example_def Providers_zero_def gvkAWSCluster_def gvkAzureCluster_def
      gvkMachine_def Let_def)



section \<open>Properties of the template controller\<close>

text \<open>
  Claim C8, as stated, fails on the three-kind reconciler: its \<open>parseChartMetadata\<close> reads
  no type, so a ClusterTemplate whose chart carries the unrecognised type annotation
  \<open>addon\<close> is validated, and its status is sent with \<open>valid = true\<close> and no
  validation error.
\<close>

theorem ReconcileTemplate_has_no_type_check:
  "annotation \<lparr>Annotations = [(''hmc.mirantis.com/type'', ''addon'')],
               ChartMetadata.Description = ''a chart''\<rparr> (ChartAnnotationType hmc_example)
     = ''addon'' \<and>
   ReconcileTemplate hmc_example
       (template_reconciler_example (\<lambda>ns n. Inl (NotFound [])) [(''hmc.mirantis.com/type'', ''addon'')])
       ''ClusterTemplate'' new_clustertemplate_example =
     ((Result_zero, None),
      [Call_ReconcileHelmRepository ''hmc-templates'' ''hmc-system'',
       Call_CreateOrUpdate_HelmChart
         (managed_HelmChart hmc_example ''aws-standalone'' ''hmc-system''
            (Helm (Spec new_clustertemplate_example)))
         [\<lparr>APIVersion = ''hmc.mirantis.com/v1alpha1'', OwnerKind = ''ClusterTemplate'',
           OwnerName = ''aws-standalone'', OwnerUID = ''uid-t''\<rparr>],
       Call_ArtifactReady (helmchart_example ''hmc-system'' ''aws-standalone''),
       Call_downloadHelmChartFunc
         (Some \<lparr>Artifact.URL = ''http://source/aws-standalone'', Revision = ''0.1.0''\<rparr>),
       Call_Status_Update
         (new_clustertemplate_example\<lparr>Object.Status :=
            \<lparr>Valid = True, ValidationError = [], Description = ''a chart'',
             TemplateStatusCommon.Config = Some ''{}'',
             TemplateStatusCommon.ChartRef =
               Some \<lparr>RefKind = ''HelmChart'', RefName = ''aws-standalone'',
                      RefNamespace = ''hmc-system''\<rparr>,
             TemplateStatusCommon.Providers = Providers_zero,
             TemplateStatusCommon.ObservedGeneration = 3\<rparr>\<rparr>)])"
  by code_simp

text \<open>
  Claim C8, amended. In the single-kind reconciler, for a template whose spec declares no
  type and a chart with metadata whose type annotation is none of the three recognised
  kinds, \<open>parseChartMetadata\<close> returns the fixed error, whose text names the annotation and
  the three kinds; and a pass that gets that chart returns this error, its last call being
  the status update of the template with \<open>valid = false\<close> and the error's text as
  \<open>validationError\<close>.
\<close>

theorem untyped_template_rejected:
  assumes notype: "TemplateSpec.Type (Spec template) = []"
    and md: "Metadata chart = Some md"
    and unknown: "annotation md (ChartAnnotationType K) \<noteq> TemplateTypeDeployment K"
      "annotation md (ChartAnnotationType K) \<noteq> TemplateTypeProvider K"
      "annotation md (ChartAnnotationType K) \<noteq> TemplateTypeCore K"
  shows "TemplateReconciler_parseChartMetadata K template chart
           = (template, Some (errNoProviderType K)) \<and>
     Error (errNoProviderType K) =
       ''template type is not supported: '' @ ChartAnnotationType K
         @ '' chart annotation must be one of ['' @ TemplateTypeDeployment K @ ''/''
         @ TemplateTypeProvider K @ ''/'' @ TemplateTypeCore K @ '']'' \<and>
     (\<forall>namespace name hcChart c1 report.
        Get_object r namespace name = Inr template \<and>
        TemplateReconciler_helmChart K r template = (Inr hcChart, c1) \<and>
        helm_ArtifactReady r hcChart = (report, None) \<and>
        downloadHelmChartFunc r (Artifact (Object.Status hcChart)) = Inr chart \<longrightarrow>
        (\<exists>template'.
           TemplateReconciler_Reconcile K r namespace name =
             ((Result_zero, Some (errNoProviderType K)),
              [Call_Get_object namespace name] @ c1 @
              [Call_ArtifactReady hcChart,
               Call_downloadHelmChartFunc (Artifact (Object.Status hcChart)),
               Call_Status_Update template']) \<and>
           \<not> Valid (Object.Status template') \<and>
           ValidationError (Object.Status template') = Error (errNoProviderType K)))"
proof -
  have parse: "\<And>t. TemplateSpec.Type (Spec t) = [] \<Longrightarrow>
      TemplateReconciler_parseChartMetadata K t chart = (t, Some (errNoProviderType K))"
    using md unknown by (simp add: TemplateReconciler_parseChartMetadata_def Let_def)
  have msg: "Error (errNoProviderType K) \<noteq> []"
    by (simp add: errNoProviderType_def)
  have pass: "\<And>namespace name hcChart c1 report.
        Get_object r namespace name = Inr template \<Longrightarrow>
        TemplateReconciler_helmChart K r template = (Inr hcChart, c1) \<Longrightarrow>
        helm_ArtifactReady r hcChart = (report, None) \<Longrightarrow>
        downloadHelmChartFunc r (Artifact (Object.Status hcChart)) = Inr chart \<Longrightarrow>
        (\<exists>template'.
           TemplateReconciler_Reconcile K r namespace name =
             ((Result_zero, Some (errNoProviderType K)),
              [Call_Get_object namespace name] @ c1 @
              [Call_ArtifactReady hcChart,
               Call_downloadHelmChartFunc (Artifact (Object.Status hcChart)),
               Call_Status_Update template']) \<and>
           \<not> Valid (Object.Status template') \<and>
           ValidationError (Object.Status template') = Error (errNoProviderType K))"
  proof -
    fix namespace name hcChart c1 report
    assume g: "Get_object r namespace name = Inr template"
      and h: "TemplateReconciler_helmChart K r template = (Inr hcChart, c1)"
      and a: "helm_ArtifactReady r hcChart = (report, None)"
      and d: "downloadHelmChartFunc r (Artifact (Object.Status hcChart)) = Inr chart"
    let ?t1 = "template\<lparr>Object.Status := (Object.Status template)
            \<lparr>TemplateStatusCommon.ChartRef := Some
               \<lparr>RefKind = sourcev1_HelmChartKind, RefName = Name hcChart,
                RefNamespace = Namespace hcChart\<rparr>\<rparr>\<rparr>"
    let ?t2 = "?t1\<lparr>Object.Status := (Object.Status ?t1)
          \<lparr>TemplateStatusCommon.ObservedGeneration := Generation ?t1,
           ValidationError := Error (errNoProviderType K),
           Valid := (Error (errNoProviderType K) = [])\<rparr>\<rparr>"
    have p1: "TemplateReconciler_parseChartMetadata K ?t1 chart = (?t1, Some (errNoProviderType K))"
      using notype by (intro parse) simp
    have v: "validate_chart (TemplateReconciler_parseChartMetadata K) r template hcChart =
        ((Result_zero, Some (errNoProviderType K)),
         [Call_ArtifactReady hcChart,
          Call_downloadHelmChartFunc (Artifact (Object.Status hcChart)),
          Call_Status_Update ?t2])"
      unfolding validate_chart_def Let_def
      using a d p1
      by (simp add: Template_updateStatus_def Let_def split: option.splits)
    have "TemplateReconciler_Reconcile K r namespace name =
             ((Result_zero, Some (errNoProviderType K)),
              [Call_Get_object namespace name] @ c1 @
              [Call_ArtifactReady hcChart,
               Call_downloadHelmChartFunc (Artifact (Object.Status hcChart)),
               Call_Status_Update ?t2])"
      using g h v by (simp add: TemplateReconciler_Reconcile_def Let_def)
    moreover have "\<not> Valid (Object.Status ?t2)" using msg by simp
    moreover have "ValidationError (Object.Status ?t2) = Error (errNoProviderType K)" by simp
    ultimately show "\<exists>template'.
           TemplateReconciler_Reconcile K r namespace name =
             ((Result_zero, Some (errNoProviderType K)),
              [Call_Get_object namespace name] @ c1 @
              [Call_ArtifactReady hcChart,
               Call_downloadHelmChartFunc (Artifact (Object.Status hcChart)),
               Call_Status_Update template']) \<and>
           \<not> Valid (Object.Status template') \<and>
           ValidationError (Object.Status template') = Error (errNoProviderType K)"
      by (intro exI [of _ ?t2] conjI)
  qed
  have wording: "Error (errNoProviderType K) =
       ''template type is not supported: '' @ ChartAnnotationType K
         @ '' chart annotation must be one of ['' @ TemplateTypeDeployment K @ ''/''
         @ TemplateTypeProvider K @ ''/'' @ TemplateTypeCore K @ '']''"
    by (simp add: errNoProviderType_def)
  show ?thesis
    using parse [OF notype] wording pass by (intro conjI allI impI) (simp, simp, blast)
qed

theorem untyped_template_rejected_witness:
  "TemplateSpec.Type (Spec untyped_template_example) = [] \<and>
   annotation \<lparr>Annotations = [(''hmc.mirantis.com/type'', ''addon'')],
               ChartMetadata.Description = ''a chart''\<rparr> (ChartAnnotationType hmc_example)
     = ''addon'' \<and>
   TemplateReconciler_parseChartMetadata hmc_example untyped_template_example
       (chart_example [(''hmc.mirantis.com/type'', ''addon'')]) =
     (untyped_template_example,
      Some (Failure (''template type is not supported: hmc.mirantis.com/type chart ''
                     @ ''annotation must be one of [deployment/provider/core]''))) \<and>
   (\<exists>template'.
      TemplateReconciler_Reconcile hmc_example
          (template_reconciler_example (\<lambda>ns n. Inr untyped_template_example)
             [(''hmc.mirantis.com/type'', ''addon'')])
          ''hmc-system'' ''aws-standalone'' =
        ((Result_zero,
          Some (Failure (''template type is not supported: hmc.mirantis.com/type chart ''
                         @ ''annotation must be one of [deployment/provider/core]''))),
         [Call_Get_object ''hmc-system'' ''aws-standalone'',
          Call_CreateOrUpdate_HelmChart
            (managed_HelmChart hmc_example ''aws-standalone'' ''hmc-system''
               (Helm (Spec untyped_template_example)))
            [\<lparr>APIVersion = ''hmc.mirantis.com/v1alpha1'', OwnerKind = ''Template'',
              OwnerName = ''aws-standalone'', OwnerUID = ''uid-t''\<rparr>],
          Call_ArtifactReady (helmchart_example ''hmc-system'' ''aws-standalone''),
          Call_downloadHelmChartFunc
            (Some \<lparr>Artifact.URL = ''http://source/aws-standalone'', Revision = ''0.1.0''\<rparr>),
          Call_Status_Update template']) \<and>
      \<not> Valid (Object.Status template') \<and>
      ValidationError (Object.Status template') =
        ''template type is not supported: hmc.mirantis.com/type chart ''
          @ ''annotation must be one of [deployment/provider/core]'')"
proof -
  let ?anns = "[(''hmc.mirantis.com/type'', ''addon'')]"
  let ?md = "\<lparr>Annotations = ?anns, ChartMetadata.Description = ''a chart''\<rparr>"
  let ?r = "template_reconciler_example (\<lambda>ns n. Inr untyped_template_example) ?anns"
  let ?hc = "helmchart_example ''hmc-system'' ''aws-standalone''"
  let ?c1 = "[Call_CreateOrUpdate_HelmChart
            (managed_HelmChart hmc_example ''aws-standalone'' ''hmc-system''
               (Helm (Spec untyped_template_example)))
            [\<lparr>APIVersion = ''hmc.mirantis.com/v1alpha1'', OwnerKind = ''Template'',
              OwnerName = ''aws-standalone'', OwnerUID = ''uid-t''\<rparr>]]"
  have h1: "TemplateSpec.Type (Spec untyped_template_example) = []"
    by (simp add: untyped_template_example_def)
  have h2: "Metadata (chart_example ?anns) = Some ?md"
    by (simp add: chart_example_def)
  have a: "annotation ?md (ChartAnnotationType hmc_example) = ''addon''"
    by (simp add: annotation_def hmc_example_def)
  have h3: "annotation ?md (ChartAnnotationType hmc_example) \<noteq> TemplateTypeDeployment hmc_example"
    "annotation ?md (ChartAnnotationType hmc_example) \<noteq> TemplateTypeProvider hmc_example"
    "annotation ?md (ChartAnnotationType hmc_example) \<noteq> TemplateTypeCore hmc_example"
    unfolding a by (simp_all add: hmc_example_def)
  have g: "Get_object ?r ''hmc-system'' ''aws-standalone'' = Inr untyped_template_example \<and>
      TemplateReconciler_helmChart hmc_example ?r untyped_template_example = (Inr ?hc, ?c1) \<and>
      helm_ArtifactReady ?r ?hc = (False, None) \<and>
      downloadHelmChartFunc ?r (Artifact (Object.Status ?hc)) = Inr (chart_example ?anns)"
    by (simp add: template_reconciler_example_def TemplateReconciler_helmChart_def
        TemplateReconciler_reconcileHelmChart_def untyped_template_example_def hmc_example_def
        managed_HelmChart_def Let_def)
  have e: "Error (errNoProviderType hmc_example) =
      ''template type is not supported: hmc.mirantis.com/type chart ''
        @ ''annotation must be one of [deployment/provider/core]''"
    "errNoProviderType hmc_example =
      Failure (''template type is not supported: hmc.mirantis.com/type chart ''
        @ ''annotation must be one of [deployment/provider/core]'')"
    by (simp_all add: errNoProviderType_def hmc_example_def)
  have art: "Artifact (Object.Status ?hc) =
      Some \<lparr>Artifact.URL = ''http://source/aws-standalone'', Revision = ''0.1.0''\<rparr>"
    by (simp add: helmchart_example_def)
  note t = untyped_template_rejected [OF h1 h2 h3, of ?r]
  from t have p: "TemplateReconciler_parseChartMetadata hmc_example untyped_template_example
       (chart_example ?anns) = (untyped_template_example, Some (errNoProviderType hmc_example))"
    by (rule conjunct1)
  from t [THEN conjunct2, THEN conjunct2, rule_format, OF g]
  obtain template' where
    "TemplateReconciler_Reconcile hmc_example ?r ''hmc-system'' ''aws-standalone'' =
       ((Result_zero, Some (errNoProviderType hmc_example)),
        [Call_Get_object ''hmc-system'' ''aws-standalone''] @ ?c1 @
        [Call_ArtifactReady ?hc, Call_downloadHelmChartFunc (Artifact (Object.Status ?hc)),
         Call_Status_Update template'])"
    "\<not> Valid (Object.Status template')"
    "ValidationError (Object.Status template') = Error (errNoProviderType hmc_example)"
    by blast
  with h1 a p show ?thesis
    unfolding e art by auto
qed


end
